theory Spec2Isabelle
  imports Complex_Main "HOL-Library.Log_Nat" "HOL-Library.Multiset"
begin

section \<open>Bedrock API timing test: a shallow embedding of bedrock-test-script.py\<close>

text \<open>
  The script times three stages of a model call (client initialisation, invocation,
  response parsing), repeats them \<open>iterations\<close> times and prints summary statistics.
  The embedding follows the source function by function. Exceptions are values of
  \<open>exn\<close> in the left summand of a sum; the console, \<open>time.sleep\<close> and the calls to
  boto3 are events appended to a trace; \<open>time.perf_counter\<close> reads a clock that the
  environment supplies; Python floats are the rationals they denote, every arithmetic
  operation rounded to the nearest double.
\<close>

subsection \<open>Python values and exceptions\<close>

text \<open>
  The exceptions the script itself can raise, and \<open>Raised msg\<close> for an exception that
  comes out of a collaborator (boto3, botocore, the json module, the rich console). All
  of them are subclasses of Python's \<open>Exception\<close>.
\<close>

datatype exn =
    IndexError
  | KeyError
  | TypeError
  | AttributeError
  | UnboundLocalError
  | ZeroDivisionError
  | OverflowError
  | Raised string

text \<open>
  What \<open>json.loads\<close> returns, and what the dict literals of the request bodies denote.
  A dict is an association list (the first binding of a key is the one looked up).
  \<open>JFloat\<close> carries a finite double.
\<close>

datatype json =
    JNull
  | JBool bool
  | JInt int
  | JFloat rat
  | JStr string
  | JArr "json list"
  | JObj "(string \<times> json) list"

fun bindE :: "exn + 'a \<Rightarrow> ('a \<Rightarrow> exn + 'b) \<Rightarrow> exn + 'b" where
  "bindE (Inl e) f = Inl e"
| "bindE (Inr v) f = f v"

text \<open>\<open>x.get(key, default)\<close>: only a dict has the method.\<close>

fun dict_get :: "json \<Rightarrow> string \<Rightarrow> json \<Rightarrow> exn + json" where
  "dict_get (JObj kvs) key dflt = Inr (case map_of kvs key of None \<Rightarrow> dflt | Some v \<Rightarrow> v)"
| "dict_get _ key dflt = Inl AttributeError"

text \<open>
  \<open>x[0]\<close>: the first element of a list or the first character of a string (IndexError
  when empty); a dict decoded from JSON has string keys only, so the key \<open>0\<close> is
  missing; the other values are not subscriptable.
\<close>

fun subscript0 :: "json \<Rightarrow> exn + json" where
  "subscript0 (JArr []) = Inl IndexError"
| "subscript0 (JArr (x # xs)) = Inr x"
| "subscript0 (JStr []) = Inl IndexError"
| "subscript0 (JStr (c # cs)) = Inr (JStr [c])"
| "subscript0 (JObj kvs) = Inl KeyError"
| "subscript0 _ = Inl TypeError"

text \<open>\<open>len(x)\<close>.\<close>

fun py_len :: "json \<Rightarrow> exn + nat" where
  "py_len (JStr s) = Inr (length s)"
| "py_len (JArr xs) = Inr (length xs)"
| "py_len (JObj kvs) = Inr (length kvs)"
| "py_len _ = Inl TypeError"

text \<open>\<open>sub in s\<close> on strings: \<open>sub\<close> occurs in \<open>s\<close> as a contiguous run of characters.\<close>

fun is_prefix :: "string \<Rightarrow> string \<Rightarrow> bool" where
  "is_prefix [] s = True"
| "is_prefix (c # cs) [] = False"
| "is_prefix (c # cs) (d # ds) = (c = d \<and> is_prefix cs ds)"

fun str_contains :: "string \<Rightarrow> string \<Rightarrow> bool" where
  "str_contains sub [] = (sub = [])"
| "str_contains sub (c # cs) = (is_prefix sub (c # cs) \<or> str_contains sub cs)"

subsection \<open>Floating point\<close>

text \<open>
  A finite double is the rational number it denotes. \<open>fl q\<close> is the double nearest to
  \<open>q\<close>, ties to the even significand, for \<open>q\<close> in the normal range (53 significant
  bits; no subnormals and no infinities, which durations in seconds are far from).
  Where Python raises OverflowError instead of rounding, for an int too large to
  convert and for a quotient of ints beyond the doubles, the model raises it as well
  (\<open>to_float\<close> and \<open>py_truediv\<close> below). \<open>ilog2 q\<close> is the binary exponent of a
  positive \<open>q\<close>.
\<close>

definition ilog2 :: "rat \<Rightarrow> int" where
  "ilog2 q = (if 1 \<le> q then bitlen \<lfloor>q\<rfloor> - 1 else - bitlen (\<lceil>1 / q\<rceil> - 1))"

definition round_half_even :: "rat \<Rightarrow> int" where
  "round_half_even q =
     (let f = \<lfloor>q\<rfloor>; r = q - of_int f
      in if r < 1 / 2 then f else if 1 / 2 < r then f + 1 else if even f then f else f + 1)"

definition fl :: "rat \<Rightarrow> rat" where
  "fl q = (if q = 0 then 0
           else (let e = ilog2 \<bar>q\<bar> - 52
                 in sgn q * (of_int (round_half_even (\<bar>q\<bar> / 2 powi e)) * 2 powi e)))"

definition fadd :: "rat \<Rightarrow> rat \<Rightarrow> rat" where
  "fadd x y = fl (x + y)"

definition fsub :: "rat \<Rightarrow> rat \<Rightarrow> rat" where
  "fsub x y = fl (x - y)"

definition fmul :: "rat \<Rightarrow> rat \<Rightarrow> rat" where
  "fmul x y = fl (x * y)"

definition fdiv :: "rat \<Rightarrow> rat \<Rightarrow> rat" where
  "fdiv x y = fl (x / y)"

text \<open>The significand that \<open>fl\<close> computes for a positive number.\<close>

definition mant :: "rat \<Rightarrow> int" where
  "mant q = round_half_even (q / 2 powi (ilog2 q - 52))"

subsection \<open>The world: clock, console, collaborators\<close>

type_synonym client = nat

text \<open>The raw response: the bytes that \<open>response["body"].read()\<close> returns.\<close>

record response =
  body :: string

text \<open>
  One entry of \<open>all_timings\<close>: the dict \<open>timings\<close> of one iteration. The key
  \<open>client_init\<close> is present on the first iteration only. The token counts are
  whatever the response held.
\<close>

record timing_record =
  client_init :: "rat option"
  api_call :: rat
  response_parse :: rat
  total_with_init :: rat
  total_without_init :: rat
  input_tokens :: json
  output_tokens :: json
  response_length :: nat

text \<open>
  A row of the summary table: metric, min, max, avg, median, in milliseconds. The row
  holds the key of the metric; the table shows it with spaces for underscores and in
  title case.
\<close>

record summary_row =
  metric :: string
  min_val :: rat
  max_val :: rat
  avg_val :: rat
  median_val :: rat

text \<open>
  The lines the script prints, with the numbers they show before formatting
  (durations are shown in milliseconds with two decimals, averages with none).
\<close>

datatype line =
    Banner
  | ModelLine string
  | RegionLine string
  | IterationsLine int
  | PromptLengthLine nat
  | IterationLine nat int
  | ClientInitLine rat
  | ApiCallLine rat
  | ParseLine rat
  | TotalWithInitLine rat
  | TotalWithoutInitLine rat
  | TokensLine json json
  | ResponseLengthLine nat
  | SummaryBanner
  | SummaryTable "summary_row list"
  | AverageTokensLine rat rat
  | ErrorLine exn
  | TracebackLine exn

datatype event =
    Print line
  | Sleep rat
  | CreateClient "(string \<times> string) list" string
  | InvokeModel client string string string string

record world =
  ticks :: nat
  trace :: "event list"

text \<open>
  The collaborators. \<open>perf_clock k\<close> is what the \<open>k\<close>-th call of
  \<open>time.perf_counter\<close> returns. \<open>boto3_client\<close> is
  \<open>boto3.Session(**kwargs).client("bedrock-runtime", region_name=region)\<close> and
  \<open>bedrock_invoke\<close> is \<open>client.invoke_model(modelId, body, ...)\<close>; both see the world
  as it is when they are called, so their outcome may depend on what happened before.
  \<open>json_dumps\<close>, \<open>json_loads\<close> and \<open>py_str\<close> are \<open>json.dumps\<close>, \<open>json.loads\<close> and
  the builtin \<open>str\<close>. \<open>console_error w l\<close> is the exception with which
  \<open>console.print\<close> of the rich library refuses the line \<open>l\<close> in the world \<open>w\<close>, if it
  does: the console reads square brackets in the text as markup, and a closing tag
  that matches no open tag, as in a model id \<open>[/x]\<close>, raises MarkupError.
  \<open>compensated_sum\<close> tells the interpreter: from CPython 3.12 on the builtin \<open>sum\<close>
  adds floats with a running compensation of the rounding errors; before, it adds
  from the left.
\<close>

record env =
  perf_clock :: "nat \<Rightarrow> rat"
  boto3_client :: "world \<Rightarrow> (string \<times> string) list \<Rightarrow> string \<Rightarrow> exn + client"
  bedrock_invoke :: "world \<Rightarrow> client \<Rightarrow> string \<Rightarrow> string \<Rightarrow> exn + response"
  json_dumps :: "json \<Rightarrow> string"
  json_loads :: "string \<Rightarrow> exn + json"
  py_str :: "json \<Rightarrow> string"
  console_error :: "world \<Rightarrow> line \<Rightarrow> exn option"
  compensated_sum :: bool

definition perf_counter :: "env \<Rightarrow> world \<Rightarrow> rat \<times> world" where
  "perf_counter E w = (perf_clock E (ticks w), w\<lparr>ticks := Suc (ticks w)\<rparr>)"

definition emit :: "event \<Rightarrow> world \<Rightarrow> world" where
  "emit ev w = w\<lparr>trace := trace w @ [ev]\<rparr>"

text \<open>
  A statement of the script is a function from the world to an outcome (an exception
  or a value) and the world it leaves. \<open>bindW\<close> runs one statement after another: an
  exception of the first skips the second. \<open>liftE\<close> is an expression that touches
  nothing in the world, \<open>clock_read\<close> is \<open>time.perf_counter()\<close> as a statement, and
  \<open>console_print\<close> is \<open>console.print\<close>: the line is printed unless the console raises.
\<close>

definition returnW :: "'a \<Rightarrow> world \<Rightarrow> (exn + 'a) \<times> world" where
  "returnW v w = (Inr v, w)"

definition bindW ::
  "(world \<Rightarrow> (exn + 'a) \<times> world) \<Rightarrow> ('a \<Rightarrow> world \<Rightarrow> (exn + 'b) \<times> world) \<Rightarrow>
   world \<Rightarrow> (exn + 'b) \<times> world" where
  "bindW m f w = (case m w of (Inl e, w1) \<Rightarrow> (Inl e, w1) | (Inr x, w1) \<Rightarrow> f x w1)"

definition liftE :: "exn + 'a \<Rightarrow> world \<Rightarrow> (exn + 'a) \<times> world" where
  "liftE r w = (r, w)"

definition clock_read :: "env \<Rightarrow> world \<Rightarrow> (exn + rat) \<times> world" where
  "clock_read E w = (let (t, w1) = perf_counter E w in (Inr t, w1))"

definition console_print :: "env \<Rightarrow> line \<Rightarrow> world \<Rightarrow> (exn + unit) \<times> world" where
  "console_print E l w =
     (case console_error E w l of
        Some e \<Rightarrow> (Inl e, w)
      | None \<Rightarrow> (Inr (), emit (Print l) w))"

subsection \<open>time_operation\<close>

text \<open>
  The wrapper that the decorator \<open>time_operation(operation_name)\<close> puts around
  \<open>func\<close> (\<open>stop\<close> is the source's \<open>end\<close>). When \<open>func\<close> raises, the second
  reading of the clock is never reached.
\<close>

definition time_operation ::
  "string \<Rightarrow> env \<Rightarrow> (world \<Rightarrow> (exn + 'a) \<times> world) \<Rightarrow> world \<Rightarrow> (exn + 'a \<times> rat) \<times> world" where
  "time_operation operation_name E func w =
     (let (start, w1) = perf_counter E w
      in case func w1 of
           (Inl e, w2) \<Rightarrow> (Inl e, w2)
         | (Inr result, w2) \<Rightarrow>
             (let (stop, w3) = perf_counter E w2;
                  elapsed = fsub stop start
              in (Inr (result, elapsed), w3)))"

subsection \<open>The three stages\<close>

text \<open>
  \<open>initialize_client_func\<close>, \<open>invoke_model_func\<close> and \<open>parse_response_func\<close> are
  the bodies of the three decorated functions; \<open>initialize_client\<close>, \<open>invoke_model\<close>
  and \<open>parse_response\<close> are what the names denote after decoration. \<open>if profile:\<close> is
  false for \<open>None\<close> and for the empty string.
\<close>

definition session_kwargs :: "string option \<Rightarrow> (string \<times> string) list" where
  "session_kwargs profile =
     (case profile of
        None \<Rightarrow> []
      | Some p \<Rightarrow> if p \<noteq> [] then [(''profile_name'', p)] else [])"

definition initialize_client_func ::
  "env \<Rightarrow> string \<Rightarrow> string option \<Rightarrow> world \<Rightarrow> (exn + client) \<times> world" where
  "initialize_client_func E region profile w =
     (boto3_client E w (session_kwargs profile) region,
      emit (CreateClient (session_kwargs profile) region) w)"

definition initialize_client ::
  "env \<Rightarrow> string \<Rightarrow> string option \<Rightarrow> world \<Rightarrow> (exn + client \<times> rat) \<times> world" where
  "initialize_client E region profile =
     time_operation ''client_initialization'' E (initialize_client_func E region profile)"

text \<open>The request body, lines 51 to 67. The literal \<open>0.7\<close> is the double nearest to 7/10.\<close>

definition claude_request :: "string \<Rightarrow> int \<Rightarrow> json" where
  "claude_request prompt max_tokens =
     JObj [(''anthropic_version'', JStr ''bedrock-2023-05-31''),
           (''max_tokens'', JInt max_tokens),
           (''messages'', JArr [JObj [(''role'', JStr ''user''), (''content'', JStr prompt)]])]"

definition titan_request :: "string \<Rightarrow> int \<Rightarrow> json" where
  "titan_request prompt max_tokens =
     JObj [(''inputText'', JStr prompt),
           (''textGenerationConfig'',
              JObj [(''maxTokenCount'', JInt max_tokens), (''temperature'', JFloat (fl (7 / 10)))])]"

definition generic_request :: "string \<Rightarrow> int \<Rightarrow> json" where
  "generic_request prompt max_tokens =
     JObj [(''prompt'', JStr prompt), (''max_tokens'', JInt max_tokens)]"

definition request_body :: "string \<Rightarrow> string \<Rightarrow> int \<Rightarrow> json" where
  "request_body model_id prompt max_tokens =
     (if str_contains ''claude'' model_id then claude_request prompt max_tokens
      else if str_contains ''titan'' model_id then titan_request prompt max_tokens
      else generic_request prompt max_tokens)"

definition invoke_model_func ::
  "env \<Rightarrow> client \<Rightarrow> string \<Rightarrow> string \<Rightarrow> int \<Rightarrow> world \<Rightarrow> (exn + response) \<times> world" where
  "invoke_model_func E cl model_id prompt max_tokens w =
     (let request = json_dumps E (request_body model_id prompt max_tokens)
      in (bedrock_invoke E w cl model_id request,
          emit (InvokeModel cl model_id request ''application/json'' ''application/json'') w))"

definition invoke_model ::
  "env \<Rightarrow> client \<Rightarrow> string \<Rightarrow> string \<Rightarrow> int \<Rightarrow> world \<Rightarrow> (exn + response \<times> rat) \<times> world" where
  "invoke_model E cl model_id prompt max_tokens =
     time_operation ''api_call'' E (invoke_model_func E cl model_id prompt max_tokens)"

text \<open>The three arms of the \<open>if\<close> chain of \<open>parse_response\<close>, lines 84 to 95.\<close>

definition claude_parse :: "json \<Rightarrow> exn + json \<times> json \<times> json" where
  "claude_parse response_body =
     bindE (dict_get response_body ''content'' (JArr [JObj []])) (\<lambda>cs.
     bindE (subscript0 cs) (\<lambda>c0.
     bindE (dict_get c0 ''text'' (JStr [])) (\<lambda>content.
     bindE (dict_get response_body ''usage'' (JObj [])) (\<lambda>u1.
     bindE (dict_get u1 ''input_tokens'' (JInt 0)) (\<lambda>input_tokens.
     bindE (dict_get response_body ''usage'' (JObj [])) (\<lambda>u2.
     bindE (dict_get u2 ''output_tokens'' (JInt 0)) (\<lambda>output_tokens.
     Inr (content, input_tokens, output_tokens))))))))"

definition titan_parse :: "json \<Rightarrow> exn + json \<times> json \<times> json" where
  "titan_parse response_body =
     bindE (dict_get response_body ''results'' (JArr [JObj []])) (\<lambda>rs.
     bindE (subscript0 rs) (\<lambda>r0.
     bindE (dict_get r0 ''outputText'' (JStr [])) (\<lambda>content.
     bindE (dict_get response_body ''inputTextTokenCount'' (JInt 0)) (\<lambda>input_tokens.
     bindE (dict_get response_body ''results'' (JArr [JObj []])) (\<lambda>rs2.
     bindE (subscript0 rs2) (\<lambda>r1.
     bindE (dict_get r1 ''tokenCount'' (JInt 0)) (\<lambda>output_tokens.
     Inr (content, input_tokens, output_tokens))))))))"

definition generic_parse :: "env \<Rightarrow> json \<Rightarrow> exn + json \<times> json \<times> json" where
  "generic_parse E response_body = Inr (JStr (py_str E response_body), JInt 0, JInt 0)"

definition parse_response_func :: "env \<Rightarrow> response \<Rightarrow> string \<Rightarrow> exn + json \<times> json \<times> json" where
  "parse_response_func E resp model_id =
     bindE (json_loads E (body resp)) (\<lambda>response_body.
       if str_contains ''claude'' model_id then claude_parse response_body
       else if str_contains ''titan'' model_id then titan_parse response_body
       else generic_parse E response_body)"

definition parse_response ::
  "env \<Rightarrow> response \<Rightarrow> string \<Rightarrow> world \<Rightarrow> (exn + (json \<times> json \<times> json) \<times> rat) \<times> world" where
  "parse_response E resp model_id =
     time_operation ''response_parsing'' E (\<lambda>w. (parse_response_func E resp model_id, w))"

subsection \<open>run_timing_test\<close>

text \<open>
  One pass of the body of \<open>for i in range(iterations)\<close>, in two parts.
  \<open>measure_pass\<close> is lines 130 to 162: the invocation, the parsing, the totals and the
  lines printed, for the client \<open>c\<close> and the entry \<open>init\<close> that \<open>timings\<close> holds for
  \<open>client_init\<close> at that point. \<open>iteration\<close> is lines 119 to 128 followed by
  \<open>measure_pass\<close>; \<open>cl\<close> is the variable \<open>client\<close>, unbound (\<open>None\<close>) until the first
  pass has assigned it, and reading it unbound raises once \<open>start_api\<close> has been taken.
  The pass returns the client and the dict \<open>timings\<close>.
\<close>

definition measure_pass ::
  "env \<Rightarrow> string \<Rightarrow> string \<Rightarrow> int \<Rightarrow> client \<Rightarrow> rat option \<Rightarrow> world \<Rightarrow>
   (exn + client \<times> timing_record) \<times> world" where
  "measure_pass E model_id prompt max_tokens c init =
     bindW (clock_read E) (\<lambda>start_api.
     bindW (invoke_model E c model_id prompt max_tokens) (\<lambda>(resp, api_time).
     bindW (clock_read E) (\<lambda>end_api.
     bindW (console_print E (ApiCallLine (fmul api_time 1000))) (\<lambda>u1.
     bindW (parse_response E resp model_id) (\<lambda>((content, in_tokens, out_tokens), parse_time).
     bindW (console_print E (ParseLine (fmul parse_time 1000))) (\<lambda>u2.
       (let with_init = fadd (fadd (case init of None \<Rightarrow> 0 | Some t \<Rightarrow> t) api_time) parse_time;
            without_init = fadd api_time parse_time
        in bindW (liftE (py_len content)) (\<lambda>n.
           bindW (console_print E (TotalWithInitLine (fmul with_init 1000))) (\<lambda>u3.
           bindW (console_print E (TotalWithoutInitLine (fmul without_init 1000))) (\<lambda>u4.
           bindW (console_print E (TokensLine in_tokens out_tokens)) (\<lambda>u5.
           bindW (console_print E (ResponseLengthLine n)) (\<lambda>u6.
           returnW (c, \<lparr>client_init = init,
                        api_call = api_time,
                        response_parse = parse_time,
                        total_with_init = with_init,
                        total_without_init = without_init,
                        input_tokens = in_tokens,
                        output_tokens = out_tokens,
                        response_length = n\<rparr>)))))))))))))"

definition iteration ::
  "env \<Rightarrow> string \<Rightarrow> string \<Rightarrow> string \<Rightarrow> string option \<Rightarrow> int \<Rightarrow> int \<Rightarrow> nat \<Rightarrow> client option \<Rightarrow>
   world \<Rightarrow> (exn + client \<times> timing_record) \<times> world" where
  "iteration E model_id prompt region profile max_tokens iterations i cl =
     bindW (if 1 < iterations then console_print E (IterationLine (i + 1) iterations)
            else returnW ()) (\<lambda>u0.
       if i = 0
       then bindW (initialize_client E region profile) (\<lambda>(c, init_time).
            bindW (console_print E (ClientInitLine (fmul init_time 1000))) (\<lambda>u1.
            measure_pass E model_id prompt max_tokens c (Some init_time)))
       else (case cl of
               None \<Rightarrow> bindW (clock_read E) (\<lambda>start_api. liftE (Inl UnboundLocalError))
             | Some c \<Rightarrow> measure_pass E model_id prompt max_tokens c None))"

text \<open>
  The loop over the remaining values of \<open>i\<close>, with the variables \<open>client\<close> and
  \<open>all_timings\<close> it carries. An exception leaves the loop at once; the result then
  holds, next to the exception, what \<open>all_timings\<close> was at that moment.
\<close>

fun run_iterations ::
  "env \<Rightarrow> string \<Rightarrow> string \<Rightarrow> string \<Rightarrow> string option \<Rightarrow> int \<Rightarrow> int \<Rightarrow> nat list \<Rightarrow>
   client option \<Rightarrow> timing_record list \<Rightarrow> world \<Rightarrow>
   (exn \<times> timing_record list + client option \<times> timing_record list) \<times> world" where
  "run_iterations E model_id prompt region profile max_tokens iterations [] cl all_timings w =
     (Inr (cl, all_timings), w)"
| "run_iterations E model_id prompt region profile max_tokens iterations (i # rest) cl all_timings w =
     (case iteration E model_id prompt region profile max_tokens iterations i cl w of
        (Inl e, w1) \<Rightarrow> (Inl (e, all_timings), w1)
      | (Inr (c, timings), w1) \<Rightarrow>
          run_iterations E model_id prompt region profile max_tokens iterations rest
            (Some c) (all_timings @ [timings])
            (if 1 < iterations \<and> int i < iterations - 1 then emit (Sleep (1 / 2)) w1 else w1))"

subsection \<open>print_summary\<close>

text \<open>
  \<open>t[metric]\<close> for the keys that hold a duration (the metrics of the summary are
  among them): \<open>None\<close> when \<open>t\<close> holds no duration under the key.
\<close>

definition duration_of :: "timing_record \<Rightarrow> string \<Rightarrow> rat option" where
  "duration_of t key =
     (if key = ''client_init'' then client_init t
      else if key = ''api_call'' then Some (api_call t)
      else if key = ''response_parse'' then Some (response_parse t)
      else if key = ''total_with_init'' then Some (total_with_init t)
      else if key = ''total_without_init'' then Some (total_without_init t)
      else None)"

text \<open>\<open>[t[metric] * 1000 for t in all_timings if metric in t]\<close>\<close>

definition metric_values :: "string \<Rightarrow> timing_record list \<Rightarrow> rat list" where
  "metric_values key all_timings =
     List.map_filter (\<lambda>t. map_option (\<lambda>v. fmul v 1000) (duration_of t key)) all_timings"

text \<open>
  The builtins \<open>min\<close> and \<open>max\<close> on a list of floats keep the first item until a
  strictly smaller (larger) one comes. \<open>sorted\<close> is \<open>sort\<close>. The source calls \<open>min\<close>
  and \<open>max\<close> under \<open>if values:\<close> only, so they are defined on the non-empty lists.
\<close>

fun py_min :: "rat list \<Rightarrow> rat" where
  "py_min (x # xs) = fold (\<lambda>v m. if v < m then v else m) xs x"

fun py_max :: "rat list \<Rightarrow> rat" where
  "py_max (x # xs) = fold (\<lambda>v m. if m < v then v else m) xs x"

text \<open>
  The builtin \<open>sum\<close>. A number of Python is an int or a float. \<open>to_float\<close> converts an
  int, raising OverflowError when the nearest double would be \<open>2 ^ 1024\<close> or more.
  \<open>py_add\<close> is \<open>+\<close> between the running sum and the next item (a bool is an int; an
  int meeting a float is converted), raising TypeError on anything that is not a
  number. \<open>generic_sum\<close> adds from the left with \<open>+\<close>: this is all of \<open>sum\<close> before
  CPython 3.12.
\<close>

datatype pynum = PInt int | PFloat rat

definition to_float :: "int \<Rightarrow> exn + rat" where
  "to_float a = (if 2 ^ 1024 \<le> \<bar>fl (of_int a)\<bar> then Inl OverflowError else Inr (fl (of_int a)))"

fun py_add :: "pynum \<Rightarrow> json \<Rightarrow> exn + pynum" where
  "py_add (PInt a) (JInt b) = Inr (PInt (a + b))"
| "py_add (PInt a) (JBool b) = Inr (PInt (a + (if b then 1 else 0)))"
| "py_add (PInt a) (JFloat y) = bindE (to_float a) (\<lambda>x. Inr (PFloat (fadd x y)))"
| "py_add (PFloat x) (JInt b) = bindE (to_float b) (\<lambda>y. Inr (PFloat (fadd x y)))"
| "py_add (PFloat x) (JBool b) = Inr (PFloat (fadd x (if b then 1 else 0)))"
| "py_add (PFloat x) (JFloat y) = Inr (PFloat (fadd x y))"
| "py_add _ _ = Inl TypeError"

fun generic_sum :: "pynum \<Rightarrow> json list \<Rightarrow> exn + pynum" where
  "generic_sum acc [] = Inr acc"
| "generic_sum acc (x # xs) = bindE (py_add acc x) (\<lambda>acc'. generic_sum acc' xs)"

text \<open>
  From CPython 3.12 on, \<open>sum\<close> has three phases. While the items are ints (or bools)
  and the sum fits a C long of 64 bits, it adds them as machine integers
  (\<open>compensated_ints\<close>); the first item that does not fit this is added with \<open>+\<close>.
  When that gives a float, the float phase starts (\<open>compensated_floats\<close>): \<open>f\<close> is the
  running sum and \<open>c\<close> the compensation, which collects the rounding error of every
  addition of a float (Neumaier's variant of Kahan summation); an int that fits a C
  long is added to \<open>f\<close> without compensation; any other item ends the phase, and so does
  the end of the list: the compensation is added to \<open>f\<close> when it is not zero, and the
  remaining items are added with \<open>+\<close>.
\<close>

definition fits_long :: "int \<Rightarrow> bool" where
  "fits_long v = (- (2 ^ 63) \<le> v \<and> v < 2 ^ 63)"

fun int_of_item :: "json \<Rightarrow> int option" where
  "int_of_item (JInt b) = Some b"
| "int_of_item (JBool b) = Some (if b then 1 else 0)"
| "int_of_item _ = None"

definition compensate :: "rat \<Rightarrow> rat \<Rightarrow> rat" where
  "compensate f c = (if c \<noteq> 0 then fadd f c else f)"

definition neumaier_step :: "rat \<times> rat \<Rightarrow> rat \<Rightarrow> rat \<times> rat" where
  "neumaier_step fc x =
     (let f = fst fc; c = snd fc; t = fadd f x
      in (t, if \<bar>x\<bar> \<le> \<bar>f\<bar> then fadd c (fadd (fsub f t) x) else fadd c (fadd (fsub x t) f)))"

definition leave_floats :: "rat \<times> rat \<Rightarrow> json \<Rightarrow> json list \<Rightarrow> exn + pynum" where
  "leave_floats fc item rest =
     bindE (py_add (PFloat (compensate (fst fc) (snd fc))) item) (\<lambda>r. generic_sum r rest)"

fun compensated_floats :: "rat \<times> rat \<Rightarrow> json list \<Rightarrow> exn + pynum" where
  "compensated_floats fc [] = Inr (PFloat (compensate (fst fc) (snd fc)))"
| "compensated_floats fc (JFloat x # rest) = compensated_floats (neumaier_step fc x) rest"
| "compensated_floats fc (item # rest) =
     (case int_of_item item of
        Some v \<Rightarrow>
          if fits_long v then compensated_floats (fadd (fst fc) (fl (of_int v)), snd fc) rest
          else leave_floats fc item rest
      | None \<Rightarrow> leave_floats fc item rest)"

definition leave_ints :: "int \<Rightarrow> json \<Rightarrow> json list \<Rightarrow> exn + pynum" where
  "leave_ints i item rest =
     bindE (py_add (PInt i) item) (\<lambda>r.
       case r of
         PFloat f \<Rightarrow> compensated_floats (f, 0) rest
       | PInt k \<Rightarrow> generic_sum (PInt k) rest)"

fun compensated_ints :: "int \<Rightarrow> json list \<Rightarrow> exn + pynum" where
  "compensated_ints i [] = Inr (PInt i)"
| "compensated_ints i (item # rest) =
     (case int_of_item item of
        Some b \<Rightarrow>
          if fits_long b \<and> fits_long (i + b) then compensated_ints (i + b) rest
          else leave_ints i item rest
      | None \<Rightarrow> leave_ints i item rest)"

definition py_sum :: "env \<Rightarrow> json list \<Rightarrow> exn + pynum" where
  "py_sum E items = (if compensated_sum E then compensated_ints 0 items else generic_sum (PInt 0) items)"

text \<open>
  \<open>sum(values)\<close> on a non-empty list of floats, which is what the summary calls it on:
  the first item is added to the int 0, the others as \<open>sum\<close> adds floats. Lemma
  \<open>py_sum_floats\<close> proves it equal to \<open>py_sum\<close>.
\<close>

definition float_sum :: "env \<Rightarrow> rat list \<Rightarrow> rat" where
  "float_sum E values =
     (case values of
        [] \<Rightarrow> 0
      | x # xs \<Rightarrow>
          if compensated_sum E
          then (let fc = foldl neumaier_step (fadd 0 x, 0) xs in compensate (fst fc) (snd fc))
          else foldl fadd (fadd 0 x) xs)"

text \<open>
  The block under \<open>if values:\<close>, lines 192 to 196: one row of the table. The length of
  the list is converted to a float before the division.
\<close>

definition metric_row :: "env \<Rightarrow> string \<Rightarrow> rat list \<Rightarrow> summary_row" where
  "metric_row E key values =
     (let values_sorted = sort values
      in \<lparr>metric = key,
          min_val = py_min values,
          max_val = py_max values,
          avg_val = fdiv (float_sum E values) (fl (of_nat (length values))),
          median_val = values_sorted ! (length values_sorted div 2)\<rparr>)"

definition metrics :: "string list" where
  "metrics = [''api_call'', ''response_parse'', ''total_without_init'']"

definition summary_rows :: "env \<Rightarrow> timing_record list \<Rightarrow> summary_row list" where
  "summary_rows E all_timings =
     concat (map (\<lambda>key. let values = metric_values key all_timings
                         in if values \<noteq> [] then [metric_row E key values] else []) metrics)"

text \<open>
  The token averages: \<open>sum(...)\<close> of the token counts, then \<open>/\<close>, the true division by
  \<open>len(all_timings)\<close>. The quotient of two ints is the double nearest to the exact
  quotient, and OverflowError when that would be \<open>2 ^ 1024\<close> or more; a float is divided
  by the length converted to a float.
\<close>

definition py_truediv :: "pynum \<Rightarrow> nat \<Rightarrow> exn + rat" where
  "py_truediv s n =
     (if n = 0 then Inl ZeroDivisionError
      else (case s of
              PInt a \<Rightarrow>
                if 2 ^ 1024 \<le> \<bar>fl (of_int a / of_nat n)\<bar> then Inl OverflowError
                else Inr (fl (of_int a / of_nat n))
            | PFloat x \<Rightarrow> Inr (fdiv x (fl (of_nat n)))))"

definition token_average :: "env \<Rightarrow> json list \<Rightarrow> nat \<Rightarrow> exn + rat" where
  "token_average E tokens n = bindE (py_sum E tokens) (\<lambda>s. py_truediv s n)"

definition print_summary :: "env \<Rightarrow> timing_record list \<Rightarrow> world \<Rightarrow> (exn + unit) \<times> world" where
  "print_summary E all_timings =
     bindW (console_print E SummaryBanner) (\<lambda>u1.
     bindW (console_print E (SummaryTable (summary_rows E all_timings))) (\<lambda>u2.
     bindW (liftE (token_average E (map input_tokens all_timings) (length all_timings))) (\<lambda>avg_input.
     bindW (liftE (token_average E (map output_tokens all_timings) (length all_timings))) (\<lambda>avg_output.
     console_print E (AverageTokensLine avg_input avg_output)))))"

text \<open>The header, the loop over \<open>range(iterations)\<close>, and the summary.\<close>

definition print_header ::
  "env \<Rightarrow> string \<Rightarrow> string \<Rightarrow> string \<Rightarrow> int \<Rightarrow> world \<Rightarrow> (exn + unit) \<times> world" where
  "print_header E model_id prompt region iterations =
     bindW (console_print E Banner) (\<lambda>u1.
     bindW (console_print E (ModelLine model_id)) (\<lambda>u2.
     bindW (console_print E (RegionLine region)) (\<lambda>u3.
     bindW (console_print E (IterationsLine iterations)) (\<lambda>u4.
     console_print E (PromptLengthLine (length prompt))))))"

definition run_timing_test ::
  "env \<Rightarrow> string \<Rightarrow> string \<Rightarrow> string \<Rightarrow> string option \<Rightarrow> int \<Rightarrow> int \<Rightarrow> world \<Rightarrow>
   (exn + timing_record list) \<times> world" where
  "run_timing_test E model_id prompt region profile max_tokens iterations =
     bindW (print_header E model_id prompt region iterations) (\<lambda>u. \<lambda>w.
       case run_iterations E model_id prompt region profile max_tokens iterations
              [0 ..< nat iterations] None [] w of
         (Inl (e, partial), w1) \<Rightarrow> (Inl e, w1)
       | (Inr (cl, all_timings), w1) \<Rightarrow>
           (if 1 < iterations
            then bindW (print_summary E all_timings) (\<lambda>u. returnW all_timings) w1
            else (Inr all_timings, w1)))"

subsection \<open>main\<close>

text \<open>
  The parsed command line, and \<open>main\<close> from line 249 on. The handler of \<open>main\<close> prints
  two lines on the same console, the error and the traceback, so it can raise in
  turn. The script ends with \<open>exit(main())\<close>: the exit status of the process is the
  value \<open>main\<close> returns, and 1 when an exception leaves \<open>main\<close>.
\<close>

record args =
  arg_model :: string
  arg_prompt :: string
  arg_region :: string
  arg_profile :: "string option"
  arg_max_tokens :: int
  arg_iterations :: int

definition main :: "env \<Rightarrow> args \<Rightarrow> world \<Rightarrow> (exn + int) \<times> world" where
  "main E a w =
     (case run_timing_test E (arg_model a) (arg_prompt a) (arg_region a) (arg_profile a)
             (arg_max_tokens a) (arg_iterations a) w of
        (Inl e, w1) \<Rightarrow>
          bindW (console_print E (ErrorLine e)) (\<lambda>u1.
          bindW (console_print E (TracebackLine e)) (\<lambda>u2.
          returnW 1)) w1
      | (Inr all_timings, w1) \<Rightarrow> (Inr 0, w1))"

definition exit_status :: "exn + int \<Rightarrow> int" where
  "exit_status r = (case r of Inl e \<Rightarrow> 1 | Inr code \<Rightarrow> code)"

subsection \<open>Test doubles for the collaborators\<close>

text \<open>
  An environment for running the script on concrete inputs: the clock is given, the
  client handle is 7, the \<open>k\<close>-th invocation (counted from 0) fails when \<open>failing\<close> is
  \<open>Some k\<close>, \<open>json.loads\<close> yields \<open>decoded\<close> for every body, the console prints every
  line, and \<open>sum\<close> compensates. \<open>markup_console\<close> is a console that refuses a closing
  tag \<open>[/x]\<close> in the model id, and the error line of the exception it raised for it
  (the message of a MarkupError quotes the tag).
\<close>

fun is_invoke :: "event \<Rightarrow> bool" where
  "is_invoke (InvokeModel c m b ct ac) = True"
| "is_invoke _ = False"

definition stub_env :: "(nat \<Rightarrow> rat) \<Rightarrow> nat option \<Rightarrow> exn + json \<Rightarrow> env" where
  "stub_env clock failing decoded =
     \<lparr>perf_clock = clock,
      boto3_client = (\<lambda>w kwargs region. Inr 7),
      bedrock_invoke = (\<lambda>w c model_id request.
         if failing = Some (length (filter is_invoke (trace w)))
         then Inl (Raised ''InvocationError'')
         else Inr \<lparr>body = ''raw''\<rparr>),
      json_dumps = (\<lambda>j. ''request''),
      json_loads = (\<lambda>s. decoded),
      py_str = (\<lambda>j. ''rendering''),
      console_error = (\<lambda>w l. None),
      compensated_sum = True\<rparr>"

fun markup_console :: "world \<Rightarrow> line \<Rightarrow> exn option" where
  "markup_console w (ModelLine m) =
     (if str_contains ''[/x]'' m then Some (Raised ''MarkupError'') else None)"
| "markup_console w (ErrorLine e) =
     (if e = Raised ''MarkupError'' then Some (Raised ''MarkupError'') else None)"
| "markup_console w l = None"

definition world0 :: world where
  "world0 = \<lparr>ticks = 0, trace = []\<rparr>"

text \<open>A well-formed claude response, and a command line with \<open>n\<close> iterations.\<close>

definition hello_body :: json where
  "hello_body =
     JObj [(''content'', JArr [JObj [(''text'', JStr ''Hi'')]]),
           (''usage'', JObj [(''input_tokens'', JInt 10), (''output_tokens'', JInt 3)])]"

definition hello_args :: "int \<Rightarrow> args" where
  "hello_args n =
     \<lparr>arg_model = ''claude'', arg_prompt = ''hello'', arg_region = ''us-east-1'',
      arg_profile = None, arg_max_tokens = 1000, arg_iterations = n\<rparr>"

text \<open>
  A clock whose eight readings are the doubles that Python writes 0.0, 0.1, 0.1, 0.1,
  0.2, 0.2, 0.4 and 0.8 (it stays at 0.8 afterwards).
\<close>

definition tenths_clock :: "nat \<Rightarrow> rat" where
  "tenths_clock k = (if k < 8 then fl (of_nat ([0, 1, 1, 1, 2, 2, 4, 8] ! k) / 10) else fl (8 / 10))"

subsection \<open>The provider schema, as the specification describes it\<close>

text \<open>
  The specification speaks of a closed set of provider schemas, selected from the
  model identifier, with the test for "claude" first. \<open>provider_of\<close>, \<open>request_for\<close>
  and \<open>parse_for\<close> follow its words; the theorems compare them with the two
  \<open>if\<close> chains of the source.
\<close>

datatype provider = Claude | Titan | Generic

definition provider_of :: "string \<Rightarrow> provider" where
  "provider_of model_id =
     (if str_contains ''claude'' model_id then Claude
      else if str_contains ''titan'' model_id then Titan
      else Generic)"

fun request_for :: "provider \<Rightarrow> string \<Rightarrow> int \<Rightarrow> json" where
  "request_for Claude = claude_request"
| "request_for Titan = titan_request"
| "request_for Generic = generic_request"

fun parse_for :: "env \<Rightarrow> provider \<Rightarrow> json \<Rightarrow> exn + json \<times> json \<times> json" where
  "parse_for E Claude = claude_parse"
| "parse_for E Titan = titan_parse"
| "parse_for E Generic = generic_parse E"

subsection \<open>Response shapes\<close>

text \<open>
  The shapes of a decoded body on which the look-ups of \<open>parse_response\<close> go through:
  the body is a dict, and a field the parser indexes or calls \<open>get\<close> on is either
  absent or of the kind the parser expects (\<open>content\<close> and \<open>results\<close>: a list whose
  first element is a dict; \<open>usage\<close>: a dict).
\<close>

fun is_dict :: "json \<Rightarrow> bool" where
  "is_dict (JObj kvs) = True"
| "is_dict _ = False"

fun first_is_dict :: "json \<Rightarrow> bool" where
  "first_is_dict (JArr (JObj kvs # xs)) = True"
| "first_is_dict _ = False"

fun absent_or :: "(json \<Rightarrow> bool) \<Rightarrow> string \<Rightarrow> json \<Rightarrow> bool" where
  "absent_or P key (JObj kvs) = (case map_of kvs key of None \<Rightarrow> True | Some v \<Rightarrow> P v)"
| "absent_or P key _ = False"

definition claude_shaped :: "json \<Rightarrow> bool" where
  "claude_shaped b = (absent_or first_is_dict ''content'' b \<and> absent_or is_dict ''usage'' b)"

definition titan_shaped :: "json \<Rightarrow> bool" where
  "titan_shaped b = absent_or first_is_dict ''results'' b"

subsection \<open>Auxiliary notions for the proofs\<close>

text \<open>
  The lines of the summary, the creations of a client, and the clients that the
  invocations in a trace were made with.
\<close>

fun is_summary :: "event \<Rightarrow> bool" where
  "is_summary (Print SummaryBanner) = True"
| "is_summary (Print (SummaryTable rows)) = True"
| "is_summary (Print (AverageTokensLine a b)) = True"
| "is_summary _ = False"

fun is_create :: "event \<Rightarrow> bool" where
  "is_create (CreateClient kwargs region) = True"
| "is_create _ = False"

fun invoked_with :: "event \<Rightarrow> client list" where
  "invoked_with (InvokeModel c m b ct ac) = [c]"
| "invoked_with _ = []"

text \<open>A statement that prints no line of the summary, whatever its outcome.\<close>

definition summary_free :: "(world \<Rightarrow> 'a \<times> world) \<Rightarrow> bool" where
  "summary_free m = (\<forall>w. filter is_summary (trace (snd (m w))) = filter is_summary (trace w))"

text \<open>
  \<open>pass_record E k init t\<close>: \<open>t\<close> is the dict that a pass builds when its measuring
  part starts at clock reading number \<open>k\<close> with the entry \<open>init\<close> for \<open>client_init\<close>.
\<close>

definition pass_record :: "env \<Rightarrow> nat \<Rightarrow> rat option \<Rightarrow> timing_record \<Rightarrow> bool" where
  "pass_record E k init t =
     (client_init t = init
      \<and> api_call t = fsub (perf_clock E (k + 2)) (perf_clock E (k + 1))
      \<and> response_parse t = fsub (perf_clock E (k + 5)) (perf_clock E (k + 4))
      \<and> total_with_init t =
          fadd (fadd (case init of None \<Rightarrow> 0 | Some x \<Rightarrow> x) (api_call t)) (response_parse t)
      \<and> total_without_init t = fadd (api_call t) (response_parse t))"

section \<open>Properties of the rounding\<close>

lemma ilog2_ge1: assumes "1 \<le> q" shows "2 powi (ilog2 q) \<le> q \<and> q < 2 powi (ilog2 q + 1)"
proof -
  let ?n = "\<lfloor>q\<rfloor>"
  have n: "0 < ?n" using assms by simp
  have b: "1 \<le> bitlen ?n" using n by (simp add: bitlen_alt_def)
  from bitlen_bounds[OF n] have lo: "2 ^ nat (bitlen ?n - 1) \<le> ?n" and hi: "?n < 2 ^ nat (bitlen ?n)"
    by auto
  have "(2::rat) powi (bitlen ?n - 1) = of_int (2 ^ nat (bitlen ?n - 1))"
    using b by (simp add: power_int_def)
  also have "\<dots> \<le> of_int ?n" using lo by (simp only: of_int_le_iff)
  also have "\<dots> \<le> q" by simp
  finally have 1: "(2::rat) powi (bitlen ?n - 1) \<le> q" .
  have "?n + 1 \<le> 2 ^ nat (bitlen ?n)" using hi by simp
  then have "(of_int (?n + 1) :: rat) \<le> of_int (2 ^ nat (bitlen ?n))" by (simp only: of_int_le_iff)
  moreover have "q < of_int (?n + 1)" by linarith
  ultimately have "q < of_int (2 ^ nat (bitlen ?n))" by linarith
  also have "\<dots> = 2 powi (bitlen ?n)" using b by (simp add: power_int_def)
  finally have 2: "q < 2 powi (bitlen ?n - 1 + 1)" by simp
  show ?thesis using 1 2 assms by (simp add: ilog2_def)
qed

lemma ilog2_lt1: assumes "0 < q" "q < 1" shows "2 powi (ilog2 q) \<le> q \<and> q < 2 powi (ilog2 q + 1)"
proof -
  let ?m = "\<lceil>1 / q\<rceil> - 1"
  have r: "1 < 1 / q" using assms by simp
  then have m: "0 < ?m" by linarith
  have b: "1 \<le> bitlen ?m" using m by (simp add: bitlen_alt_def)
  from bitlen_bounds[OF m] have lo: "2 ^ nat (bitlen ?m - 1) \<le> ?m" and hi: "?m < 2 ^ nat (bitlen ?m)"
    by auto
  have "1 / q \<le> of_int (?m + 1)" by simp
  moreover have "?m + 1 \<le> 2 ^ nat (bitlen ?m)" using hi by simp
  then have "(of_int (?m + 1) :: rat) \<le> of_int (2 ^ nat (bitlen ?m))" by (simp only: of_int_le_iff)
  ultimately have "1 / q \<le> of_int (2 ^ nat (bitlen ?m))" by linarith
  then have "1 / q \<le> 2 ^ nat (bitlen ?m)" by simp
  then have "1 / 2 ^ nat (bitlen ?m) \<le> q" using assms(1)
    by (simp add: field_simps)
  moreover have "(2::rat) powi (- bitlen ?m) = 1 / 2 ^ nat (bitlen ?m)"
    using b by (simp add: power_int_def field_simps)
  ultimately have 1: "2 powi (- bitlen ?m) \<le> q" by simp
  have "(of_int ?m :: rat) < 1 / q" by linarith
  moreover have "(of_int (2 ^ nat (bitlen ?m - 1)) :: rat) \<le> of_int ?m" using lo by (simp only: of_int_le_iff)
  ultimately have "(2::rat) ^ nat (bitlen ?m - 1) < 1 / q" by simp
  then have "q < 1 / 2 ^ nat (bitlen ?m - 1)" using assms(1) by (simp add: field_simps)
  moreover have "(2::rat) powi (- bitlen ?m + 1) = 1 / 2 ^ nat (bitlen ?m - 1)"
    using b by (simp add: power_int_def field_simps)
  ultimately have 2: "q < 2 powi (- bitlen ?m + 1)" by simp
  show ?thesis using 1 2 assms by (simp add: ilog2_def)
qed

lemma ilog2_bounds: assumes "0 < q" shows "2 powi (ilog2 q) \<le> q" "q < 2 powi (ilog2 q + 1)"
  using ilog2_ge1[of q] ilog2_lt1[of q] assms by (cases "1 \<le> q"; simp)+

lemma powi2_mono: "a \<le> b \<Longrightarrow> (2::rat) powi a \<le> 2 powi b"
  by (rule power_int_increasing) simp_all

lemma powi2_strict: "(2::rat) powi a < 2 powi b \<longleftrightarrow> a < b"
proof
  assume "(2::rat) powi a < 2 powi b"
  then show "a < b" using powi2_mono[of b a] by (cases "a < b") auto
next
  assume "a < b" then show "(2::rat) powi a < 2 powi b"
    by (rule power_int_strict_increasing) simp
qed

lemma powi2_pos: "0 < (2::rat) powi a"
  by simp

lemma powi2_scale: "(2::rat) ^ n * 2 powi e = 2 powi (e + int n)"
  by (simp add: power_int_add mult.commute)

lemma ilog2_unique: assumes "2 powi k \<le> q" "q < 2 powi (k + 1)" shows "ilog2 q = k"
proof -
  have q: "0 < q" using assms(1) powi2_pos[of k] by linarith
  note B = ilog2_bounds[OF q]
  have "(2::rat) powi k < 2 powi (ilog2 q + 1)" using assms(1) B(2) by linarith
  then have "k < ilog2 q + 1" by (simp only: powi2_strict)
  moreover have "(2::rat) powi (ilog2 q) < 2 powi (k + 1)" using assms(2) B(1) by linarith
  then have "ilog2 q < k + 1" by (simp only: powi2_strict)
  ultimately show ?thesis by simp
qed

lemma ilog2_mono: assumes "0 < x" "x \<le> y" shows "ilog2 x \<le> ilog2 y"
proof -
  have y: "0 < y" using assms by simp
  have "(2::rat) powi (ilog2 x) < 2 powi (ilog2 y + 1)"
    using ilog2_bounds(1)[OF assms(1)] ilog2_bounds(2)[OF y] assms(2) by linarith
  then show ?thesis by (simp only: powi2_strict)
qed

lemma rhe_of_int: "round_half_even (of_int n) = n"
  by (simp add: round_half_even_def)

lemma rhe_bounds: "of_int (round_half_even x) \<le> x + 1 / 2" "x - 1 / 2 \<le> of_int (round_half_even x)"
  unfolding round_half_even_def Let_def by (auto; linarith)+

lemma rhe_mono: assumes "x \<le> y" shows "round_half_even x \<le> round_half_even y"
proof (cases "\<lfloor>x\<rfloor> = \<lfloor>y\<rfloor>")
  case True
  then show ?thesis using assms unfolding round_half_even_def Let_def by auto
next
  case False
  then have "\<lfloor>x\<rfloor> + 1 \<le> \<lfloor>y\<rfloor>" using floor_mono[OF assms] by linarith
  moreover have "round_half_even x \<le> \<lfloor>x\<rfloor> + 1" unfolding round_half_even_def Let_def by auto
  moreover have "\<lfloor>y\<rfloor> \<le> round_half_even y" unfolding round_half_even_def Let_def by auto
  ultimately show ?thesis by linarith
qed

lemma rhe_ge: "rat_of_int a \<le> x \<Longrightarrow> a \<le> round_half_even x"
  using rhe_mono[of "of_int a" x] by (simp add: rhe_of_int)

lemma rhe_le: "x \<le> rat_of_int b \<Longrightarrow> round_half_even x \<le> b"
  using rhe_mono[of x "of_int b"] by (simp add: rhe_of_int)

lemma fl_pos_eq: "0 < q \<Longrightarrow> fl q = of_int (mant q) * 2 powi (ilog2 q - 52)"
  by (simp add: fl_def mant_def Let_def)

lemma fl_minus: "fl (- q) = - fl q"
  by (simp add: fl_def Let_def)

lemma fl_zero: "fl 0 = 0" by (simp add: fl_def)

lemma mant_bounds: assumes "0 < q" shows "2 ^ 52 \<le> mant q" "mant q \<le> 2 ^ 53"
proof -
  let ?e = "ilog2 q - 52"
  have p: "0 < (2::rat) powi ?e" by simp
  have s: "(2::rat) powi (ilog2 q) = 2 ^ 52 * 2 powi ?e" "(2::rat) powi (ilog2 q + 1) = 2 ^ 53 * 2 powi ?e"
    using powi2_scale[of 52 ?e] powi2_scale[of 53 ?e] by (simp_all add: add.commute)
  have "2 ^ 52 * 2 powi ?e \<le> q" using ilog2_bounds(1)[OF assms] s by simp
  then have "rat_of_int (2 ^ 52) \<le> q / 2 powi ?e" using p by (simp add: pos_le_divide_eq)
  then show "2 ^ 52 \<le> mant q" unfolding mant_def by (rule rhe_ge)
  have "q \<le> 2 ^ 53 * 2 powi ?e" using ilog2_bounds(2)[OF assms] s by simp
  then have "q / 2 powi ?e \<le> rat_of_int (2 ^ 53)" using p by (simp add: pos_divide_le_eq)
  then show "mant q \<le> 2 ^ 53" unfolding mant_def by (rule rhe_le)
qed

lemma fl_pos: assumes "0 < q" shows "0 < fl q"
proof -
  have "0 < mant q" using mant_bounds(1)[OF assms] by simp
  then show ?thesis by (simp add: fl_pos_eq[OF assms])
qed

lemma fl_mono_pos: assumes "0 < x" "x \<le> y" shows "fl x \<le> fl y"
proof -
  have y: "0 < y" using assms by simp
  let ?ex = "ilog2 x - 52" and ?ey = "ilog2 y - 52"
  have le: "?ex \<le> ?ey" using ilog2_mono[OF assms] by simp
  show ?thesis
  proof (cases "?ex = ?ey")
    case True
    have "x / 2 powi ?ex \<le> y / 2 powi ?ex" using assms(2) by (simp add: divide_right_mono)
    then have "mant x \<le> mant y" unfolding mant_def True[symmetric] by (rule rhe_mono)
    then have "rat_of_int (mant x) \<le> of_int (mant y)" by simp
    then show ?thesis unfolding fl_pos_eq[OF assms(1)] fl_pos_eq[OF y] True[symmetric]
      by (simp add: mult_right_mono)
  next
    case False
    then have lt: "?ex + 1 \<le> ?ey" using le by simp
    have "fl x \<le> 2 ^ 53 * 2 powi ?ex"
      unfolding fl_pos_eq[OF assms(1)] using mant_bounds(2)[OF assms(1)]
      by (metis of_int_le_iff of_int_numeral of_int_power mult_right_mono powi2_pos less_imp_le)
    also have "\<dots> = 2 ^ 52 * 2 powi (?ex + 1)"
      using powi2_scale[of 53 ?ex] powi2_scale[of 52 "?ex + 1"] by simp
    also have "\<dots> \<le> 2 ^ 52 * 2 powi ?ey" using powi2_mono[OF lt] by simp
    also have "\<dots> \<le> fl y"
      unfolding fl_pos_eq[OF y] using mant_bounds(1)[OF y]
      by (metis of_int_le_iff of_int_numeral of_int_power mult_right_mono powi2_pos less_imp_le)
    finally show ?thesis .
  qed
qed

lemma fl_mono: assumes "x \<le> y" shows "fl x \<le> fl y"
proof -
  consider "0 < x" | "x \<le> 0" "0 \<le> y" | "y < 0" by linarith
  then show ?thesis
  proof cases
    case 1 then show ?thesis using assms by (rule fl_mono_pos)
  next
    case 2
    have "fl x \<le> 0" using fl_pos[of "- x"] 2(1) by (cases "x = 0") (simp_all add: fl_minus fl_zero)
    moreover have "0 \<le> fl y" using fl_pos[of y] 2(2) by (cases "y = 0") (simp_all add: fl_zero)
    ultimately show ?thesis by simp
  next
    case 3
    then have "fl (- y) \<le> fl (- x)" using assms by (intro fl_mono_pos) simp_all
    then show ?thesis by (simp add: fl_minus)
  qed
qed

lemma fl_idem_pos: assumes "0 < q" shows "fl (fl q) = fl q"
proof -
  let ?e = "ilog2 q - 52"
  let ?m = "mant q"
  have eq: "fl q = of_int ?m * 2 powi ?e" by (rule fl_pos_eq[OF assms])
  have pos: "0 < fl q" by (rule fl_pos[OF assms])
  show ?thesis
  proof (cases "?m = 2 ^ 53")
    case True
    then have v: "fl q = 2 powi (?e + 53)" unfolding eq using powi2_scale[of 53 ?e] by simp
    have "ilog2 (fl q) = ?e + 53" unfolding v
      by (rule ilog2_unique) (simp_all add: powi2_strict)
    then have "mant (fl q) = round_half_even (2 powi (?e + 53) / 2 powi (?e + 1))"
      unfolding mant_def v by simp
    also have "(2::rat) powi (?e + 53) / 2 powi (?e + 1) = of_int (2 ^ 52)"
      using powi2_scale[of 52 "?e + 1"] by (simp add: field_simps)
    finally have "mant (fl q) = 2 ^ 52" by (simp only: rhe_of_int)
    then show ?thesis unfolding fl_pos_eq[OF pos] \<open>ilog2 (fl q) = ?e + 53\<close> unfolding v
      using powi2_scale[of 52 "?e + 1"] by simp
  next
    case False
    then have m: "2 ^ 52 \<le> ?m" "?m < 2 ^ 53" using mant_bounds[OF assms] by simp_all
    have "ilog2 (fl q) = ?e + 52"
    proof (rule ilog2_unique)
      have b: "(2::rat) powi (?e + 52) = 2 ^ 52 * 2 powi ?e"
        using powi2_scale[of 52 ?e] by simp
      have c: "(2::rat) powi (?e + 52 + 1) = 2 ^ 53 * 2 powi ?e"
        using powi2_scale[of 53 ?e] by (simp add: add.commute)
      have "rat_of_int (2 ^ 52) \<le> of_int ?m" using m(1) by (simp only: of_int_le_iff)
      then have "2 ^ 52 * (2::rat) powi ?e \<le> of_int ?m * 2 powi ?e" by (simp add: mult_right_mono)
      then show "2 powi (?e + 52) \<le> fl q" unfolding eq b .
      have "rat_of_int ?m < of_int (2 ^ 53)" using m(2) by (simp only: of_int_less_iff)
      then have "of_int ?m * (2::rat) powi ?e < 2 ^ 53 * 2 powi ?e" by (simp add: mult_strict_right_mono)
      then show "fl q < 2 powi (?e + 52 + 1)" unfolding eq c .
    qed
    then have "mant (fl q) = round_half_even (of_int ?m * 2 powi ?e / 2 powi ?e)"
      unfolding mant_def eq by simp
    then have "mant (fl q) = ?m" by (simp add: rhe_of_int)
    then show ?thesis unfolding fl_pos_eq[OF pos] \<open>ilog2 (fl q) = ?e + 52\<close> unfolding eq by simp
  qed
qed

lemma fl_idem: "fl (fl q) = fl q"
proof -
  consider "0 < q" | "q = 0" | "q < 0" by linarith
  then show ?thesis
  proof cases
    case 1 then show ?thesis by (rule fl_idem_pos)
  next
    case 2 then show ?thesis by (simp add: fl_zero)
  next
    case 3
    then have "fl (fl (- q)) = fl (- q)" by (intro fl_idem_pos) simp
    then show ?thesis by (simp add: fl_minus)
  qed
qed

section \<open>Substring tests\<close>

lemma is_prefix_iff: "is_prefix sub s \<longleftrightarrow> (\<exists>post. s = sub @ post)"
  by (induction sub s rule: is_prefix.induct) auto

lemma str_contains_iff: "str_contains sub s \<longleftrightarrow> (\<exists>pre post. s = pre @ sub @ post)"
proof (induction s)
  case Nil
  then show ?case by auto
next
  case (Cons c cs)
  show ?case
  proof
    assume "str_contains sub (c # cs)"
    then consider "is_prefix sub (c # cs)" | "str_contains sub cs" by auto
    then show "\<exists>pre post. c # cs = pre @ sub @ post"
    proof cases
      case 1
      then obtain post where "c # cs = sub @ post" by (auto simp: is_prefix_iff)
      then have "c # cs = [] @ sub @ post" by simp
      then show ?thesis by blast
    next
      case 2
      then obtain pre post where "cs = pre @ sub @ post" using Cons.IH by auto
      then have "c # cs = (c # pre) @ sub @ post" by simp
      then show ?thesis by blast
    qed
  next
    assume "\<exists>pre post. c # cs = pre @ sub @ post"
    then obtain pre post where d: "c # cs = pre @ sub @ post" by auto
    show "str_contains sub (c # cs)"
    proof (cases pre)
      case Nil
      then have "is_prefix sub (c # cs)" using d by (auto simp: is_prefix_iff)
      then show ?thesis by simp
    next
      case (Cons a pre')
      then have "cs = pre' @ sub @ post" using d by simp
      then have "str_contains sub cs" using Cons.IH by auto
      then show ?thesis by simp
    qed
  qed
qed

section \<open>Request bodies and the provider branch\<close>

text \<open>
  C6. \<open>invoke_model\<close> selects the request body by substring match on the model
  identifier, the tests read in the order of the source: an identifier containing
  "claude" gives the body with \<open>anthropic_version\<close>, \<open>max_tokens\<close> and
  \<open>messages: [{role: "user", content: prompt}]\<close>; otherwise one containing "titan"
  gives \<open>inputText\<close> and \<open>textGenerationConfig{maxTokenCount, temperature: 0.7}\<close>;
  any other gives \<open>{prompt, max_tokens}\<close>. That body, serialised, is what is sent.
\<close>

theorem request_body_by_substring:
  "request_body model_id prompt max_tokens =
     (if \<exists>pre post. model_id = pre @ ''claude'' @ post
      then JObj [(''anthropic_version'', JStr ''bedrock-2023-05-31''),
                 (''max_tokens'', JInt max_tokens),
                 (''messages'', JArr [JObj [(''role'', JStr ''user''), (''content'', JStr prompt)]])]
      else if \<exists>pre post. model_id = pre @ ''titan'' @ post
      then JObj [(''inputText'', JStr prompt),
                 (''textGenerationConfig'',
                    JObj [(''maxTokenCount'', JInt max_tokens),
                          (''temperature'', JFloat (fl (7 / 10)))])]
      else JObj [(''prompt'', JStr prompt), (''max_tokens'', JInt max_tokens)])
   \<and> invoke_model_func E cl model_id prompt max_tokens w =
       (bedrock_invoke E w cl model_id (json_dumps E (request_body model_id prompt max_tokens)),
        emit (InvokeModel cl model_id (json_dumps E (request_body model_id prompt max_tokens))
                ''application/json'' ''application/json'') w)"
proof -
  have c: "(\<exists>pre post. model_id = pre @ ''claude'' @ post) = str_contains ''claude'' model_id"
    by (simp only: str_contains_iff)
  have t: "(\<exists>pre post. model_id = pre @ ''titan'' @ post) = str_contains ''titan'' model_id"
    by (simp only: str_contains_iff)
  show ?thesis
    unfolding c t
    by (simp add: request_body_def claude_request_def titan_request_def
        generic_request_def invoke_model_func_def Let_def)
qed

theorem request_body_by_substring_witness:
  "request_body ''us.anthropic.claude-sonnet-4-5-20250929-v1:0'' ''Hello'' 1000 =
     JObj [(''anthropic_version'', JStr ''bedrock-2023-05-31''),
           (''max_tokens'', JInt 1000),
           (''messages'', JArr [JObj [(''role'', JStr ''user''), (''content'', JStr ''Hello'')]])]
   \<and> request_body ''amazon.titan-text-express-v1'' ''Hello'' 1000 =
     JObj [(''inputText'', JStr ''Hello''),
           (''textGenerationConfig'',
              JObj [(''maxTokenCount'', JInt 1000), (''temperature'', JFloat (fl (7 / 10)))])]
   \<and> request_body ''meta.llama3-8b-instruct-v1:0'' ''Hello'' 1000 =
     JObj [(''prompt'', JStr ''Hello''), (''max_tokens'', JInt 1000)]"
  using request_body_by_substring[of "''us.anthropic.claude-sonnet-4-5-20250929-v1:0''" "''Hello''" 1000]
    request_body_by_substring[of "''amazon.titan-text-express-v1''" "''Hello''" 1000]
    request_body_by_substring[of "''meta.llama3-8b-instruct-v1:0''" "''Hello''" 1000]
  unfolding str_contains_iff[symmetric] by simp

text \<open>
  C9. For every model identifier the branch chosen for the request in \<open>invoke_model\<close>
  is the branch chosen for parsing in \<open>parse_response\<close>, and "claude" goes before
  "titan": an identifier containing both is handled by the claude branch at both
  sites. The three request bodies differ from one another, so the branch of the
  request determines the provider.
\<close>

theorem same_branch_at_both_sites:
  "request_body model_id prompt max_tokens = request_for (provider_of model_id) prompt max_tokens
   \<and> parse_response_func E resp model_id =
       bindE (json_loads E (body resp)) (parse_for E (provider_of model_id))
   \<and> (provider_of model_id = Claude \<longleftrightarrow> (\<exists>pre post. model_id = pre @ ''claude'' @ post))
   \<and> (provider_of model_id = Titan \<longleftrightarrow>
        \<not> (\<exists>pre post. model_id = pre @ ''claude'' @ post) \<and> (\<exists>pre post. model_id = pre @ ''titan'' @ post))
   \<and> claude_request prompt max_tokens \<noteq> titan_request prompt max_tokens
   \<and> claude_request prompt max_tokens \<noteq> generic_request prompt max_tokens
   \<and> titan_request prompt max_tokens \<noteq> generic_request prompt max_tokens"
proof -
  have c: "(\<exists>pre post. model_id = pre @ ''claude'' @ post) = str_contains ''claude'' model_id"
    by (simp only: str_contains_iff)
  have t: "(\<exists>pre post. model_id = pre @ ''titan'' @ post) = str_contains ''titan'' model_id"
    by (simp only: str_contains_iff)
  show ?thesis
    unfolding c t
    by (simp add: request_body_def parse_response_func_def provider_of_def
        claude_request_def titan_request_def generic_request_def)
qed

theorem same_branch_at_both_sites_witness:
  "request_body ''titan-claude'' ''Hello'' 5 = claude_request ''Hello'' 5
   \<and> parse_response_func (stub_env (\<lambda>k. 0) None (Inr (JObj []))) \<lparr>body = ''raw''\<rparr> ''titan-claude''
       = claude_parse (JObj [])"
  using same_branch_at_both_sites[of "''titan-claude''" "''Hello''" 5 "stub_env (\<lambda>k. 0) None (Inr (JObj []))" "\<lparr>body = ''raw''\<rparr>"]
  by (simp add: provider_of_def stub_env_def)

section \<open>The summary rows\<close>

lemma sort_unique: "sorted ys \<Longrightarrow> mset ys = mset xs \<Longrightarrow> sort xs = ys"
  by (rule properties_for_sort) simp_all

lemma summary_rows_mem:
  "r \<in> set (summary_rows E all_timings) \<Longrightarrow>
     \<exists>key \<in> set metrics. metric_values key all_timings \<noteq> [] \<and>
        r = metric_row E key (metric_values key all_timings)"
  by (auto simp: summary_rows_def Let_def split: if_splits)

lemma metric_row_metric: "metric (metric_row E key values) = key"
  by (simp add: metric_row_def Let_def)

text \<open>
  C3. For every non-empty list of metric values the median of the summary is the
  element at index \<open>N div 2\<close> of the ascending-sorted list (the upper median, not
  interpolated), whichever way the list was sorted; every row of the summary table is
  built so; the median of [2, 4, 6] is 4 and the median of [2, 4, 6, 8] is 6.
\<close>

theorem median_is_upper_median:
  "(values \<noteq> [] \<longrightarrow>
      length values div 2 < length values \<and>
      median_val (metric_row E key values) = sort values ! (length values div 2) \<and>
      (\<forall>ys. sorted ys \<and> mset ys = mset values \<longrightarrow>
         median_val (metric_row E key values) = ys ! (length values div 2)))
   \<and> (\<forall>r \<in> set (summary_rows E all_timings).
        metric_values (metric r) all_timings \<noteq> [] \<and>
        median_val r = sort (metric_values (metric r) all_timings)
                         ! (length (metric_values (metric r) all_timings) div 2))
   \<and> median_val (metric_row E key [2, 4, 6]) = 4
   \<and> median_val (metric_row E key [2, 4, 6, 8]) = 6"
proof (intro conjI impI allI ballI)
  assume "values \<noteq> []"
  then show "length values div 2 < length values" by (cases "values") auto
next
  show "median_val (metric_row E key values) = sort values ! (length values div 2)"
    by (simp add: metric_row_def Let_def)
next
  fix ys assume "sorted ys \<and> mset ys = mset values"
  then have s: "sort values = ys" by (simp add: sort_unique)
  have "length (sort values) = length values" by simp
  then have "length ys = length values" unfolding s .
  then show "median_val (metric_row E key values) = ys ! (length values div 2)"
    using s by (simp add: metric_row_def Let_def)
next
  fix r assume "r \<in> set (summary_rows E all_timings)"
  then obtain k where k: "metric_values k all_timings \<noteq> []"
      "r = metric_row E k (metric_values k all_timings)"
    using summary_rows_mem by blast
  then have m: "metric r = k" by (simp add: metric_row_metric)
  show "metric_values (metric r) all_timings \<noteq> []" using k m by simp
  show "median_val r = sort (metric_values (metric r) all_timings)
                         ! (length (metric_values (metric r) all_timings) div 2)"
    unfolding m using k(2) by (simp add: metric_row_def Let_def)
next
  show "median_val (metric_row E key [2, 4, 6]) = 4" by (simp add: metric_row_def Let_def)
  show "median_val (metric_row E key [2, 4, 6, 8]) = 6" by (simp add: metric_row_def Let_def)
qed

theorem median_is_upper_median_witness:
  "median_val (metric_row (stub_env tenths_clock None (Inr hello_body)) ''api_call'' [6, 2, 8, 4])
     = [2, 4, 6, 8] ! 2
   \<and> median_val (metric_row (stub_env tenths_clock None (Inr hello_body)) ''api_call'' [6, 2, 8, 4])
     = 6"
proof -
  have "sorted [2, 4, 6, 8 :: rat] \<and> mset [2, 4, 6, 8 :: rat] = mset [6, 2, 8, 4]" by simp
  then show ?thesis
    using median_is_upper_median[of "[6, 2, 8, 4]" "stub_env tenths_clock None (Inr hello_body)"
        "''api_call''" "[]"]
    by simp
qed

section \<open>Parsing the response\<close>

lemma is_dict_iff: "is_dict v \<longleftrightarrow> (\<exists>kvs. v = JObj kvs)"
  by (cases v) auto

lemma first_is_dict_iff: "first_is_dict v \<longleftrightarrow> (\<exists>kvs xs. v = JArr (JObj kvs # xs))"
  by (induction v rule: first_is_dict.induct) auto

lemma subscript0_dict: "(\<exists>kvs. subscript0 x = Inr (JObj kvs)) \<longleftrightarrow> first_is_dict x"
proof (cases x rule: subscript0.cases)
  case (2 y ys)
  then show ?thesis by (cases y) auto
qed auto

lemma dict_get_Inr: "dict_get x key d = Inr v \<Longrightarrow> \<exists>kvs. x = JObj kvs"
  by (cases x) auto

lemma bindE_Inr_iff: "bindE m f = Inr v \<longleftrightarrow> (\<exists>x. m = Inr x \<and> f x = Inr v)"
  by (cases m) auto

lemma first_get_ok:
  "(\<exists>v. bindE (subscript0 x) (\<lambda>y. dict_get y key d) = Inr v) \<longleftrightarrow> first_is_dict x"
proof
  assume "\<exists>v. bindE (subscript0 x) (\<lambda>y. dict_get y key d) = Inr v"
  then obtain v y where "subscript0 x = Inr y" "dict_get y key d = Inr v"
    by (auto simp: bindE_Inr_iff)
  then show "first_is_dict x" using subscript0_dict[of x] dict_get_Inr[of y key d v] by auto
next
  assume "first_is_dict x"
  then obtain kvs where "subscript0 x = Inr (JObj kvs)" using subscript0_dict[of x] by auto
  then show "\<exists>v. bindE (subscript0 x) (\<lambda>y. dict_get y key d) = Inr v" by simp
qed

lemma claude_parse_JObj:
  "claude_parse (JObj kvs) =
     bindE (bindE (subscript0 (case map_of kvs ''content'' of None \<Rightarrow> JArr [JObj []] | Some v \<Rightarrow> v))
                  (\<lambda>y. dict_get y ''text'' (JStr []))) (\<lambda>content.
     bindE (dict_get (case map_of kvs ''usage'' of None \<Rightarrow> JObj [] | Some v \<Rightarrow> v) ''input_tokens'' (JInt 0)) (\<lambda>input_tokens.
     bindE (dict_get (case map_of kvs ''usage'' of None \<Rightarrow> JObj [] | Some v \<Rightarrow> v) ''output_tokens'' (JInt 0)) (\<lambda>output_tokens.
     Inr (content, input_tokens, output_tokens))))"
  unfolding claude_parse_def
  by (cases "subscript0 (case map_of kvs ''content'' of None \<Rightarrow> JArr [JObj []] | Some v \<Rightarrow> v)") simp_all

lemma claude_parse_ok: "(\<exists>v. claude_parse b = Inr v) \<longleftrightarrow> claude_shaped b"
proof (cases b)
  case (JObj kvs)
  let ?c = "case map_of kvs ''content'' of None \<Rightarrow> JArr [JObj []] | Some v \<Rightarrow> v"
  let ?u = "case map_of kvs ''usage'' of None \<Rightarrow> JObj [] | Some v \<Rightarrow> v"
  have sh: "claude_shaped b \<longleftrightarrow> first_is_dict ?c \<and> is_dict ?u"
    unfolding JObj claude_shaped_def by (auto split: option.splits)
  have "(\<exists>v. claude_parse b = Inr v) \<longleftrightarrow>
        (\<exists>v. bindE (subscript0 ?c) (\<lambda>y. dict_get y ''text'' (JStr [])) = Inr v) \<and> is_dict ?u"
    unfolding JObj claude_parse_JObj
    by (cases ?u) (auto simp: bindE_Inr_iff)
  then show ?thesis unfolding sh first_get_ok .
qed (simp_all add: claude_parse_def claude_shaped_def)

lemma titan_parse_JObj:
  "titan_parse (JObj kvs) =
     bindE (bindE (subscript0 (case map_of kvs ''results'' of None \<Rightarrow> JArr [JObj []] | Some v \<Rightarrow> v))
                  (\<lambda>y. dict_get y ''outputText'' (JStr []))) (\<lambda>content.
     bindE (bindE (subscript0 (case map_of kvs ''results'' of None \<Rightarrow> JArr [JObj []] | Some v \<Rightarrow> v))
                  (\<lambda>y. dict_get y ''tokenCount'' (JInt 0))) (\<lambda>output_tokens.
     Inr (content, (case map_of kvs ''inputTextTokenCount'' of None \<Rightarrow> JInt 0 | Some v \<Rightarrow> v),
          output_tokens)))"
  unfolding titan_parse_def
  by (cases "subscript0 (case map_of kvs ''results'' of None \<Rightarrow> JArr [JObj []] | Some v \<Rightarrow> v)") simp_all

lemma titan_parse_ok: "(\<exists>v. titan_parse b = Inr v) \<longleftrightarrow> titan_shaped b"
proof (cases b)
  case (JObj kvs)
  let ?r = "case map_of kvs ''results'' of None \<Rightarrow> JArr [JObj []] | Some v \<Rightarrow> v"
  have sh: "titan_shaped b \<longleftrightarrow> first_is_dict ?r"
    unfolding JObj titan_shaped_def by (auto split: option.splits)
  have "(\<exists>v. titan_parse b = Inr v) \<longleftrightarrow> first_is_dict ?r"
  proof
    assume "\<exists>v. titan_parse b = Inr v"
    then have "\<exists>v. bindE (subscript0 ?r) (\<lambda>y. dict_get y ''outputText'' (JStr [])) = Inr v"
      unfolding JObj titan_parse_JObj by (auto simp: bindE_Inr_iff)
    then show "first_is_dict ?r" unfolding first_get_ok .
  next
    assume "first_is_dict ?r"
    then obtain o1 where "subscript0 ?r = Inr (JObj o1)" using subscript0_dict[of ?r] by auto
    then show "\<exists>v. titan_parse b = Inr v" unfolding JObj titan_parse_JObj by simp
  qed
  then show ?thesis unfolding sh .
qed (simp_all add: titan_parse_def titan_shaped_def)

lemma claude_parse_components:
  assumes sh: "claude_shaped (JObj kvs)"
  shows "\<exists>content inp out. claude_parse (JObj kvs) = Inr (content, inp, out)
     \<and> (map_of kvs ''content'' = None \<longrightarrow> content = JStr [])
     \<and> (\<forall>c rest. map_of kvs ''content'' = Some (JArr (JObj c # rest)) \<longrightarrow>
           content = (case map_of c ''text'' of None \<Rightarrow> JStr [] | Some v \<Rightarrow> v))
     \<and> (map_of kvs ''usage'' = None \<longrightarrow> inp = JInt 0 \<and> out = JInt 0)
     \<and> (\<forall>u. map_of kvs ''usage'' = Some (JObj u) \<longrightarrow>
           inp = (case map_of u ''input_tokens'' of None \<Rightarrow> JInt 0 | Some v \<Rightarrow> v) \<and>
           out = (case map_of u ''output_tokens'' of None \<Rightarrow> JInt 0 | Some v \<Rightarrow> v))"
proof -
  have c: "map_of kvs ''content'' = None \<or> (\<exists>c rest. map_of kvs ''content'' = Some (JArr (JObj c # rest)))"
    using sh by (auto simp: claude_shaped_def first_is_dict_iff split: option.splits)
  have u: "map_of kvs ''usage'' = None \<or> (\<exists>u. map_of kvs ''usage'' = Some (JObj u))"
    using sh by (auto simp: claude_shaped_def is_dict_iff split: option.splits)
  from c u show ?thesis
    by (elim disjE exE) (simp_all add: claude_parse_JObj)
qed

lemma titan_parse_components:
  assumes sh: "titan_shaped (JObj kvs)"
  shows "\<exists>content inp out. titan_parse (JObj kvs) = Inr (content, inp, out)
     \<and> (map_of kvs ''results'' = None \<longrightarrow> content = JStr [] \<and> out = JInt 0)
     \<and> (\<forall>r rest. map_of kvs ''results'' = Some (JArr (JObj r # rest)) \<longrightarrow>
           content = (case map_of r ''outputText'' of None \<Rightarrow> JStr [] | Some v \<Rightarrow> v) \<and>
           out = (case map_of r ''tokenCount'' of None \<Rightarrow> JInt 0 | Some v \<Rightarrow> v))
     \<and> (map_of kvs ''inputTextTokenCount'' = None \<longrightarrow> inp = JInt 0)
     \<and> (\<forall>v. map_of kvs ''inputTextTokenCount'' = Some v \<longrightarrow> inp = v)"
proof -
  have c: "map_of kvs ''results'' = None \<or> (\<exists>c rest. map_of kvs ''results'' = Some (JArr (JObj c # rest)))"
    using sh by (auto simp: titan_shaped_def first_is_dict_iff split: option.splits)
  from c show ?thesis
    by (elim disjE exE) (auto simp add: titan_parse_JObj split: option.splits)
qed

lemma time_operation_pure:
  "time_operation name E (\<lambda>w. (r, w)) w =
     (case r of
        Inl e \<Rightarrow> (Inl e, w\<lparr>ticks := Suc (ticks w)\<rparr>)
      | Inr v \<Rightarrow> (Inr (v, fsub (perf_clock E (Suc (ticks w))) (perf_clock E (ticks w))),
                  w\<lparr>ticks := Suc (Suc (ticks w))\<rparr>))"
  by (simp add: time_operation_def perf_counter_def split: sum.splits)

text \<open>
  C1 (as amended). When the body cannot be decoded, \<open>parse_response\<close> raises the
  decoder's exception. When it decodes: for an unrecognised model identifier the
  result is the string rendering of the decoded body with zero token counts, whatever
  the body is; for a claude (titan) identifier \<open>parse_response\<close> returns exactly when
  the body is a dict whose fields \<open>content\<close> and \<open>usage\<close> (\<open>results\<close>) are absent or of
  the expected kind, and then each of the three results is determined on its own: the
  content is the empty string when \<open>content\<close> (\<open>results\<close>) is missing and the \<open>text\<close>
  (\<open>outputText\<close>) of its first element, or the empty string when that is missing,
  otherwise; the token counts are zero when \<open>usage\<close> is missing (when
  \<open>inputTextTokenCount\<close>, \<open>results\<close> are missing) and the counts it holds, or zero for
  a missing one, otherwise. The decorated function returns what the body of the
  function returns, with the elapsed time.
\<close>

theorem parse_response_look_up_and_default:
  "(\<forall>e. json_loads E (body resp) = Inl e \<longrightarrow>
        parse_response_func E resp model_id = Inl e \<and>
        fst (parse_response E resp model_id w) = Inl e)
   \<and> (\<forall>b. json_loads E (body resp) = Inr b \<longrightarrow>
        (str_contains ''claude'' model_id \<longrightarrow>
           ((\<exists>v. parse_response_func E resp model_id = Inr v) \<longleftrightarrow> claude_shaped b)
           \<and> (\<forall>kvs. b = JObj kvs \<and> claude_shaped b \<longrightarrow>
                 (\<exists>content inp out.
                    parse_response_func E resp model_id = Inr (content, inp, out)
                    \<and> (map_of kvs ''content'' = None \<longrightarrow> content = JStr [])
                    \<and> (\<forall>c rest. map_of kvs ''content'' = Some (JArr (JObj c # rest)) \<longrightarrow>
                          content = (case map_of c ''text'' of None \<Rightarrow> JStr [] | Some v \<Rightarrow> v))
                    \<and> (map_of kvs ''usage'' = None \<longrightarrow> inp = JInt 0 \<and> out = JInt 0)
                    \<and> (\<forall>u. map_of kvs ''usage'' = Some (JObj u) \<longrightarrow>
                          inp = (case map_of u ''input_tokens'' of None \<Rightarrow> JInt 0 | Some v \<Rightarrow> v) \<and>
                          out = (case map_of u ''output_tokens'' of None \<Rightarrow> JInt 0 | Some v \<Rightarrow> v))))
           \<and> (\<forall>kvs. b = JObj kvs \<and> map_of kvs ''content'' = None \<and> map_of kvs ''usage'' = None \<longrightarrow>
                 parse_response_func E resp model_id = Inr (JStr [], JInt 0, JInt 0))
           \<and> (\<forall>kvs c rest u. b = JObj kvs \<and> map_of kvs ''content'' = Some (JArr (JObj c # rest)) \<and>
                   map_of kvs ''usage'' = Some (JObj u) \<longrightarrow>
                 parse_response_func E resp model_id =
                   Inr (case map_of c ''text'' of None \<Rightarrow> JStr [] | Some v \<Rightarrow> v,
                        case map_of u ''input_tokens'' of None \<Rightarrow> JInt 0 | Some v \<Rightarrow> v,
                        case map_of u ''output_tokens'' of None \<Rightarrow> JInt 0 | Some v \<Rightarrow> v)))
        \<and> (\<not> str_contains ''claude'' model_id \<and> str_contains ''titan'' model_id \<longrightarrow>
           ((\<exists>v. parse_response_func E resp model_id = Inr v) \<longleftrightarrow> titan_shaped b)
           \<and> (\<forall>kvs. b = JObj kvs \<and> titan_shaped b \<longrightarrow>
                 (\<exists>content inp out.
                    parse_response_func E resp model_id = Inr (content, inp, out)
                    \<and> (map_of kvs ''results'' = None \<longrightarrow> content = JStr [] \<and> out = JInt 0)
                    \<and> (\<forall>r rest. map_of kvs ''results'' = Some (JArr (JObj r # rest)) \<longrightarrow>
                          content = (case map_of r ''outputText'' of None \<Rightarrow> JStr [] | Some v \<Rightarrow> v) \<and>
                          out = (case map_of r ''tokenCount'' of None \<Rightarrow> JInt 0 | Some v \<Rightarrow> v))
                    \<and> (map_of kvs ''inputTextTokenCount'' = None \<longrightarrow> inp = JInt 0)
                    \<and> (\<forall>v. map_of kvs ''inputTextTokenCount'' = Some v \<longrightarrow> inp = v)))
           \<and> (\<forall>kvs. b = JObj kvs \<and> map_of kvs ''results'' = None \<and>
                   map_of kvs ''inputTextTokenCount'' = None \<longrightarrow>
                 parse_response_func E resp model_id = Inr (JStr [], JInt 0, JInt 0))
           \<and> (\<forall>kvs r rest. b = JObj kvs \<and> map_of kvs ''results'' = Some (JArr (JObj r # rest)) \<longrightarrow>
                 parse_response_func E resp model_id =
                   Inr (case map_of r ''outputText'' of None \<Rightarrow> JStr [] | Some v \<Rightarrow> v,
                        case map_of kvs ''inputTextTokenCount'' of None \<Rightarrow> JInt 0 | Some v \<Rightarrow> v,
                        case map_of r ''tokenCount'' of None \<Rightarrow> JInt 0 | Some v \<Rightarrow> v)))
        \<and> (\<not> str_contains ''claude'' model_id \<and> \<not> str_contains ''titan'' model_id \<longrightarrow>
           parse_response_func E resp model_id = Inr (JStr (py_str E b), JInt 0, JInt 0))
        \<and> (\<forall>v. parse_response_func E resp model_id = Inr v \<longrightarrow>
              fst (parse_response E resp model_id w) =
                Inr (v, fsub (perf_clock E (Suc (ticks w))) (perf_clock E (ticks w)))))"
proof (intro conjI allI impI)
  fix e assume "json_loads E (body resp) = Inl e"
  then show "parse_response_func E resp model_id = Inl e" by (simp add: parse_response_func_def)
  then show "fst (parse_response E resp model_id w) = Inl e"
    by (simp add: parse_response_def time_operation_pure)
next
  fix b assume "json_loads E (body resp) = Inr b" "str_contains ''claude'' model_id"
  then have p: "parse_response_func E resp model_id = claude_parse b"
    by (simp add: parse_response_func_def)
  show "(\<exists>v. parse_response_func E resp model_id = Inr v) \<longleftrightarrow> claude_shaped b"
    unfolding p by (rule claude_parse_ok)
  { fix kvs assume "b = JObj kvs \<and> claude_shaped b"
    then show "\<exists>content inp out.
        parse_response_func E resp model_id = Inr (content, inp, out)
        \<and> (map_of kvs ''content'' = None \<longrightarrow> content = JStr [])
        \<and> (\<forall>c rest. map_of kvs ''content'' = Some (JArr (JObj c # rest)) \<longrightarrow>
              content = (case map_of c ''text'' of None \<Rightarrow> JStr [] | Some v \<Rightarrow> v))
        \<and> (map_of kvs ''usage'' = None \<longrightarrow> inp = JInt 0 \<and> out = JInt 0)
        \<and> (\<forall>u. map_of kvs ''usage'' = Some (JObj u) \<longrightarrow>
              inp = (case map_of u ''input_tokens'' of None \<Rightarrow> JInt 0 | Some v \<Rightarrow> v) \<and>
              out = (case map_of u ''output_tokens'' of None \<Rightarrow> JInt 0 | Some v \<Rightarrow> v))"
      unfolding p using claude_parse_components[of kvs] by blast }
  { fix kvs assume "b = JObj kvs \<and> map_of kvs ''content'' = None \<and> map_of kvs ''usage'' = None"
    then show "parse_response_func E resp model_id = Inr (JStr [], JInt 0, JInt 0)"
      unfolding p by (simp add: claude_parse_JObj) }
  { fix kvs c rest u
    assume "b = JObj kvs \<and> map_of kvs ''content'' = Some (JArr (JObj c # rest)) \<and>
            map_of kvs ''usage'' = Some (JObj u)"
    then show "parse_response_func E resp model_id =
        Inr (case map_of c ''text'' of None \<Rightarrow> JStr [] | Some v \<Rightarrow> v,
             case map_of u ''input_tokens'' of None \<Rightarrow> JInt 0 | Some v \<Rightarrow> v,
             case map_of u ''output_tokens'' of None \<Rightarrow> JInt 0 | Some v \<Rightarrow> v)"
      unfolding p by (simp add: claude_parse_JObj) }
next
  fix b
  assume "json_loads E (body resp) = Inr b"
    "\<not> str_contains ''claude'' model_id \<and> str_contains ''titan'' model_id"
  then have p: "parse_response_func E resp model_id = titan_parse b"
    by (simp add: parse_response_func_def)
  show "(\<exists>v. parse_response_func E resp model_id = Inr v) \<longleftrightarrow> titan_shaped b"
    unfolding p by (rule titan_parse_ok)
  { fix kvs assume "b = JObj kvs \<and> titan_shaped b"
    then show "\<exists>content inp out.
        parse_response_func E resp model_id = Inr (content, inp, out)
        \<and> (map_of kvs ''results'' = None \<longrightarrow> content = JStr [] \<and> out = JInt 0)
        \<and> (\<forall>r rest. map_of kvs ''results'' = Some (JArr (JObj r # rest)) \<longrightarrow>
              content = (case map_of r ''outputText'' of None \<Rightarrow> JStr [] | Some v \<Rightarrow> v) \<and>
              out = (case map_of r ''tokenCount'' of None \<Rightarrow> JInt 0 | Some v \<Rightarrow> v))
        \<and> (map_of kvs ''inputTextTokenCount'' = None \<longrightarrow> inp = JInt 0)
        \<and> (\<forall>v. map_of kvs ''inputTextTokenCount'' = Some v \<longrightarrow> inp = v)"
      unfolding p using titan_parse_components[of kvs] by blast }
  { fix kvs
    assume "b = JObj kvs \<and> map_of kvs ''results'' = None \<and> map_of kvs ''inputTextTokenCount'' = None"
    then show "parse_response_func E resp model_id = Inr (JStr [], JInt 0, JInt 0)"
      unfolding p by (simp add: titan_parse_JObj) }
  { fix kvs r rest
    assume "b = JObj kvs \<and> map_of kvs ''results'' = Some (JArr (JObj r # rest))"
    then show "parse_response_func E resp model_id =
        Inr (case map_of r ''outputText'' of None \<Rightarrow> JStr [] | Some v \<Rightarrow> v,
             case map_of kvs ''inputTextTokenCount'' of None \<Rightarrow> JInt 0 | Some v \<Rightarrow> v,
             case map_of r ''tokenCount'' of None \<Rightarrow> JInt 0 | Some v \<Rightarrow> v)"
      unfolding p by (simp add: titan_parse_JObj) }
next
  fix b
  assume "json_loads E (body resp) = Inr b"
    "\<not> str_contains ''claude'' model_id \<and> \<not> str_contains ''titan'' model_id"
  then show "parse_response_func E resp model_id = Inr (JStr (py_str E b), JInt 0, JInt 0)"
    by (simp add: parse_response_func_def generic_parse_def)
next
  fix b v assume "parse_response_func E resp model_id = Inr v"
  then show "fst (parse_response E resp model_id w) =
      Inr (v, fsub (perf_clock E (Suc (ticks w))) (perf_clock E (ticks w)))"
    by (simp add: parse_response_def time_operation_pure)
qed

theorem parse_response_look_up_and_default_witness:
  "parse_response_func (stub_env (\<lambda>k. 0) None (Inr (JObj []))) \<lparr>body = ''raw''\<rparr> ''claude-3''
     = Inr (JStr [], JInt 0, JInt 0)
   \<and> parse_response_func (stub_env (\<lambda>k. 0) None (Inr (JObj []))) \<lparr>body = ''raw''\<rparr> ''titan-text''
     = Inr (JStr [], JInt 0, JInt 0)
   \<and> parse_response_func (stub_env (\<lambda>k. 0) None (Inr (JArr []))) \<lparr>body = ''raw''\<rparr> ''llama''
     = Inr (JStr ''rendering'', JInt 0, JInt 0)
   \<and> parse_response_func (stub_env (\<lambda>k. 0) None (Inl (Raised ''JSONDecodeError''))) \<lparr>body = ''raw''\<rparr> ''claude-3''
     = Inl (Raised ''JSONDecodeError'')
   \<and> parse_response_func
         (stub_env (\<lambda>k. 0) None (Inr (JObj [(''inputTextTokenCount'', JInt 5)])))
         \<lparr>body = ''raw''\<rparr> ''titan-text''
     = Inr (JStr [], JInt 5, JInt 0)
   \<and> parse_response_func
         (stub_env (\<lambda>k. 0) None (Inr (JObj [(''usage'', JObj [(''output_tokens'', JInt 3)])])))
         \<lparr>body = ''raw''\<rparr> ''claude-3''
     = Inr (JStr [], JInt 0, JInt 3)
   \<and> parse_response_func
         (stub_env (\<lambda>k. 0) None (Inr (JObj [(''content'', JArr [JObj [(''text'', JStr ''Hi'')]])])))
         \<lparr>body = ''raw''\<rparr> ''claude-3''
     = Inr (JStr ''Hi'', JInt 0, JInt 0)"
proof (intro conjI)
  show "parse_response_func (stub_env (\<lambda>k. 0) None (Inr (JObj []))) \<lparr>body = ''raw''\<rparr> ''claude-3''
     = Inr (JStr [], JInt 0, JInt 0)"
    using parse_response_look_up_and_default
      [of "stub_env (\<lambda>k. 0) None (Inr (JObj []))" "\<lparr>body = ''raw''\<rparr>" "''claude-3''" world0]
    by (simp add: stub_env_def)
  show "parse_response_func (stub_env (\<lambda>k. 0) None (Inr (JObj []))) \<lparr>body = ''raw''\<rparr> ''titan-text''
     = Inr (JStr [], JInt 0, JInt 0)"
    using parse_response_look_up_and_default
      [of "stub_env (\<lambda>k. 0) None (Inr (JObj []))" "\<lparr>body = ''raw''\<rparr>" "''titan-text''" world0]
    by (simp add: stub_env_def)
  show "parse_response_func (stub_env (\<lambda>k. 0) None (Inr (JArr []))) \<lparr>body = ''raw''\<rparr> ''llama''
     = Inr (JStr ''rendering'', JInt 0, JInt 0)"
    using parse_response_look_up_and_default
      [of "stub_env (\<lambda>k. 0) None (Inr (JArr []))" "\<lparr>body = ''raw''\<rparr>" "''llama''" world0]
    by (simp add: stub_env_def)
  show "parse_response_func (stub_env (\<lambda>k. 0) None (Inl (Raised ''JSONDecodeError''))) \<lparr>body = ''raw''\<rparr> ''claude-3''
     = Inl (Raised ''JSONDecodeError'')"
    using parse_response_look_up_and_default
      [of "stub_env (\<lambda>k. 0) None (Inl (Raised ''JSONDecodeError''))" "\<lparr>body = ''raw''\<rparr>" "''claude-3''" world0]
    by (simp add: stub_env_def)
  show "parse_response_func
         (stub_env (\<lambda>k. 0) None (Inr (JObj [(''inputTextTokenCount'', JInt 5)])))
         \<lparr>body = ''raw''\<rparr> ''titan-text''
     = Inr (JStr [], JInt 5, JInt 0)"
    using parse_response_look_up_and_default
      [of "stub_env (\<lambda>k. 0) None (Inr (JObj [(''inputTextTokenCount'', JInt 5)]))"
          "\<lparr>body = ''raw''\<rparr>" "''titan-text''" world0]
    by (auto simp: stub_env_def titan_shaped_def)
  show "parse_response_func
         (stub_env (\<lambda>k. 0) None (Inr (JObj [(''usage'', JObj [(''output_tokens'', JInt 3)])])))
         \<lparr>body = ''raw''\<rparr> ''claude-3''
     = Inr (JStr [], JInt 0, JInt 3)"
    using parse_response_look_up_and_default
      [of "stub_env (\<lambda>k. 0) None (Inr (JObj [(''usage'', JObj [(''output_tokens'', JInt 3)])]))"
          "\<lparr>body = ''raw''\<rparr>" "''claude-3''" world0]
    by (auto simp: stub_env_def claude_shaped_def)
  show "parse_response_func
         (stub_env (\<lambda>k. 0) None (Inr (JObj [(''content'', JArr [JObj [(''text'', JStr ''Hi'')]])])))
         \<lparr>body = ''raw''\<rparr> ''claude-3''
     = Inr (JStr ''Hi'', JInt 0, JInt 0)"
    using parse_response_look_up_and_default
      [of "stub_env (\<lambda>k. 0) None (Inr (JObj [(''content'', JArr [JObj [(''text'', JStr ''Hi'')]])]))"
          "\<lparr>body = ''raw''\<rparr>" "''claude-3''" world0]
    by (auto simp: stub_env_def claude_shaped_def)
qed

text \<open>
  A body that decodes and still makes \<open>parse_response\<close> raise: \<open>{"content": []}\<close> for
  a claude identifier (the index 0 of an empty list), and the JSON list \<open>[]\<close> for a
  titan identifier (a list has no \<open>get\<close>).
\<close>

theorem decodable_body_can_raise:
  "json_loads (stub_env (\<lambda>k. 0) None (Inr (JObj [(''content'', JArr [])]))) (body \<lparr>body = ''raw''\<rparr>)
     = Inr (JObj [(''content'', JArr [])])
   \<and> parse_response_func (stub_env (\<lambda>k. 0) None (Inr (JObj [(''content'', JArr [])])))
        \<lparr>body = ''raw''\<rparr> ''claude-3'' = Inl IndexError
   \<and> fst (parse_response (stub_env (\<lambda>k. 0) None (Inr (JObj [(''content'', JArr [])])))
        \<lparr>body = ''raw''\<rparr> ''claude-3'' world0) = Inl IndexError
   \<and> parse_response_func (stub_env (\<lambda>k. 0) None (Inr (JArr [])))
        \<lparr>body = ''raw''\<rparr> ''titan-text'' = Inl AttributeError"
  by (simp add: stub_env_def parse_response_def time_operation_pure parse_response_func_def
      claude_parse_def titan_parse_def)

section \<open>Numbers that need no rounding\<close>

lemma ilog2_scale: assumes "0 < q" shows "ilog2 (q * 2 powi x) = ilog2 q + x"
proof (rule ilog2_unique)
  have p: "0 < (2::rat) powi x" by simp
  have "2 powi (ilog2 q) * 2 powi x \<le> q * 2 powi x"
    using ilog2_bounds(1)[OF assms] p by (simp add: mult_right_mono)
  then show "2 powi (ilog2 q + x) \<le> q * 2 powi x" by (simp add: power_int_add)
  have "q * 2 powi x < 2 powi (ilog2 q + 1) * 2 powi x"
    using ilog2_bounds(2)[OF assms] p by (simp add: mult_strict_right_mono)
  also have "\<dots> = 2 powi (ilog2 q + x + 1)" by (simp add: power_int_add ac_simps)
  finally show "q * 2 powi x < 2 powi (ilog2 q + x + 1)" .
qed

lemma fl_exact_pos:
  assumes "0 < m" "m < 2 ^ 53" shows "fl (rat_of_int m * 2 powi x) = rat_of_int m * 2 powi x"
proof -
  let ?q = "rat_of_int m"
  have q: "0 < ?q" using assms by simp
  have qx: "0 < ?q * 2 powi x" using q by simp
  have "?q < rat_of_int (2 ^ 53)" using assms(2) by (simp only: of_int_less_iff)
  then have "(2::rat) powi (ilog2 ?q) < 2 powi 53" using ilog2_bounds(1)[OF q] by simp
  then have le: "ilog2 ?q \<le> 52" unfolding powi2_strict by simp
  define k where "k = nat (52 - ilog2 ?q)"
  have e: "ilog2 (?q * 2 powi x) - 52 = x - int k" using le by (simp add: ilog2_scale[OF q] k_def)
  have pk: "(2::rat) powi (x - int k) = 2 powi x / 2 ^ k" by (simp add: power_int_diff)
  have "?q * 2 powi x / 2 powi (x - int k) = rat_of_int (m * 2 ^ k)" unfolding pk by simp
  then have "mant (?q * 2 powi x) = m * 2 ^ k" unfolding mant_def e by (simp only: rhe_of_int)
  then show ?thesis unfolding fl_pos_eq[OF qx] e pk by simp
qed

lemma fl_exact: assumes "\<bar>m\<bar> < 2 ^ 53" shows "fl (rat_of_int m * 2 powi x) = rat_of_int m * 2 powi x"
proof -
  consider "0 < m" | "m = 0" | "m < 0" by linarith
  then show ?thesis
  proof cases
    case 1 then show ?thesis using assms by (intro fl_exact_pos) simp_all
  next
    case 2 then show ?thesis by (simp add: fl_zero)
  next
    case 3
    then have "fl (rat_of_int (- m) * 2 powi x) = rat_of_int (- m) * 2 powi x"
      using assms by (intro fl_exact_pos) simp_all
    then show ?thesis using fl_minus[of "rat_of_int m * 2 powi x"] by simp
  qed
qed

lemma fl_of_int: "\<bar>m\<bar> < 2 ^ 53 \<Longrightarrow> fl (rat_of_int m) = rat_of_int m"
  using fl_exact[of m 0] by simp

lemma fl_numeral: "numeral k < (2::int) ^ 53 \<Longrightarrow> fl (numeral k) = numeral k"
  using fl_of_int[of "numeral k"] by simp

lemma fl_one: "fl 1 = 1"
  using fl_of_int[of 1] by simp

lemma fl_half: "fl (1 / 2) = 1 / 2"
  using fl_exact[of 1 "-1"] by (simp add: power_int_minus)

section \<open>The timer\<close>

text \<open>
  C7. The timer wrapper runs the operation exactly once, on the world as it is after
  the first reading of the clock, and returns the operation's result with the elapsed
  time, the floating-point difference of the two readings in seconds (a double); the
  effects of the operation on the world are there once. When the operation raises,
  the same exception comes out, the clock is not read again and no duration is
  produced.
\<close>

theorem time_operation_once:
  "(\<forall>r w2. func (snd (perf_counter E w)) = (Inr r, w2) \<longrightarrow>
       time_operation name E func w =
         (Inr (r, fsub (perf_clock E (ticks w2)) (perf_clock E (ticks w))), snd (perf_counter E w2))
       \<and> fl (fsub (perf_clock E (ticks w2)) (perf_clock E (ticks w)))
           = fsub (perf_clock E (ticks w2)) (perf_clock E (ticks w)))
   \<and> (\<forall>e w2. func (snd (perf_counter E w)) = (Inl e, w2) \<longrightarrow>
       time_operation name E func w = (Inl e, w2))
   \<and> (\<forall>ev r. trace (snd (time_operation name E (\<lambda>w'. (r, emit ev w')) w)) = trace w @ [ev])"
  by (auto simp: time_operation_def perf_counter_def emit_def fsub_def fl_idem split: sum.splits)

theorem time_operation_once_witness:
  "time_operation ''stage'' (stub_env rat_of_nat None (Inr JNull))
      (\<lambda>w. (Inr (5::nat), emit (Sleep 1) w)) world0
     = (Inr (5, 1), \<lparr>ticks = 2, trace = [Sleep 1]\<rparr>)
   \<and> time_operation ''stage'' (stub_env rat_of_nat None (Inr JNull))
      (\<lambda>w. (Inl KeyError :: exn + nat, emit (Sleep 1) w)) world0
     = (Inl KeyError, \<lparr>ticks = 1, trace = [Sleep 1]\<rparr>)"
  using time_operation_once[of "\<lambda>w. (Inr (5::nat), emit (Sleep 1) w)"
          "stub_env rat_of_nat None (Inr JNull)" world0 "''stage''"]
    time_operation_once[of "\<lambda>w. (Inl KeyError :: exn + nat, emit (Sleep 1) w)"
          "stub_env rat_of_nat None (Inr JNull)" world0 "''stage''"]
  by (auto simp: perf_counter_def emit_def stub_env_def world0_def fsub_def fl_one numeral_2_eq_2)

section \<open>Statements one after another\<close>

lemma bindW_Inr_iff:
  "bindW m f w = (Inr v, w') \<longleftrightarrow> (\<exists>x w1. m w = (Inr x, w1) \<and> f x w1 = (Inr v, w'))"
  by (cases "m w") (auto simp: bindW_def split: sum.splits)

lemma bindW_Inl: "m w = (Inl e, w1) \<Longrightarrow> bindW m f w = (Inl e, w1)"
  by (simp add: bindW_def)

lemma bindW_Inr: "m w = (Inr x, w1) \<Longrightarrow> bindW m f w = f x w1"
  by (simp add: bindW_def)

lemma returnW_Inr_iff: "returnW v w = (Inr v', w') \<longleftrightarrow> v' = v \<and> w' = w"
  by (auto simp: returnW_def)

lemma liftE_Inr_iff: "liftE r w = (Inr v, w') \<longleftrightarrow> r = Inr v \<and> w' = w"
  by (auto simp: liftE_def)

lemma clock_read_eq: "clock_read E w = (Inr (perf_clock E (ticks w)), w\<lparr>ticks := Suc (ticks w)\<rparr>)"
  by (simp add: clock_read_def perf_counter_def)

lemma console_print_Inr_iff:
  "console_print E l w = (Inr u, w') \<longleftrightarrow> console_error E w l = None \<and> w' = emit (Print l) w"
  by (auto simp: console_print_def split: option.splits)

lemma console_print_quiet:
  "console_error E = (\<lambda>w l. None) \<Longrightarrow> console_print E l w = (Inr (), emit (Print l) w)"
  by (simp add: console_print_def)

section \<open>The stages, step by step\<close>

lemma initialize_client_eq:
  "initialize_client E region profile w =
     (case boto3_client E (w\<lparr>ticks := Suc (ticks w)\<rparr>) (session_kwargs profile) region of
        Inl e \<Rightarrow> (Inl e, w\<lparr>ticks := Suc (ticks w),
                           trace := trace w @ [CreateClient (session_kwargs profile) region]\<rparr>)
      | Inr c \<Rightarrow> (Inr (c, fsub (perf_clock E (Suc (ticks w))) (perf_clock E (ticks w))),
                  w\<lparr>ticks := Suc (Suc (ticks w)),
                    trace := trace w @ [CreateClient (session_kwargs profile) region]\<rparr>))"
  by (simp add: initialize_client_def initialize_client_func_def time_operation_def
      perf_counter_def emit_def split: sum.splits)

lemma invoke_model_eq:
  "invoke_model E c model_id prompt max_tokens w =
     (case bedrock_invoke E (w\<lparr>ticks := Suc (ticks w)\<rparr>) c model_id
             (json_dumps E (request_body model_id prompt max_tokens)) of
        Inl e \<Rightarrow> (Inl e, w\<lparr>ticks := Suc (ticks w),
                           trace := trace w @ [InvokeModel c model_id
                              (json_dumps E (request_body model_id prompt max_tokens))
                              ''application/json'' ''application/json'']\<rparr>)
      | Inr resp \<Rightarrow> (Inr (resp, fsub (perf_clock E (Suc (ticks w))) (perf_clock E (ticks w))),
                  w\<lparr>ticks := Suc (Suc (ticks w)),
                    trace := trace w @ [InvokeModel c model_id
                              (json_dumps E (request_body model_id prompt max_tokens))
                              ''application/json'' ''application/json'']\<rparr>))"
  by (simp add: invoke_model_def invoke_model_func_def time_operation_def
      perf_counter_def emit_def Let_def split: sum.splits)

lemma parse_response_eq:
  "parse_response E resp model_id w =
     (case parse_response_func E resp model_id of
        Inl e \<Rightarrow> (Inl e, w\<lparr>ticks := Suc (ticks w)\<rparr>)
      | Inr v \<Rightarrow> (Inr (v, fsub (perf_clock E (Suc (ticks w))) (perf_clock E (ticks w))),
                  w\<lparr>ticks := Suc (Suc (ticks w))\<rparr>))"
  by (simp add: parse_response_def time_operation_pure)

lemma initialize_client_Inr_iff:
  "initialize_client E region profile w = (Inr (c, t), w') \<longleftrightarrow>
     boto3_client E (w\<lparr>ticks := Suc (ticks w)\<rparr>) (session_kwargs profile) region = Inr c
     \<and> t = fsub (perf_clock E (Suc (ticks w))) (perf_clock E (ticks w))
     \<and> w' = w\<lparr>ticks := Suc (Suc (ticks w)),
              trace := trace w @ [CreateClient (session_kwargs profile) region]\<rparr>"
  unfolding initialize_client_eq by (auto split: sum.splits)

lemma invoke_model_Inr_iff:
  "invoke_model E c model_id prompt max_tokens w = (Inr (resp, t), w') \<longleftrightarrow>
     bedrock_invoke E (w\<lparr>ticks := Suc (ticks w)\<rparr>) c model_id
        (json_dumps E (request_body model_id prompt max_tokens)) = Inr resp
     \<and> t = fsub (perf_clock E (Suc (ticks w))) (perf_clock E (ticks w))
     \<and> w' = w\<lparr>ticks := Suc (Suc (ticks w)),
              trace := trace w @ [InvokeModel c model_id
                 (json_dumps E (request_body model_id prompt max_tokens))
                 ''application/json'' ''application/json'']\<rparr>"
  unfolding invoke_model_eq by (auto split: sum.splits)

lemma parse_response_Inr_iff:
  "parse_response E resp model_id w = (Inr (v, t), w') \<longleftrightarrow>
     parse_response_func E resp model_id = Inr v
     \<and> t = fsub (perf_clock E (Suc (ticks w))) (perf_clock E (ticks w))
     \<and> w' = w\<lparr>ticks := Suc (Suc (ticks w))\<rparr>"
  unfolding parse_response_eq by (auto split: sum.splits)

section \<open>No line of the summary before the loop has ended\<close>

lemma summary_free_bindW:
  "summary_free m \<Longrightarrow> (\<And>x. summary_free (f x)) \<Longrightarrow> summary_free (bindW m f)"
  unfolding summary_free_def bindW_def
  by (auto split: prod.splits sum.splits) (metis snd_conv)+

lemma summary_free_returnW: "summary_free (returnW v)"
  by (simp add: summary_free_def returnW_def)

lemma summary_free_liftE: "summary_free (liftE r)"
  by (simp add: summary_free_def liftE_def)

lemma summary_free_clock_read: "summary_free (clock_read E)"
  by (simp add: summary_free_def clock_read_eq)

lemma summary_free_console_print: "\<not> is_summary (Print l) \<Longrightarrow> summary_free (console_print E l)"
  by (simp add: summary_free_def console_print_def emit_def split: option.splits)

lemma summary_free_initialize_client: "summary_free (initialize_client E region profile)"
  by (simp add: summary_free_def initialize_client_eq split: sum.splits)

lemma summary_free_invoke_model: "summary_free (invoke_model E c model_id prompt max_tokens)"
  by (simp add: summary_free_def invoke_model_eq split: sum.splits)

lemma summary_free_parse_response: "summary_free (parse_response E resp model_id)"
  by (simp add: summary_free_def parse_response_eq split: sum.splits)

lemma summary_free_case_prod: "(\<And>a b. summary_free (f a b)) \<Longrightarrow> summary_free (case_prod f x)"
  by (cases x) simp

lemma summary_free_case_prod2:
  "(\<And>a b. summary_free (f a b y)) \<Longrightarrow> summary_free (case_prod f x y)"
  by (cases x) simp

lemma summary_free_if: "summary_free m \<Longrightarrow> summary_free n \<Longrightarrow> summary_free (if b then m else n)"
  by simp

lemmas summary_free_intros =
  summary_free_bindW summary_free_returnW summary_free_liftE summary_free_clock_read
  summary_free_console_print summary_free_initialize_client summary_free_invoke_model
  summary_free_parse_response summary_free_case_prod summary_free_case_prod2 summary_free_if

lemma summary_free_measure_pass: "summary_free (measure_pass E model_id prompt max_tokens c init)"
  unfolding measure_pass_def Let_def
  by (intro summary_free_intros) simp_all

lemma summary_free_iteration:
  "summary_free (iteration E model_id prompt region profile max_tokens iterations i cl)"
  unfolding iteration_def
  by (cases cl) (auto intro!: summary_free_intros summary_free_measure_pass)

lemma summary_free_print_header: "summary_free (print_header E model_id prompt region iterations)"
  unfolding print_header_def
  by (intro summary_free_intros) simp_all

lemma iteration_no_summary:
  "filter is_summary (trace (snd (iteration E model_id prompt region profile max_tokens iterations i cl w)))
     = filter is_summary (trace w)"
  using summary_free_iteration[of E model_id prompt region profile max_tokens iterations i cl]
  by (simp add: summary_free_def)

lemma run_iterations_append:
  "run_iterations E model_id prompt region profile max_tokens iterations (xs @ ys) cl acc w =
     (case run_iterations E model_id prompt region profile max_tokens iterations xs cl acc w of
        (Inl f, w1) \<Rightarrow> (Inl f, w1)
      | (Inr (cl1, acc1), w1) \<Rightarrow>
          run_iterations E model_id prompt region profile max_tokens iterations ys cl1 acc1 w1)"
  by (induction xs arbitrary: cl acc w) (auto split: prod.splits sum.splits)

lemma run_iterations_no_summary:
  "filter is_summary (trace (snd (run_iterations E model_id prompt region profile max_tokens iterations xs cl acc w)))
     = filter is_summary (trace w)"
proof (induction xs arbitrary: cl acc w)
  case Nil
  show ?case by simp
next
  case (Cons i xs)
  show ?case
  proof (cases "iteration E model_id prompt region profile max_tokens iterations i cl w")
    case (Pair r w1)
    have s: "filter is_summary (trace w1) = filter is_summary (trace w)"
      using iteration_no_summary[of E model_id prompt region profile max_tokens iterations i cl w] Pair
      by simp
    show ?thesis
    proof (cases r)
      case (Inl e)
      then show ?thesis using Pair s by simp
    next
      case (Inr ct)
      obtain c t where ct: "ct = (c, t)" by (cases ct) auto
      show ?thesis using Pair Inr ct s Cons.IH by (simp add: emit_def)
    qed
  qed
qed

lemma run_iterations_length:
  "run_iterations E model_id prompt region profile max_tokens iterations xs cl acc w
     = (Inr (cl1, acc1), w1) \<Longrightarrow> length acc1 = length acc + length xs"
proof (induction xs arbitrary: cl acc w)
  case Nil
  then show ?case by simp
next
  case (Cons i xs)
  then show ?case by (fastforce split: prod.splits sum.splits)
qed

section \<open>A run that completes\<close>

lemma measure_pass_InrD:
  assumes "measure_pass E model_id prompt max_tokens c init w = (Inr (c1, t), w1)"
  shows "c1 = c \<and> pass_record E (ticks w) init t \<and> ticks w1 = ticks w + 6
    \<and> (\<exists>evs. trace w1 = trace w @ evs \<and> filter is_create evs = []
            \<and> concat (map invoked_with evs) = [c])"
  using assms unfolding measure_pass_def Let_def
  by (auto simp: bindW_Inr_iff clock_read_eq invoke_model_Inr_iff parse_response_Inr_iff
      console_print_Inr_iff liftE_Inr_iff returnW_Inr_iff pass_record_def emit_def
      eval_nat_numeral)

lemma iteration_line_InrD:
  assumes "(if 1 < iterations then console_print E (IterationLine k iterations)
            else returnW ()) w = (Inr u, w0)"
  shows "w0 = (if 1 < iterations then emit (Print (IterationLine k iterations)) w else w)"
  using assms by (auto simp: console_print_Inr_iff returnW_Inr_iff split: if_splits)

lemma iteration_first_InrD:
  assumes "iteration E model_id prompt region profile max_tokens iterations 0 cl w = (Inr (c, t), w1)"
  shows "boto3_client E
           ((if 1 < iterations then emit (Print (IterationLine 1 iterations)) w else w)
              \<lparr>ticks := Suc (ticks w)\<rparr>) (session_kwargs profile) region = Inr c
    \<and> pass_record E (ticks w + 2)
          (Some (fsub (perf_clock E (Suc (ticks w))) (perf_clock E (ticks w)))) t
    \<and> ticks w1 = ticks w + 8
    \<and> (\<exists>evs. trace w1 = trace w @ evs
            \<and> filter is_create evs = [CreateClient (session_kwargs profile) region]
            \<and> concat (map invoked_with evs) = [c])"
proof -
  let ?w0 = "if 1 < iterations then emit (Print (IterationLine 1 iterations)) w else w"
  let ?t = "fsub (perf_clock E (Suc (ticks w))) (perf_clock E (ticks w))"
  let ?wm = "emit (Print (ClientInitLine (fmul ?t 1000)))
               (?w0\<lparr>ticks := Suc (Suc (ticks w)),
                    trace := trace ?w0 @ [CreateClient (session_kwargs profile) region]\<rparr>)"
  have t0: "ticks ?w0 = ticks w" by (simp add: emit_def)
  have "\<exists>ev0. trace ?w0 = trace w @ ev0 \<and> filter is_create ev0 = []
      \<and> concat (map invoked_with ev0) = []"
    by (simp add: emit_def)
  then obtain ev0 where tr0: "trace ?w0 = trace w @ ev0" "filter is_create ev0 = []"
      "concat (map invoked_with ev0) = []"
    by blast
  from assms obtain u w0 where
    l: "(if 1 < iterations then console_print E (IterationLine (0 + 1) iterations)
         else returnW ()) w = (Inr u, w0)"
    and r: "bindW (initialize_client E region profile) (\<lambda>(c, init_time).
            bindW (console_print E (ClientInitLine (fmul init_time 1000))) (\<lambda>u1.
            measure_pass E model_id prompt max_tokens c (Some init_time))) w0 = (Inr (c, t), w1)"
    unfolding iteration_def bindW_Inr_iff[of _ _ w] by auto
  have w0: "w0 = ?w0" using iteration_line_InrD[OF l] by simp
  from r obtain c' where
    b: "boto3_client E (?w0\<lparr>ticks := Suc (ticks w)\<rparr>) (session_kwargs profile) region = Inr c'"
    and m: "measure_pass E model_id prompt max_tokens c' (Some ?t) ?wm = (Inr (c, t), w1)"
    unfolding w0
    by (auto simp: bindW_Inr_iff initialize_client_Inr_iff console_print_Inr_iff t0)
  note D = measure_pass_InrD[OF m]
  have c: "c' = c" using D by simp
  have tm: "ticks ?wm = ticks w + 2" by (simp add: emit_def)
  from D obtain evs where evs: "trace w1 = trace ?wm @ evs" "filter is_create evs = []"
      "concat (map invoked_with evs) = [c']"
    by blast
  have trm: "trace ?wm = trace w @ (ev0 @ [CreateClient (session_kwargs profile) region,
      Print (ClientInitLine (fmul ?t 1000))])"
    using tr0 by (simp add: emit_def)
  have "trace w1 = trace w @ (ev0 @ [CreateClient (session_kwargs profile) region,
      Print (ClientInitLine (fmul ?t 1000))] @ evs)
    \<and> filter is_create (ev0 @ [CreateClient (session_kwargs profile) region,
      Print (ClientInitLine (fmul ?t 1000))] @ evs) = [CreateClient (session_kwargs profile) region]
    \<and> concat (map invoked_with (ev0 @ [CreateClient (session_kwargs profile) region,
      Print (ClientInitLine (fmul ?t 1000))] @ evs)) = [c]"
    using evs trm c tr0 by simp
  then have ex: "\<exists>evs. trace w1 = trace w @ evs
            \<and> filter is_create evs = [CreateClient (session_kwargs profile) region]
            \<and> concat (map invoked_with evs) = [c]"
    by blast
  have "pass_record E (ticks w + 2) (Some ?t) t \<and> ticks w1 = ticks w + 8" using D tm by simp
  then show ?thesis using b c ex by simp
qed

lemma iteration_later_InrD:
  assumes "iteration E model_id prompt region profile max_tokens iterations i cl w = (Inr (c, t), w1)"
    and "i \<noteq> 0"
  shows "cl = Some c \<and> pass_record E (ticks w) None t \<and> ticks w1 = ticks w + 6
    \<and> (\<exists>evs. trace w1 = trace w @ evs \<and> filter is_create evs = []
            \<and> concat (map invoked_with evs) = [c])"
proof -
  let ?w0 = "if 1 < iterations then emit (Print (IterationLine (i + 1) iterations)) w else w"
  have t0: "ticks ?w0 = ticks w" by (simp add: emit_def)
  have "\<exists>ev0. trace ?w0 = trace w @ ev0 \<and> filter is_create ev0 = []
      \<and> concat (map invoked_with ev0) = []"
    by (simp add: emit_def)
  then obtain ev0 where tr0: "trace ?w0 = trace w @ ev0" "filter is_create ev0 = []"
      "concat (map invoked_with ev0) = []"
    by blast
  from assms obtain u w0 where
    l: "(if 1 < iterations then console_print E (IterationLine (i + 1) iterations)
         else returnW ()) w = (Inr u, w0)"
    and r: "(case cl of
               None \<Rightarrow> bindW (clock_read E) (\<lambda>start_api. liftE (Inl UnboundLocalError))
             | Some c \<Rightarrow> measure_pass E model_id prompt max_tokens c None) w0 = (Inr (c, t), w1)"
    unfolding iteration_def bindW_Inr_iff[of _ _ w] by auto
  have w0: "w0 = ?w0" using iteration_line_InrD[OF l] by simp
  obtain c' where cl: "cl = Some c'"
    using r by (cases cl) (auto simp: bindW_Inr_iff liftE_Inr_iff)
  have m: "measure_pass E model_id prompt max_tokens c' None ?w0 = (Inr (c, t), w1)"
    using r unfolding cl w0 by simp
  note D = measure_pass_InrD[OF m]
  from D obtain evs where evs: "trace w1 = trace ?w0 @ evs" "filter is_create evs = []"
      "concat (map invoked_with evs) = [c']"
    by blast
  have "trace w1 = trace w @ (ev0 @ evs) \<and> filter is_create (ev0 @ evs) = []
      \<and> concat (map invoked_with (ev0 @ evs)) = [c]"
    using evs tr0 D by simp
  then have ex: "\<exists>evs. trace w1 = trace w @ evs \<and> filter is_create evs = []
            \<and> concat (map invoked_with evs) = [c]"
    by blast
  show ?thesis using cl D t0 ex by simp
qed

lemma later_passes:
  assumes "run_iterations E model_id prompt region profile max_tokens iterations xs (Some c) acc w
             = (Inr (cl1, acc1), w1)"
    and "0 \<notin> set xs"
  shows "cl1 = Some c
    \<and> (\<exists>recs. acc1 = acc @ recs \<and> length recs = length xs
           \<and> (\<forall>j < length xs. pass_record E (ticks w + 6 * j) None (recs ! j)))
    \<and> ticks w1 = ticks w + 6 * length xs
    \<and> (\<exists>evs. trace w1 = trace w @ evs \<and> filter is_create evs = []
           \<and> concat (map invoked_with evs) = replicate (length xs) c)"
  using assms
proof (induction xs arbitrary: acc w)
  case Nil
  then show ?case by simp
next
  case (Cons i xs)
  obtain r wi where it: "iteration E model_id prompt region profile max_tokens iterations i (Some c) w
      = (r, wi)" by (cases "iteration E model_id prompt region profile max_tokens iterations i (Some c) w")
  obtain c' t where r: "r = Inr (c', t)"
    using Cons.prems(1) it by (cases r) auto
  have i: "i \<noteq> 0" using Cons.prems(2) by auto
  note D = iteration_later_InrD[OF it[unfolded r] i]
  have c': "c' = c" using D by simp
  let ?ws = "if 1 < iterations \<and> int i < iterations - 1 then emit (Sleep (1 / 2)) wi else wi"
  have rest: "run_iterations E model_id prompt region profile max_tokens iterations xs (Some c)
      (acc @ [t]) ?ws = (Inr (cl1, acc1), w1)"
    using Cons.prems(1) it r c' by simp
  have xs: "0 \<notin> set xs" using Cons.prems(2) by simp
  note IH = Cons.IH[OF rest xs]
  have ts: "ticks ?ws = ticks w + 6" using D by (simp add: emit_def)
  from D obtain ev1 where ev1: "trace wi = trace w @ ev1" "filter is_create ev1 = []"
      "concat (map invoked_with ev1) = [c]" by blast
  have "\<exists>ev2. trace ?ws = trace wi @ ev2 \<and> filter is_create ev2 = []
      \<and> concat (map invoked_with ev2) = []"
    by (simp add: emit_def)
  then obtain ev2 where ev2: "trace ?ws = trace wi @ ev2" "filter is_create ev2 = []"
      "concat (map invoked_with ev2) = []" by blast
  from IH obtain recs where recs: "acc1 = (acc @ [t]) @ recs" "length recs = length xs"
      "\<forall>j < length xs. pass_record E (ticks ?ws + 6 * j) None (recs ! j)" by blast
  from IH obtain ev3 where ev3: "trace w1 = trace ?ws @ ev3" "filter is_create ev3 = []"
      "concat (map invoked_with ev3) = replicate (length xs) c" by blast
  have p: "\<forall>j < length (i # xs). pass_record E (ticks w + 6 * j) None ((t # recs) ! j)"
  proof (intro allI impI)
    fix j assume j: "j < length (i # xs)"
    show "pass_record E (ticks w + 6 * j) None ((t # recs) ! j)"
    proof (cases j)
      case 0
      then show ?thesis using D by simp
    next
      case (Suc j')
      then have "pass_record E (ticks ?ws + 6 * j') None (recs ! j')" using recs(3) j by simp
      moreover have "ticks ?ws + 6 * j' = ticks w + 6 * j" using ts Suc by simp
      ultimately show ?thesis using Suc by simp
    qed
  qed
  have a: "\<exists>recs. acc1 = acc @ recs \<and> length recs = length (i # xs)
           \<and> (\<forall>j < length (i # xs). pass_record E (ticks w + 6 * j) None (recs ! j))"
    using recs(1,2) p by (intro exI[of _ "t # recs"]) simp
  have "trace w1 = trace w @ (ev1 @ ev2 @ ev3) \<and> filter is_create (ev1 @ ev2 @ ev3) = []
      \<and> concat (map invoked_with (ev1 @ ev2 @ ev3)) = replicate (length (i # xs)) c"
    using ev1 ev2 ev3 by simp
  then have b: "\<exists>evs. trace w1 = trace w @ evs \<and> filter is_create evs = []
           \<and> concat (map invoked_with evs) = replicate (length (i # xs)) c" by blast
  have "ticks w1 = ticks w + 6 * length (i # xs)" using IH ts by simp
  then show ?case using IH a b by simp
qed


lemma full_loop:
  assumes "run_iterations E model_id prompt region profile max_tokens iterations [0 ..< n] None [] w
             = (Inr (cl1, records), w1)"
    and "0 < n"
  shows "\<exists>c. boto3_client E
           ((if 1 < iterations then emit (Print (IterationLine 1 iterations)) w else w)
              \<lparr>ticks := Suc (ticks w)\<rparr>) (session_kwargs profile) region = Inr c
    \<and> cl1 = Some c \<and> length records = n
    \<and> (\<forall>i < n. pass_record E (ticks w + 2 + 6 * i)
           (if i = 0 then Some (fsub (perf_clock E (Suc (ticks w))) (perf_clock E (ticks w))) else None)
           (records ! i))
    \<and> ticks w1 = ticks w + 2 + 6 * n
    \<and> (\<exists>evs. trace w1 = trace w @ evs
           \<and> filter is_create evs = [CreateClient (session_kwargs profile) region]
           \<and> concat (map invoked_with evs) = replicate n c)"
proof -
  have up: "[0 ..< n] = 0 # [1 ..< n]" using assms(2) by (simp add: upt_conv_Cons)
  obtain r wi where it: "iteration E model_id prompt region profile max_tokens iterations 0 None w
      = (r, wi)" by (cases "iteration E model_id prompt region profile max_tokens iterations 0 None w")
  obtain c t where r: "r = Inr (c, t)"
    using assms(1) it unfolding up by (cases r) auto
  note D = iteration_first_InrD[OF it[unfolded r]]
  let ?ws = "if 1 < iterations \<and> int 0 < iterations - 1 then emit (Sleep (1 / 2)) wi else wi"
  have rest: "run_iterations E model_id prompt region profile max_tokens iterations [1 ..< n] (Some c)
      [t] ?ws = (Inr (cl1, records), w1)"
    using assms(1) it r unfolding up by simp
  have nz: "0 \<notin> set [1 ..< n]" by simp
  note L = later_passes[OF rest nz]
  have ts: "ticks ?ws = ticks w + 8" using D by (simp add: emit_def)
  from D obtain ev1 where ev1: "trace wi = trace w @ ev1"
      "filter is_create ev1 = [CreateClient (session_kwargs profile) region]"
      "concat (map invoked_with ev1) = [c]" by blast
  have "\<exists>ev2. trace ?ws = trace wi @ ev2 \<and> filter is_create ev2 = []
      \<and> concat (map invoked_with ev2) = []"
    by (simp add: emit_def)
  then obtain ev2 where ev2: "trace ?ws = trace wi @ ev2" "filter is_create ev2 = []"
      "concat (map invoked_with ev2) = []" by blast
  from L obtain recs where recs: "records = [t] @ recs" "length recs = length [1 ..< n]"
      "\<forall>j < length [1 ..< n]. pass_record E (ticks ?ws + 6 * j) None (recs ! j)" by blast
  from L obtain ev3 where ev3: "trace w1 = trace ?ws @ ev3" "filter is_create ev3 = []"
      "concat (map invoked_with ev3) = replicate (length [1 ..< n]) c" by blast
  have len: "length records = n" using recs(1,2) assms(2) by simp
  have p: "\<forall>i < n. pass_record E (ticks w + 2 + 6 * i)
           (if i = 0 then Some (fsub (perf_clock E (Suc (ticks w))) (perf_clock E (ticks w))) else None)
           (records ! i)"
  proof (intro allI impI)
    fix i assume i: "i < n"
    show "pass_record E (ticks w + 2 + 6 * i)
           (if i = 0 then Some (fsub (perf_clock E (Suc (ticks w))) (perf_clock E (ticks w))) else None)
           (records ! i)"
    proof (cases i)
      case 0
      then show ?thesis using D recs(1) by simp
    next
      case (Suc j)
      have e: "ticks ?ws + 6 * j = ticks w + 2 + 6 * i" using ts Suc by simp
      have "pass_record E (ticks ?ws + 6 * j) None (recs ! j)" using recs(3) i Suc by simp
      then have "pass_record E (ticks w + 2 + 6 * i) None (recs ! j)" unfolding e .
      then show ?thesis using Suc recs(1) by simp
    qed
  qed
  have "replicate (length [1 ..< n]) c = replicate (n - 1) c" by simp
  then have "[c] @ replicate (length [1 ..< n]) c = replicate n c"
    using assms(2) by (cases n) simp_all
  then have "trace w1 = trace w @ (ev1 @ ev2 @ ev3)
      \<and> filter is_create (ev1 @ ev2 @ ev3) = [CreateClient (session_kwargs profile) region]
      \<and> concat (map invoked_with (ev1 @ ev2 @ ev3)) = replicate n c"
    using ev1 ev2 ev3 by (simp del: concat_eq_Nil_conv)
  then have b: "\<exists>evs. trace w1 = trace w @ evs
           \<and> filter is_create evs = [CreateClient (session_kwargs profile) region]
           \<and> concat (map invoked_with evs) = replicate n c" by blast
  have tk: "ticks w1 = ticks w + 2 + 6 * n" using L ts assms(2) by simp
  show ?thesis using D L len p b tk by blast
qed


lemma print_header_Inr_iff:
  "print_header E model_id prompt region iterations w = (Inr u, wh) \<longleftrightarrow>
     console_error E w Banner = None
     \<and> console_error E (w\<lparr>trace := trace w @ [Print Banner]\<rparr>) (ModelLine model_id) = None
     \<and> console_error E (w\<lparr>trace := trace w @ [Print Banner, Print (ModelLine model_id)]\<rparr>)
           (RegionLine region) = None
     \<and> console_error E (w\<lparr>trace := trace w @ [Print Banner, Print (ModelLine model_id),
             Print (RegionLine region)]\<rparr>) (IterationsLine iterations) = None
     \<and> console_error E (w\<lparr>trace := trace w @ [Print Banner, Print (ModelLine model_id),
             Print (RegionLine region), Print (IterationsLine iterations)]\<rparr>)
           (PromptLengthLine (length prompt)) = None
     \<and> wh = w\<lparr>trace := trace w @
           [Print Banner, Print (ModelLine model_id), Print (RegionLine region),
            Print (IterationsLine iterations), Print (PromptLengthLine (length prompt))]\<rparr>"
  unfolding print_header_def
  by (auto simp: bindW_Inr_iff console_print_Inr_iff emit_def)

lemma print_summary_InrD:
  assumes "print_summary E all_timings w = (Inr u, w1)"
  shows "\<exists>a b. token_average E (map input_tokens all_timings) (length all_timings) = Inr a
    \<and> token_average E (map output_tokens all_timings) (length all_timings) = Inr b
    \<and> w1 = w\<lparr>trace := trace w @
         [Print SummaryBanner, Print (SummaryTable (summary_rows E all_timings)),
          Print (AverageTokensLine a b)]\<rparr>"
  using assms unfolding print_summary_def
  by (auto simp: bindW_Inr_iff console_print_Inr_iff liftE_Inr_iff emit_def)

lemma run_timing_test_InrD:
  assumes "run_timing_test E model_id prompt region profile max_tokens iterations w = (Inr records, w2)"
  shows "\<exists>cl w1 evs.
            print_header E model_id prompt region iterations w =
              (Inr (), w\<lparr>trace := trace w @
                 [Print Banner, Print (ModelLine model_id), Print (RegionLine region),
                  Print (IterationsLine iterations), Print (PromptLengthLine (length prompt))]\<rparr>)
          \<and> run_iterations E model_id prompt region profile max_tokens iterations
                [0 ..< nat iterations] None []
                (w\<lparr>trace := trace w @
                   [Print Banner, Print (ModelLine model_id), Print (RegionLine region),
                    Print (IterationsLine iterations), Print (PromptLengthLine (length prompt))]\<rparr>)
              = (Inr (cl, records), w1)
          \<and> trace w2 = trace w1 @ evs \<and> filter is_create evs = []
          \<and> concat (map invoked_with evs) = []
          \<and> (1 < iterations \<longrightarrow> print_summary E records w1 = (Inr (), w2))
          \<and> (\<not> 1 < iterations \<longrightarrow> w2 = w1)"
proof -
  let ?wh = "w\<lparr>trace := trace w @
                 [Print Banner, Print (ModelLine model_id), Print (RegionLine region),
                  Print (IterationsLine iterations), Print (PromptLengthLine (length prompt))]\<rparr>"
  from assms obtain u wh where
    h: "print_header E model_id prompt region iterations w = (Inr u, wh)"
    and rest: "(case run_iterations E model_id prompt region profile max_tokens iterations
              [0 ..< nat iterations] None [] wh of
         (Inl (e, partial), w1) \<Rightarrow> (Inl e, w1)
       | (Inr (cl, all_timings), w1) \<Rightarrow>
           (if 1 < iterations
            then bindW (print_summary E all_timings) (\<lambda>u. returnW all_timings) w1
            else (Inr all_timings, w1))) = (Inr records, w2)"
    unfolding run_timing_test_def bindW_Inr_iff[of _ _ w] by auto
  have wh: "wh = ?wh" using h unfolding print_header_Inr_iff by simp
  obtain r w1 where loop: "run_iterations E model_id prompt region profile max_tokens iterations
            [0 ..< nat iterations] None [] ?wh = (r, w1)"
    by (cases "run_iterations E model_id prompt region profile max_tokens iterations
            [0 ..< nat iterations] None [] ?wh")
  obtain cl recs where r: "r = Inr (cl, recs)"
    using rest loop unfolding wh by (cases r) auto
  have hh: "print_header E model_id prompt region iterations w = (Inr (), ?wh)"
    using h wh by simp
  show ?thesis
  proof (cases "1 < iterations")
    case True
    then have "bindW (print_summary E recs) (\<lambda>u. returnW recs) w1 = (Inr records, w2)"
      using rest loop r unfolding wh by simp
    then have ps: "print_summary E recs w1 = (Inr (), w2)" and rr: "records = recs"
      by (auto simp: bindW_Inr_iff returnW_Inr_iff)
    from print_summary_InrD[OF ps] have "\<exists>evs. trace w2 = trace w1 @ evs \<and> filter is_create evs = []
          \<and> concat (map invoked_with evs) = []"
      by auto
    then show ?thesis using loop r hh ps rr True by auto
  next
    case False
    then have "records = recs \<and> w2 = w1"
      using rest loop r unfolding wh by simp
    then show ?thesis using loop r hh False by simp
  qed
qed

section \<open>Running the script on concrete inputs\<close>

text \<open>On a console that prints every line, a pass is determined by the three collaborators.\<close>

lemma measure_pass_eq:
  assumes quiet: "console_error E = (\<lambda>w l. None)"
  shows "measure_pass E model_id prompt max_tokens c init w =
     (case bedrock_invoke E (w\<lparr>ticks := Suc (Suc (ticks w))\<rparr>) c model_id
             (json_dumps E (request_body model_id prompt max_tokens)) of
        Inl e \<Rightarrow>
          (Inl e, w\<lparr>ticks := ticks w + 2,
              trace := trace w @
                [InvokeModel c model_id (json_dumps E (request_body model_id prompt max_tokens))
                   ''application/json'' ''application/json'']\<rparr>)
      | Inr resp \<Rightarrow>
          (case parse_response_func E resp model_id of
             Inl e \<Rightarrow>
               (Inl e, w\<lparr>ticks := ticks w + 5,
                  trace := trace w @
                    [InvokeModel c model_id (json_dumps E (request_body model_id prompt max_tokens))
                       ''application/json'' ''application/json'',
                     Print (ApiCallLine
                       (fmul (fsub (perf_clock E (ticks w + 2)) (perf_clock E (ticks w + 1))) 1000))]\<rparr>)
           | Inr (content, in_tokens, out_tokens) \<Rightarrow>
               (case py_len content of
                  Inl e \<Rightarrow>
                    (Inl e, w\<lparr>ticks := ticks w + 6,
                       trace := trace w @
                         [InvokeModel c model_id (json_dumps E (request_body model_id prompt max_tokens))
                            ''application/json'' ''application/json'',
                          Print (ApiCallLine
                            (fmul (fsub (perf_clock E (ticks w + 2)) (perf_clock E (ticks w + 1))) 1000)),
                          Print (ParseLine
                            (fmul (fsub (perf_clock E (ticks w + 5)) (perf_clock E (ticks w + 4))) 1000))]\<rparr>)
                | Inr n \<Rightarrow>
                    (Inr (c, \<lparr>client_init = init,
                       api_call = fsub (perf_clock E (ticks w + 2)) (perf_clock E (ticks w + 1)),
                       response_parse = fsub (perf_clock E (ticks w + 5)) (perf_clock E (ticks w + 4)),
                       total_with_init =
                         fadd (fadd (case init of None \<Rightarrow> 0 | Some t \<Rightarrow> t)
                                    (fsub (perf_clock E (ticks w + 2)) (perf_clock E (ticks w + 1))))
                              (fsub (perf_clock E (ticks w + 5)) (perf_clock E (ticks w + 4))),
                       total_without_init =
                         fadd (fsub (perf_clock E (ticks w + 2)) (perf_clock E (ticks w + 1)))
                              (fsub (perf_clock E (ticks w + 5)) (perf_clock E (ticks w + 4))),
                       input_tokens = in_tokens,
                       output_tokens = out_tokens,
                       response_length = n\<rparr>),
                     w\<lparr>ticks := ticks w + 6,
                       trace := trace w @
                         [InvokeModel c model_id (json_dumps E (request_body model_id prompt max_tokens))
                            ''application/json'' ''application/json'',
                          Print (ApiCallLine
                            (fmul (fsub (perf_clock E (ticks w + 2)) (perf_clock E (ticks w + 1))) 1000)),
                          Print (ParseLine
                            (fmul (fsub (perf_clock E (ticks w + 5)) (perf_clock E (ticks w + 4))) 1000)),
                          Print (TotalWithInitLine
                            (fmul (fadd (fadd (case init of None \<Rightarrow> 0 | Some t \<Rightarrow> t)
                                    (fsub (perf_clock E (ticks w + 2)) (perf_clock E (ticks w + 1))))
                              (fsub (perf_clock E (ticks w + 5)) (perf_clock E (ticks w + 4)))) 1000)),
                          Print (TotalWithoutInitLine
                            (fmul (fadd (fsub (perf_clock E (ticks w + 2)) (perf_clock E (ticks w + 1)))
                              (fsub (perf_clock E (ticks w + 5)) (perf_clock E (ticks w + 4)))) 1000)),
                          Print (TokensLine in_tokens out_tokens),
                          Print (ResponseLengthLine n)]\<rparr>))))"
  unfolding measure_pass_def Let_def
  by (simp add: bindW_def console_print_quiet[OF quiet] clock_read_eq invoke_model_eq
      parse_response_eq liftE_def returnW_def emit_def eval_nat_numeral
      split: sum.splits prod.splits)

lemmas float_simps =
  fsub_def fadd_def fmul_def fdiv_def fl_zero fl_one fl_numeral fl_half fl_minus

lemmas run_simps =
  iteration_def bindW_def returnW_def liftE_def clock_read_eq console_print_quiet
  initialize_client_eq measure_pass_eq print_header_def emit_def
  session_kwargs_def parse_response_func_def claude_parse_def titan_parse_def generic_parse_def
  Let_def

section \<open>The iteration loop\<close>

text \<open>
  C10 (as amended). With \<open>iterations = 0\<close>, when the console prints the five lines of
  the header, the body of the loop never runs: \<open>run_timing_test\<close> returns the empty
  list, the clock is not read, the world gains the five lines of the header and nothing
  else (no client is created, no line of an iteration and no summary is printed),
  \<open>main\<close> returns 0 and the exit status is 0. When the console raises on a line of
  the header, \<open>run_timing_test\<close> raises the same exception and the exit status is 1.
\<close>

theorem zero_iterations:
  "(\<forall>wh. print_header E model_id prompt region 0 w = (Inr (), wh) \<longrightarrow>
      wh = w\<lparr>trace := trace w @
             [Print Banner, Print (ModelLine model_id), Print (RegionLine region),
              Print (IterationsLine 0), Print (PromptLengthLine (length prompt))]\<rparr>
      \<and> run_timing_test E model_id prompt region profile max_tokens 0 w = (Inr [], wh)
      \<and> main E \<lparr>arg_model = model_id, arg_prompt = prompt, arg_region = region,
                 arg_profile = profile, arg_max_tokens = max_tokens, arg_iterations = 0\<rparr> w
            = (Inr 0, wh)
      \<and> exit_status (fst (main E \<lparr>arg_model = model_id, arg_prompt = prompt,
                 arg_region = region, arg_profile = profile, arg_max_tokens = max_tokens,
                 arg_iterations = 0\<rparr> w)) = 0)
   \<and> (\<forall>e wh. print_header E model_id prompt region 0 w = (Inl e, wh) \<longrightarrow>
        run_timing_test E model_id prompt region profile max_tokens 0 w = (Inl e, wh)
        \<and> exit_status (fst (main E \<lparr>arg_model = model_id, arg_prompt = prompt,
                 arg_region = region, arg_profile = profile, arg_max_tokens = max_tokens,
                 arg_iterations = 0\<rparr> w)) = 1)"
proof (intro conjI allI impI)
  fix wh assume h: "print_header E model_id prompt region 0 w = (Inr (), wh)"
  show "wh = w\<lparr>trace := trace w @
             [Print Banner, Print (ModelLine model_id), Print (RegionLine region),
              Print (IterationsLine 0), Print (PromptLengthLine (length prompt))]\<rparr>"
    using h unfolding print_header_Inr_iff by simp
  show r: "run_timing_test E model_id prompt region profile max_tokens 0 w = (Inr [], wh)"
    by (simp add: run_timing_test_def bindW_def h)
  show m: "main E \<lparr>arg_model = model_id, arg_prompt = prompt, arg_region = region,
                 arg_profile = profile, arg_max_tokens = max_tokens, arg_iterations = 0\<rparr> w
            = (Inr 0, wh)"
    by (simp add: main_def r)
  show "exit_status (fst (main E \<lparr>arg_model = model_id, arg_prompt = prompt,
                 arg_region = region, arg_profile = profile, arg_max_tokens = max_tokens,
                 arg_iterations = 0\<rparr> w)) = 0"
    unfolding m by (simp add: exit_status_def)
next
  fix e wh assume h: "print_header E model_id prompt region 0 w = (Inl e, wh)"
  show r: "run_timing_test E model_id prompt region profile max_tokens 0 w = (Inl e, wh)"
    by (simp add: run_timing_test_def bindW_def h)
  show "exit_status (fst (main E \<lparr>arg_model = model_id, arg_prompt = prompt,
                 arg_region = region, arg_profile = profile, arg_max_tokens = max_tokens,
                 arg_iterations = 0\<rparr> w)) = 1"
    by (simp add: main_def r exit_status_def bindW_def returnW_def console_print_def
        split: option.splits)
qed

theorem zero_iterations_witness:
  "main (stub_env rat_of_nat None (Inr hello_body)) (hello_args 0) world0 =
     (Inr 0, \<lparr>ticks = 0,
          trace = [Print Banner, Print (ModelLine ''claude''), Print (RegionLine ''us-east-1''),
                   Print (IterationsLine 0), Print (PromptLengthLine 5)]\<rparr>)
   \<and> exit_status (fst (main (stub_env rat_of_nat None (Inr hello_body)) (hello_args 0) world0)) = 0
   \<and> print_header ((stub_env rat_of_nat None (Inr hello_body))\<lparr>console_error := markup_console\<rparr>)
         ''[/x]'' ''hello'' ''us-east-1'' 0 world0
       = (Inl (Raised ''MarkupError''), \<lparr>ticks = 0, trace = [Print Banner]\<rparr>)
   \<and> exit_status (fst (main
         ((stub_env rat_of_nat None (Inr hello_body))\<lparr>console_error := markup_console\<rparr>)
         \<lparr>arg_model = ''[/x]'', arg_prompt = ''hello'', arg_region = ''us-east-1'',
          arg_profile = None, arg_max_tokens = 1000, arg_iterations = 0\<rparr> world0)) = 1"
proof -
  have h: "print_header (stub_env rat_of_nat None (Inr hello_body)) ''claude'' ''hello''
             ''us-east-1'' 0 world0
           = (Inr (), \<lparr>ticks = 0,
                trace = [Print Banner, Print (ModelLine ''claude''), Print (RegionLine ''us-east-1''),
                   Print (IterationsLine 0), Print (PromptLengthLine 5)]\<rparr>)"
    by (simp add: print_header_Inr_iff stub_env_def world0_def)
  have a: "main (stub_env rat_of_nat None (Inr hello_body)) (hello_args 0) world0 =
     (Inr 0, \<lparr>ticks = 0,
          trace = [Print Banner, Print (ModelLine ''claude''), Print (RegionLine ''us-east-1''),
                   Print (IterationsLine 0), Print (PromptLengthLine 5)]\<rparr>)
   \<and> exit_status (fst (main (stub_env rat_of_nat None (Inr hello_body)) (hello_args 0) world0)) = 0"
    using zero_iterations[where E = "stub_env rat_of_nat None (Inr hello_body)"
      and model_id = "''claude''" and prompt = "''hello''" and region = "''us-east-1''"
      and profile = None and max_tokens = 1000 and w = world0] h
    by (simp add: hello_args_def exit_status_def)
  have g: "print_header ((stub_env rat_of_nat None (Inr hello_body))\<lparr>console_error := markup_console\<rparr>)
         ''[/x]'' ''hello'' ''us-east-1'' 0 world0
       = (Inl (Raised ''MarkupError''), \<lparr>ticks = 0, trace = [Print Banner]\<rparr>)"
    by (simp add: print_header_def bindW_def console_print_def emit_def stub_env_def world0_def)
  have b: "exit_status (fst (main
         ((stub_env rat_of_nat None (Inr hello_body))\<lparr>console_error := markup_console\<rparr>)
         \<lparr>arg_model = ''[/x]'', arg_prompt = ''hello'', arg_region = ''us-east-1'',
          arg_profile = None, arg_max_tokens = 1000, arg_iterations = 0\<rparr> world0)) = 1"
    using zero_iterations[where
        E = "(stub_env rat_of_nat None (Inr hello_body))\<lparr>console_error := markup_console\<rparr>"
      and model_id = "''[/x]''" and prompt = "''hello''" and region = "''us-east-1''"
      and profile = None and max_tokens = 1000 and w = world0] g
    by blast
  show ?thesis using a g b by blast
qed

text \<open>
  The claim as it stands fails: the header prints the model id through the console,
  which reads \<open>[/x]\<close> as a closing tag. With that model id and \<open>iterations = 0\<close> the
  second line of the header raises, the handler of \<open>main\<close> raises again on the line
  that quotes the message, and the exit status is 1.
\<close>

theorem zero_iterations_markup_error:
  "run_timing_test ((stub_env rat_of_nat None (Inr hello_body))\<lparr>console_error := markup_console\<rparr>)
       ''[/x]'' ''hello'' ''us-east-1'' None 1000 0 world0
     = (Inl (Raised ''MarkupError''), \<lparr>ticks = 0, trace = [Print Banner]\<rparr>)
   \<and> main ((stub_env rat_of_nat None (Inr hello_body))\<lparr>console_error := markup_console\<rparr>)
       \<lparr>arg_model = ''[/x]'', arg_prompt = ''hello'', arg_region = ''us-east-1'',
        arg_profile = None, arg_max_tokens = 1000, arg_iterations = 0\<rparr> world0
     = (Inl (Raised ''MarkupError''), \<lparr>ticks = 0, trace = [Print Banner]\<rparr>)
   \<and> exit_status (fst (main
         ((stub_env rat_of_nat None (Inr hello_body))\<lparr>console_error := markup_console\<rparr>)
         \<lparr>arg_model = ''[/x]'', arg_prompt = ''hello'', arg_region = ''us-east-1'',
          arg_profile = None, arg_max_tokens = 1000, arg_iterations = 0\<rparr> world0)) = 1"
  by (simp add: main_def run_timing_test_def print_header_def bindW_def console_print_def
      returnW_def emit_def stub_env_def world0_def exit_status_def)

text \<open>
  C2. If the header is printed, the passes 0 to \<open>k - 1\<close> of a run of \<open>N\<close> iterations
  complete and a stage of pass \<open>k < N\<close> raises \<open>e\<close>, the loop stops there:
  \<open>all_timings\<close> holds the \<open>k\<close> records of the passes before, nothing is appended for
  pass \<open>k\<close>, the world is as the failing pass left it, no line of the summary has
  been printed nor is printed later, and the exit status is 1: \<open>main\<close> prints the error
  and the traceback and returns 1 when the console takes the two lines, and is left
  by the exception of the console otherwise.
\<close>

theorem failing_iteration_halts:
  assumes "k < nat iterations"
    and "print_header E model_id prompt region iterations w = (Inr (), wh)"
    and "run_iterations E model_id prompt region profile max_tokens iterations [0 ..< k] None []
           wh = (Inr (cl, records), w1)"
    and "iteration E model_id prompt region profile max_tokens iterations k cl w1 = (Inl e, w2)"
  shows "run_iterations E model_id prompt region profile max_tokens iterations
           [0 ..< nat iterations] None [] wh = (Inl (e, records), w2)
       \<and> length records = k
       \<and> run_timing_test E model_id prompt region profile max_tokens iterations w = (Inl e, w2)
       \<and> filter is_summary (trace w2) = filter is_summary (trace w)
       \<and> exit_status (fst (main E \<lparr>arg_model = model_id, arg_prompt = prompt, arg_region = region,
                  arg_profile = profile, arg_max_tokens = max_tokens,
                  arg_iterations = iterations\<rparr> w)) = 1
       \<and> filter is_summary (trace (snd (main E \<lparr>arg_model = model_id, arg_prompt = prompt,
                  arg_region = region, arg_profile = profile, arg_max_tokens = max_tokens,
                  arg_iterations = iterations\<rparr> w))) = filter is_summary (trace w)
       \<and> (console_error E w2 (ErrorLine e) = None \<and>
          console_error E (w2\<lparr>trace := trace w2 @ [Print (ErrorLine e)]\<rparr>) (TracebackLine e) = None \<longrightarrow>
            main E \<lparr>arg_model = model_id, arg_prompt = prompt, arg_region = region,
                  arg_profile = profile, arg_max_tokens = max_tokens,
                  arg_iterations = iterations\<rparr> w
              = (Inr 1, w2\<lparr>trace := trace w2 @ [Print (ErrorLine e), Print (TracebackLine e)]\<rparr>))"
proof -
  have "[0 ..< k + (nat iterations - k)] = [0 ..< k] @ [k ..< k + (nat iterations - k)]"
    by (rule upt_add_eq_append) simp
  then have split: "[0 ..< nat iterations] = [0 ..< k] @ k # [Suc k ..< nat iterations]"
    using assms(1) by (simp add: upt_conv_Cons)
  have loop: "run_iterations E model_id prompt region profile max_tokens iterations
           [0 ..< nat iterations] None [] wh = (Inl (e, records), w2)"
    unfolding split run_iterations_append using assms(3,4) by simp
  have len: "length records = k"
    using run_iterations_length[OF assms(3)] by simp
  have run: "run_timing_test E model_id prompt region profile max_tokens iterations w = (Inl e, w2)"
    by (simp add: run_timing_test_def bindW_def assms(2) loop)
  have "filter is_summary (trace w2) = filter is_summary (trace wh)"
    using run_iterations_no_summary[of E model_id prompt region profile max_tokens iterations
        "[0 ..< nat iterations]" None "[]" wh] loop by simp
  moreover have "filter is_summary (trace wh) = filter is_summary (trace w)"
    using summary_free_print_header[of E model_id prompt region iterations] assms(2)
    unfolding summary_free_def by (metis snd_conv)
  ultimately have ns: "filter is_summary (trace w2) = filter is_summary (trace w)" by simp
  let ?a = "\<lparr>arg_model = model_id, arg_prompt = prompt, arg_region = region,
                  arg_profile = profile, arg_max_tokens = max_tokens,
                  arg_iterations = iterations\<rparr>"
  have m: "main E ?a w = bindW (console_print E (ErrorLine e)) (\<lambda>u1.
          bindW (console_print E (TracebackLine e)) (\<lambda>u2. returnW 1)) w2"
    by (simp add: main_def run)
  have ex: "exit_status (fst (main E ?a w)) = 1"
    unfolding m by (simp add: exit_status_def bindW_def returnW_def console_print_def
        split: option.splits)
  have "summary_free (bindW (console_print E (ErrorLine e)) (\<lambda>u1.
          bindW (console_print E (TracebackLine e)) (\<lambda>u2. returnW (1::int))))"
    by (intro summary_free_intros) simp_all
  then have ns2: "filter is_summary (trace (snd (main E ?a w))) = filter is_summary (trace w)"
    unfolding m summary_free_def using ns by simp
  have ok: "main E ?a w
              = (Inr 1, w2\<lparr>trace := trace w2 @ [Print (ErrorLine e), Print (TracebackLine e)]\<rparr>)"
    if "console_error E w2 (ErrorLine e) = None \<and>
        console_error E (w2\<lparr>trace := trace w2 @ [Print (ErrorLine e)]\<rparr>) (TracebackLine e) = None"
    unfolding m using that
    by (simp add: bindW_def returnW_def console_print_def emit_def)
  show ?thesis using loop len run ns ex ns2 ok by blast
qed

theorem failing_iteration_halts_witness:
  "run_iterations (stub_env rat_of_nat (Some 2) (Inr hello_body)) ''claude'' ''hello'' ''us-east-1''
        None 1000 3 [0 ..< nat 3] None []
        (world0\<lparr>trace := [Print Banner, Print (ModelLine ''claude''), Print (RegionLine ''us-east-1''),
                           Print (IterationsLine 3), Print (PromptLengthLine 5)]\<rparr>)
     = (Inl (Raised ''InvocationError'',
         [\<lparr>client_init = Some 1, api_call = 1, response_parse = 1,
            total_with_init = 3, total_without_init = 2,
            input_tokens = JInt 10, output_tokens = JInt 3, response_length = 2\<rparr>,
          \<lparr>client_init = None, api_call = 1, response_parse = 1,
            total_with_init = 2, total_without_init = 2,
            input_tokens = JInt 10, output_tokens = JInt 3, response_length = 2\<rparr>]),
        \<lparr>ticks = 16,
          trace =
           [Print Banner, Print (ModelLine ''claude''),
            Print (RegionLine ''us-east-1''), Print (IterationsLine 3),
            Print (PromptLengthLine 5), Print (IterationLine 1 3),
            CreateClient [] ''us-east-1'', Print (ClientInitLine 1000),
            InvokeModel 7 ''claude'' ''request'' ''application/json'' ''application/json'',
            Print (ApiCallLine 1000), Print (ParseLine 1000),
            Print (TotalWithInitLine 3000), Print (TotalWithoutInitLine 2000),
            Print (TokensLine (JInt 10) (JInt 3)), Print (ResponseLengthLine 2),
            Sleep (1 / 2), Print (IterationLine 2 3),
            InvokeModel 7 ''claude'' ''request'' ''application/json'' ''application/json'',
            Print (ApiCallLine 1000), Print (ParseLine 1000),
            Print (TotalWithInitLine 2000), Print (TotalWithoutInitLine 2000),
            Print (TokensLine (JInt 10) (JInt 3)), Print (ResponseLengthLine 2),
            Sleep (1 / 2), Print (IterationLine 3 3),
            InvokeModel 7 ''claude'' ''request'' ''application/json'' ''application/json'']\<rparr>)
   \<and> fst (main (stub_env rat_of_nat (Some 2) (Inr hello_body)) (hello_args 3) world0) = Inr 1
   \<and> exit_status (fst (main (stub_env rat_of_nat (Some 2) (Inr hello_body)) (hello_args 3) world0)) = 1"
proof -
  let ?E = "stub_env rat_of_nat (Some 2) (Inr hello_body)"
  let ?w1 = "\<lparr>ticks = 14,
     trace =
       [Print Banner, Print (ModelLine ''claude''),
        Print (RegionLine ''us-east-1''), Print (IterationsLine 3),
        Print (PromptLengthLine 5), Print (IterationLine 1 3),
        CreateClient [] ''us-east-1'', Print (ClientInitLine 1000),
        InvokeModel 7 ''claude'' ''request'' ''application/json'' ''application/json'',
        Print (ApiCallLine 1000), Print (ParseLine 1000),
        Print (TotalWithInitLine 3000), Print (TotalWithoutInitLine 2000),
        Print (TokensLine (JInt 10) (JInt 3)), Print (ResponseLengthLine 2),
        Sleep (1 / 2), Print (IterationLine 2 3),
        InvokeModel 7 ''claude'' ''request'' ''application/json'' ''application/json'',
        Print (ApiCallLine 1000), Print (ParseLine 1000),
        Print (TotalWithInitLine 2000), Print (TotalWithoutInitLine 2000),
        Print (TokensLine (JInt 10) (JInt 3)), Print (ResponseLengthLine 2),
        Sleep (1 / 2)]\<rparr>"
  have k: "2 < nat 3" by simp
  have a: "run_iterations ?E ''claude'' ''hello'' ''us-east-1''
        None 1000 3 [0 ..< 2] None []
        (world0\<lparr>trace := [Print Banner, Print (ModelLine ''claude''), Print (RegionLine ''us-east-1''),
                           Print (IterationsLine 3), Print (PromptLengthLine 5)]\<rparr>)
   = (Inr (Some 7,
       [\<lparr>client_init = Some 1, api_call = 1, response_parse = 1,
           total_with_init = 3, total_without_init = 2,
           input_tokens = JInt 10, output_tokens = JInt 3, response_length = 2\<rparr>,
        \<lparr>client_init = None, api_call = 1, response_parse = 1,
           total_with_init = 2, total_without_init = 2,
           input_tokens = JInt 10, output_tokens = JInt 3, response_length = 2\<rparr>]), ?w1)"
    by (simp add: run_simps float_simps stub_env_def world0_def hello_body_def upt_rec)
  have b: "iteration ?E ''claude'' ''hello'' ''us-east-1'' None 1000 3 2 (Some 7) ?w1
     = (Inl (Raised ''InvocationError''),
        ?w1\<lparr>ticks := 16,
             trace := trace ?w1 @ [Print (IterationLine 3 3),
               InvokeModel 7 ''claude'' ''request'' ''application/json'' ''application/json'']\<rparr>)"
    by (simp add: run_simps float_simps stub_env_def)
  have h: "print_header ?E ''claude'' ''hello'' ''us-east-1'' 3 world0
      = (Inr (), world0\<lparr>trace := [Print Banner, Print (ModelLine ''claude''),
           Print (RegionLine ''us-east-1''), Print (IterationsLine 3), Print (PromptLengthLine 5)]\<rparr>)"
    by (simp add: print_header_Inr_iff stub_env_def world0_def)
  show ?thesis
    using failing_iteration_halts[OF k h a b]
    by (simp add: hello_args_def stub_env_def exit_status_def)
qed

lemmas summary_simps =
  print_summary_def summary_rows_def metrics_def metric_values_def duration_of_def
  metric_row_def float_sum_def neumaier_step_def compensate_def token_average_def py_sum_def
  fits_long_def py_truediv_def List.map_filter_def

lemma hello_run_two:
  "run_timing_test (stub_env rat_of_nat None (Inr hello_body)) ''claude'' ''hello'' ''us-east-1''
      None 1000 2 world0 =
   (Inr [\<lparr>client_init = Some 1, api_call = 1, response_parse = 1,
          total_with_init = 3, total_without_init = 2,
          input_tokens = JInt 10, output_tokens = JInt 3, response_length = 2\<rparr>,
       \<lparr>client_init = None, api_call = 1, response_parse = 1,
          total_with_init = 2, total_without_init = 2,
          input_tokens = JInt 10, output_tokens = JInt 3, response_length = 2\<rparr>],
    \<lparr>ticks = 14,
     trace =
       [Print Banner, Print (ModelLine ''claude''),
        Print (RegionLine ''us-east-1''), Print (IterationsLine 2),
        Print (PromptLengthLine 5), Print (IterationLine 1 2),
        CreateClient [] ''us-east-1'', Print (ClientInitLine 1000),
        InvokeModel 7 ''claude'' ''request'' ''application/json'' ''application/json'',
        Print (ApiCallLine 1000), Print (ParseLine 1000),
        Print (TotalWithInitLine 3000), Print (TotalWithoutInitLine 2000),
        Print (TokensLine (JInt 10) (JInt 3)), Print (ResponseLengthLine 2),
        Sleep (1 / 2), Print (IterationLine 2 2),
        InvokeModel 7 ''claude'' ''request'' ''application/json'' ''application/json'',
        Print (ApiCallLine 1000), Print (ParseLine 1000),
        Print (TotalWithInitLine 2000), Print (TotalWithoutInitLine 2000),
        Print (TokensLine (JInt 10) (JInt 3)), Print (ResponseLengthLine 2),
        Print SummaryBanner,
        Print
         (SummaryTable
           [\<lparr>metric = ''api_call'', min_val = 1000, max_val = 1000,
               avg_val = 1000, median_val = 1000\<rparr>,
            \<lparr>metric = ''response_parse'', min_val = 1000, max_val = 1000,
               avg_val = 1000, median_val = 1000\<rparr>,
            \<lparr>metric = ''total_without_init'', min_val = 2000,
               max_val = 2000, avg_val = 2000, median_val = 2000\<rparr>]),
        Print (AverageTokensLine 10 3)]\<rparr>)"
  by (simp add: run_timing_test_def run_simps float_simps summary_simps stub_env_def
      world0_def hello_body_def upt_rec)

text \<open>
  C5. For every \<open>N \<ge> 1\<close>, a run of \<open>N\<close> iterations that returns has produced exactly
  \<open>N\<close> records, in the order of the iterations (record \<open>i\<close> holds the durations
  measured by the clock readings of pass \<open>i\<close>); record 0 holds the duration of the
  client initialisation and no other record has the entry; exactly one client has been
  created, in the first pass, and every invocation of the run was made with it.
\<close>

theorem complete_run_records:
  assumes "1 \<le> iterations"
    and "run_timing_test E model_id prompt region profile max_tokens iterations w = (Inr records, w2)"
  shows "length records = nat iterations
    \<and> client_init (records ! 0) = Some (fsub (perf_clock E (Suc (ticks w))) (perf_clock E (ticks w)))
    \<and> (\<forall>i. 0 < i \<and> i < nat iterations \<longrightarrow> client_init (records ! i) = None)
    \<and> (\<forall>i < nat iterations.
          api_call (records ! i) =
            fsub (perf_clock E (ticks w + 6 * i + 4)) (perf_clock E (ticks w + 6 * i + 3))
          \<and> response_parse (records ! i) =
            fsub (perf_clock E (ticks w + 6 * i + 7)) (perf_clock E (ticks w + 6 * i + 6)))
    \<and> (\<exists>c evs.
          boto3_client E
            (w\<lparr>ticks := Suc (ticks w),
               trace := trace w @
                 [Print Banner, Print (ModelLine model_id), Print (RegionLine region),
                  Print (IterationsLine iterations), Print (PromptLengthLine (length prompt))] @
                 (if 1 < iterations then [Print (IterationLine 1 iterations)] else [])\<rparr>)
            (session_kwargs profile) region = Inr c
          \<and> trace w2 = trace w @ evs
          \<and> filter is_create evs = [CreateClient (session_kwargs profile) region]
          \<and> concat (map invoked_with evs) = replicate (nat iterations) c)"
proof -
  let ?h = "w\<lparr>trace := trace w @
                 [Print Banner, Print (ModelLine model_id), Print (RegionLine region),
                  Print (IterationsLine iterations), Print (PromptLengthLine (length prompt))]\<rparr>"
  let ?n = "nat iterations"
  have n: "0 < ?n" using assms(1) by simp
  from run_timing_test_InrD[OF assms(2)] obtain cl w1 ev3 where
    loop: "run_iterations E model_id prompt region profile max_tokens iterations
            [0 ..< ?n] None [] ?h = (Inr (cl, records), w1)"
    and ev3: "trace w2 = trace w1 @ ev3" "filter is_create ev3 = []"
      "concat (map invoked_with ev3) = []" by blast
  have H: "ticks ?h = ticks w \<and> trace ?h = trace w @
       [Print Banner, Print (ModelLine model_id), Print (RegionLine region),
        Print (IterationsLine iterations), Print (PromptLengthLine (length prompt))]"
    by simp
  from full_loop[OF loop n] obtain c ev2 where
    c: "boto3_client E
           ((if 1 < iterations then emit (Print (IterationLine 1 iterations)) ?h else ?h)
              \<lparr>ticks := Suc (ticks ?h)\<rparr>) (session_kwargs profile) region = Inr c"
    and len: "length records = ?n"
    and p: "\<forall>i < ?n. pass_record E (ticks ?h + 2 + 6 * i)
           (if i = 0 then Some (fsub (perf_clock E (Suc (ticks ?h))) (perf_clock E (ticks ?h))) else None)
           (records ! i)"
    and ev2: "trace w1 = trace ?h @ ev2"
      "filter is_create ev2 = [CreateClient (session_kwargs profile) region]"
      "concat (map invoked_with ev2) = replicate ?n c"
    by blast
  have th: "ticks ?h = ticks w" using H by simp
  let ?hd = "[Print Banner, Print (ModelLine model_id), Print (RegionLine region),
        Print (IterationsLine iterations), Print (PromptLengthLine (length prompt))]"
  have "trace w2 = trace w @ (?hd @ ev2 @ ev3)
      \<and> filter is_create (?hd @ ev2 @ ev3) = [CreateClient (session_kwargs profile) region]
      \<and> concat (map invoked_with (?hd @ ev2 @ ev3)) = replicate ?n c"
    using H ev2 ev3 by simp
  then have tr: "\<exists>evs. trace w2 = trace w @ evs
      \<and> filter is_create evs = [CreateClient (session_kwargs profile) region]
      \<and> concat (map invoked_with evs) = replicate ?n c" by blast
  have p': "\<forall>i < ?n. pass_record E (ticks w + 2 + 6 * i)
           (if i = 0 then Some (fsub (perf_clock E (Suc (ticks w))) (perf_clock E (ticks w))) else None)
           (records ! i)"
    using p unfolding th .
  have p0: "client_init (records ! 0) = Some (fsub (perf_clock E (Suc (ticks w))) (perf_clock E (ticks w)))"
    using p' n by (auto simp: pass_record_def)
  have p1: "\<forall>i. 0 < i \<and> i < ?n \<longrightarrow> client_init (records ! i) = None"
    using p' by (auto simp: pass_record_def)
  have p2: "\<forall>i < ?n.
          api_call (records ! i) =
            fsub (perf_clock E (ticks w + 6 * i + 4)) (perf_clock E (ticks w + 6 * i + 3))
          \<and> response_parse (records ! i) =
            fsub (perf_clock E (ticks w + 6 * i + 7)) (perf_clock E (ticks w + 6 * i + 6))"
  proof (intro allI impI)
    fix i assume "i < ?n"
    then have r: "pass_record E (ticks w + 2 + 6 * i)
           (if i = 0 then Some (fsub (perf_clock E (Suc (ticks w))) (perf_clock E (ticks w))) else None)
           (records ! i)" using p' by blast
    have e: "ticks w + 2 + 6 * i + 2 = ticks w + 6 * i + 4" "ticks w + 2 + 6 * i + 1 = ticks w + 6 * i + 3"
      "ticks w + 2 + 6 * i + 5 = ticks w + 6 * i + 7" "ticks w + 2 + 6 * i + 4 = ticks w + 6 * i + 6"
      by simp_all
    show "api_call (records ! i) =
            fsub (perf_clock E (ticks w + 6 * i + 4)) (perf_clock E (ticks w + 6 * i + 3))
          \<and> response_parse (records ! i) =
            fsub (perf_clock E (ticks w + 6 * i + 7)) (perf_clock E (ticks w + 6 * i + 6))"
      using r unfolding pass_record_def e by blast
  qed
  have "(if 1 < iterations then emit (Print (IterationLine 1 iterations)) ?h else ?h)
               \<lparr>ticks := Suc (ticks ?h)\<rparr>
      = w\<lparr>ticks := Suc (ticks w),
               trace := trace w @
                 [Print Banner, Print (ModelLine model_id), Print (RegionLine region),
                  Print (IterationsLine iterations), Print (PromptLengthLine (length prompt))] @
                 (if 1 < iterations then [Print (IterationLine 1 iterations)] else [])\<rparr>"
    by (simp add: emit_def)
  then have c': "boto3_client E
            (w\<lparr>ticks := Suc (ticks w),
               trace := trace w @
                 [Print Banner, Print (ModelLine model_id), Print (RegionLine region),
                  Print (IterationsLine iterations), Print (PromptLengthLine (length prompt))] @
                 (if 1 < iterations then [Print (IterationLine 1 iterations)] else [])\<rparr>)
            (session_kwargs profile) region = Inr c"
    using c by simp
  show ?thesis using len p0 p1 p2 c' tr by blast
qed

theorem complete_run_records_witness:
  "\<exists>records w2.
      run_timing_test (stub_env rat_of_nat None (Inr hello_body)) ''claude'' ''hello''
          ''us-east-1'' None 1000 2 world0 = (Inr records, w2)
      \<and> length records = 2
      \<and> client_init (records ! 0) = Some 1
      \<and> client_init (records ! 1) = None
      \<and> (\<exists>c evs. trace w2 = trace world0 @ evs
            \<and> filter is_create evs = [CreateClient [] ''us-east-1'']
            \<and> concat (map invoked_with evs) = [c, c])"
proof -
  let ?E = "stub_env rat_of_nat None (Inr hello_body)"
  obtain records w2 where run:
    "run_timing_test ?E ''claude'' ''hello'' ''us-east-1'' None 1000 2 world0 = (Inr records, w2)"
    using hello_run_two by blast
  have one: "(1::int) \<le> 2" by simp
  note T = complete_run_records[OF one run]
  have len: "length records = 2" using T by simp
  have c0: "client_init (records ! 0) = Some 1"
    using T by (simp add: stub_env_def world0_def float_simps)
  have "0 < (1::nat) \<and> (1::nat) < nat 2" by simp
  then have c1: "client_init (records ! 1) = None" using T by blast
  from T obtain c evs where "trace w2 = trace world0 @ evs"
    "filter is_create evs = [CreateClient (session_kwargs None) ''us-east-1'']"
    "concat (map invoked_with evs) = replicate (nat 2) c" by blast
  then have "trace w2 = trace world0 @ evs
            \<and> filter is_create evs = [CreateClient [] ''us-east-1'']
            \<and> concat (map invoked_with evs) = [c, c]"
    by (simp add: session_kwargs_def numeral_2_eq_2)
  then show ?thesis using run len c0 c1 by blast
qed

section \<open>The error of one rounding\<close>

lemma fl_error_pos:
  assumes "0 < q"
  shows "\<bar>fl q - q\<bar> \<le> q / 2 ^ 53" "\<bar>fl q - q\<bar> \<le> fl q / 2 ^ 53"
proof -
  let ?e = "ilog2 q - 52"
  let ?P = "(2::rat) powi ?e"
  let ?x = "q / ?P"
  have p: "0 < ?P" by simp
  have q: "q = ?x * ?P" by simp
  have f: "fl q = of_int (mant q) * ?P" using assms by (rule fl_pos_eq)
  have "\<bar>rat_of_int (mant q) - ?x\<bar> \<le> 1 / 2"
    using rhe_bounds[of ?x] unfolding mant_def by linarith
  then have "\<bar>rat_of_int (mant q) - ?x\<bar> * ?P \<le> 1 / 2 * ?P"
    using p by (intro mult_right_mono) simp_all
  moreover have "fl q - q = (rat_of_int (mant q) - ?x) * ?P"
    unfolding f by (simp add: algebra_simps)
  ultimately have d: "\<bar>fl q - q\<bar> \<le> ?P / 2"
    using p by (simp add: abs_mult)
  have s: "(2::rat) powi (ilog2 q) = 2 ^ 52 * ?P"
    using powi2_scale[of 52 ?e] by (simp add: add.commute)
  have "2 ^ 52 * ?P \<le> q" using ilog2_bounds(1)[OF assms] s by simp
  then show "\<bar>fl q - q\<bar> \<le> q / 2 ^ 53" using d by simp
  have "rat_of_int (2 ^ 52) \<le> rat_of_int (mant q)"
    using mant_bounds(1)[OF assms] by (simp only: of_int_le_iff)
  then have "rat_of_int (2 ^ 52) * ?P \<le> rat_of_int (mant q) * ?P"
    using p by (intro mult_right_mono) simp_all
  then have "2 ^ 52 * ?P \<le> fl q" unfolding f by simp
  then show "\<bar>fl q - q\<bar> \<le> fl q / 2 ^ 53" using d by simp
qed

lemma fl_error: "\<bar>fl q - q\<bar> \<le> \<bar>q\<bar> / 2 ^ 53" "\<bar>fl q - q\<bar> \<le> \<bar>fl q\<bar> / 2 ^ 53"
proof -
  consider "q = 0" | "0 < q" | "q < 0" by linarith
  then have "\<bar>fl q - q\<bar> \<le> \<bar>q\<bar> / 2 ^ 53 \<and> \<bar>fl q - q\<bar> \<le> \<bar>fl q\<bar> / 2 ^ 53"
  proof cases
    case 1
    then show ?thesis by (simp add: fl_zero)
  next
    case 2
    have "0 < fl q" using 2 by (rule fl_pos)
    then show ?thesis using fl_error_pos[OF 2] 2 by simp
  next
    case 3
    then have n: "0 < - q" by simp
    have "0 < fl (- q)" using n by (rule fl_pos)
    then have "fl q < 0" by (simp add: fl_minus)
    moreover have "\<bar>fl q - q\<bar> = \<bar>fl (- q) - (- q)\<bar>" by (simp add: fl_minus)
    ultimately show ?thesis using fl_error_pos[OF n] 3 by (simp add: fl_minus)
  qed
  then show "\<bar>fl q - q\<bar> \<le> \<bar>q\<bar> / 2 ^ 53" "\<bar>fl q - q\<bar> \<le> \<bar>fl q\<bar> / 2 ^ 53" by simp_all
qed

section \<open>The totals of a record\<close>

lemma fsub_is_double: "fl (fsub x y) = fsub x y"
  by (simp add: fsub_def fl_idem)

lemma iteration_record:
  assumes "iteration E model_id prompt region profile max_tokens iterations i cl w = (Inr (c, t), w1)"
  shows "\<exists>k init. pass_record E k init t"
proof (cases "i = 0")
  case True
  then show ?thesis using iteration_first_InrD[of E model_id prompt region profile max_tokens iterations cl w c t w1] assms
    by blast
next
  case False
  then show ?thesis using iteration_later_InrD[OF assms] by blast
qed

lemma pass_record_totals:
  assumes "pass_record E k init t"
  shows "total_without_init t = fadd (api_call t) (response_parse t)
    \<and> \<bar>total_without_init t - (api_call t + response_parse t)\<bar>
         \<le> \<bar>api_call t + response_parse t\<bar> / 2 ^ 53
    \<and> total_with_init t =
        fadd (fadd (case client_init t of None \<Rightarrow> 0 | Some x \<Rightarrow> x) (api_call t)) (response_parse t)
    \<and> (client_init t = None \<longrightarrow> total_with_init t = total_without_init t)
    \<and> (\<forall>x. client_init t = Some x \<longrightarrow>
          \<bar>total_with_init t - (total_without_init t + x)\<bar>
             \<le> (\<bar>fadd x (api_call t)\<bar> + \<bar>total_without_init t\<bar> + \<bar>total_with_init t\<bar>) / 2 ^ 53
          \<and> (0 \<le> x \<and> 0 \<le> api_call t \<and> 0 \<le> response_parse t \<longrightarrow>
               \<bar>total_with_init t - (total_without_init t + x)\<bar> \<le> 3 * total_with_init t / 2 ^ 53)
          \<and> (fl (x + api_call t) = x + api_call t
              \<and> fl (x + api_call t + response_parse t) = x + api_call t + response_parse t
              \<and> fl (api_call t + response_parse t) = api_call t + response_parse t \<longrightarrow>
               total_with_init t = total_without_init t + x)
          \<and> (0 \<le> x \<longrightarrow> total_without_init t \<le> total_with_init t))"
proof -
  let ?a = "api_call t" and ?p = "response_parse t"
  have a: "fl ?a = ?a" using assms unfolding pass_record_def by (simp add: fsub_is_double)
  have two: "total_without_init t = fadd ?a ?p" using assms unfolding pass_record_def by simp
  have twi: "total_with_init t =
        fadd (fadd (case client_init t of None \<Rightarrow> 0 | Some c \<Rightarrow> c) ?a) ?p"
    using assms unfolding pass_record_def by simp
  have tol: "\<bar>total_without_init t - (?a + ?p)\<bar> \<le> \<bar>?a + ?p\<bar> / 2 ^ 53"
    unfolding two fadd_def by (rule fl_error)
  have none: "client_init t = None \<longrightarrow> total_with_init t = total_without_init t"
    using twi two a by (simp add: fadd_def)
  have some: "\<bar>total_with_init t - (total_without_init t + x)\<bar>
             \<le> (\<bar>fadd x ?a\<bar> + \<bar>total_without_init t\<bar> + \<bar>total_with_init t\<bar>) / 2 ^ 53
          \<and> (0 \<le> x \<and> 0 \<le> ?a \<and> 0 \<le> ?p \<longrightarrow>
               \<bar>total_with_init t - (total_without_init t + x)\<bar> \<le> 3 * total_with_init t / 2 ^ 53)
          \<and> (fl (x + ?a) = x + ?a \<and> fl (x + ?a + ?p) = x + ?a + ?p \<and> fl (?a + ?p) = ?a + ?p \<longrightarrow>
               total_with_init t = total_without_init t + x)
          \<and> (0 \<le> x \<longrightarrow> total_without_init t \<le> total_with_init t)"
    if x: "client_init t = Some x" for x
  proof -
    let ?s = "fadd x ?a"
    have w: "total_with_init t = fl (?s + ?p)" using twi x by (simp add: fadd_def)
    have o: "total_without_init t = fl (?a + ?p)" using two by (simp add: fadd_def)
    have s: "?s = fl (x + ?a)" by (simp add: fadd_def)
    have e1: "\<bar>fl (?s + ?p) - (?s + ?p)\<bar> \<le> \<bar>fl (?s + ?p)\<bar> / 2 ^ 53" by (rule fl_error)
    have e2: "\<bar>fl (x + ?a) - (x + ?a)\<bar> \<le> \<bar>fl (x + ?a)\<bar> / 2 ^ 53" by (rule fl_error)
    have e3: "\<bar>fl (?a + ?p) - (?a + ?p)\<bar> \<le> \<bar>fl (?a + ?p)\<bar> / 2 ^ 53" by (rule fl_error)
    have "total_with_init t - (total_without_init t + x)
        = (fl (?s + ?p) - (?s + ?p)) + (fl (x + ?a) - (x + ?a)) - (fl (?a + ?p) - (?a + ?p))"
      unfolding w o s by simp
    then have "\<bar>total_with_init t - (total_without_init t + x)\<bar>
        \<le> \<bar>fl (?s + ?p) - (?s + ?p)\<bar> + \<bar>fl (x + ?a) - (x + ?a)\<bar> + \<bar>fl (?a + ?p) - (?a + ?p)\<bar>"
      by linarith
    then have "\<bar>total_with_init t - (total_without_init t + x)\<bar>
        \<le> \<bar>fl (?s + ?p)\<bar> / 2 ^ 53 + \<bar>fl (x + ?a)\<bar> / 2 ^ 53 + \<bar>fl (?a + ?p)\<bar> / 2 ^ 53"
      using e1 e2 e3 by linarith
    then have b1: "\<bar>total_with_init t - (total_without_init t + x)\<bar>
             \<le> (\<bar>?s\<bar> + \<bar>total_without_init t\<bar> + \<bar>total_with_init t\<bar>) / 2 ^ 53"
      unfolding w o s by (simp add: add_divide_distrib)
    have mono: "total_without_init t \<le> total_with_init t" if "0 \<le> x"
    proof -
      have "?a \<le> x + ?a" using that by simp
      then have "fl ?a \<le> fl (x + ?a)" by (rule fl_mono)
      then have "?a + ?p \<le> fl (x + ?a) + ?p" using a by simp
      then have "fl (?a + ?p) \<le> fl (fl (x + ?a) + ?p)" by (rule fl_mono)
      then show ?thesis unfolding w o s .
    qed
    have b2: "\<bar>total_with_init t - (total_without_init t + x)\<bar> \<le> 3 * total_with_init t / 2 ^ 53"
      if nn: "0 \<le> x \<and> 0 \<le> ?a \<and> 0 \<le> ?p"
    proof -
      have "fl 0 \<le> fl (x + ?a)" using nn by (intro fl_mono) simp
      then have s0: "0 \<le> ?s" unfolding s by (simp add: fl_zero)
      have "fl ?s \<le> fl (?s + ?p)" using nn by (intro fl_mono) simp
      then have s1: "?s \<le> total_with_init t" unfolding w by (simp add: fadd_def fl_idem)
      have "fl 0 \<le> fl (?a + ?p)" using nn by (intro fl_mono) simp
      then have o0: "0 \<le> total_without_init t" unfolding o by (simp add: fl_zero)
      have o1: "total_without_init t \<le> total_with_init t" using mono nn by simp
      have "\<bar>?s\<bar> + \<bar>total_without_init t\<bar> + \<bar>total_with_init t\<bar> \<le> 3 * total_with_init t"
        using s0 s1 o0 o1 by linarith
      then have "(\<bar>?s\<bar> + \<bar>total_without_init t\<bar> + \<bar>total_with_init t\<bar>) / 2 ^ 53
          \<le> 3 * total_with_init t / 2 ^ 53"
        by (intro divide_right_mono) simp_all
      then show ?thesis using b1 by linarith
    qed
    have b3: "total_with_init t = total_without_init t + x"
      if "fl (x + ?a) = x + ?a \<and> fl (x + ?a + ?p) = x + ?a + ?p \<and> fl (?a + ?p) = ?a + ?p"
      unfolding w o s using that by simp
    show ?thesis using b1 b2 b3 mono by blast
  qed
  show ?thesis using two tol twi none some by blast
qed

text \<open>
  C4. In the record that a completed iteration builds, \<open>total_without_init\<close> is the
  floating-point sum \<open>api_call + response_parse\<close> (so it equals the exact sum up to
  one rounding, a relative error of at most \<open>2\<^sup>-\<^sup>5\<^sup>3\<close>), and \<open>total_with_init\<close> is the
  floating-point sum \<open>(client_init + api_call) + response_parse\<close>, with 0 for an absent
  \<open>client_init\<close>. When \<open>client_init\<close> is absent the two totals are equal. When it is
  present, \<open>total_with_init\<close> equals \<open>total_without_init + client_init\<close> up to the three
  roundings involved: for durations that are not negative the difference is at most
  \<open>3 \<sqdot> 2\<^sup>-\<^sup>5\<^sup>3\<close> of \<open>total_with_init\<close>, and it is zero when the three sums need no
  rounding. Whenever \<open>client_init \<ge> 0\<close>, \<open>total_without_init \<le> total_with_init\<close>.
\<close>

theorem totals_within_rounding:
  assumes "iteration E model_id prompt region profile max_tokens iterations i cl w = (Inr (c, t), w1)"
  shows "total_without_init t = fadd (api_call t) (response_parse t)
    \<and> \<bar>total_without_init t - (api_call t + response_parse t)\<bar>
         \<le> \<bar>api_call t + response_parse t\<bar> / 2 ^ 53
    \<and> total_with_init t =
        fadd (fadd (case client_init t of None \<Rightarrow> 0 | Some x \<Rightarrow> x) (api_call t)) (response_parse t)
    \<and> (client_init t = None \<longrightarrow> total_with_init t = total_without_init t)
    \<and> (\<forall>x. client_init t = Some x \<longrightarrow>
          \<bar>total_with_init t - (total_without_init t + x)\<bar>
             \<le> (\<bar>fadd x (api_call t)\<bar> + \<bar>total_without_init t\<bar> + \<bar>total_with_init t\<bar>) / 2 ^ 53
          \<and> (0 \<le> x \<and> 0 \<le> api_call t \<and> 0 \<le> response_parse t \<longrightarrow>
               \<bar>total_with_init t - (total_without_init t + x)\<bar> \<le> 3 * total_with_init t / 2 ^ 53)
          \<and> (fl (x + api_call t) = x + api_call t
              \<and> fl (x + api_call t + response_parse t) = x + api_call t + response_parse t
              \<and> fl (api_call t + response_parse t) = api_call t + response_parse t \<longrightarrow>
               total_with_init t = total_without_init t + x)
          \<and> (0 \<le> x \<longrightarrow> total_without_init t \<le> total_with_init t))"
proof -
  from iteration_record[OF assms] obtain k init where "pass_record E k init t" by blast
  then show ?thesis by (rule pass_record_totals)
qed

lemma tenths_durations:
  "fsub (tenths_clock (Suc 0)) (tenths_clock 0) = 3602879701896397 / 36028797018963968"
  "fsub (tenths_clock 4) (tenths_clock 3) = 3602879701896397 / 36028797018963968"
  "fsub (tenths_clock (Suc (Suc (Suc (Suc 0))))) (tenths_clock (Suc (Suc (Suc 0))))
     = 3602879701896397 / 36028797018963968"
  "fsub (tenths_clock 7) (tenths_clock 6) = 3602879701896397 / 9007199254740992"
  by code_simp+

lemma tenths_sums:
  "fadd (fadd (3602879701896397 / 36028797018963968) (3602879701896397 / 36028797018963968))
        (3602879701896397 / 9007199254740992) = 1351079888211149 / 2251799813685248"
  "fadd (3602879701896397 / 36028797018963968) (3602879701896397 / 9007199254740992) = 1 / 2"
  "fadd (1 / 2) (3602879701896397 / 36028797018963968) = 5404319552844595 / 9007199254740992"
  by code_simp+

lemma tenths_iteration:
  "fst (iteration (stub_env tenths_clock None (Inr hello_body)) ''claude'' ''hello''
          ''us-east-1'' None 1000 1 0 None world0) =
     Inr (7, \<lparr>client_init = Some (3602879701896397 / 36028797018963968),
            api_call = 3602879701896397 / 36028797018963968,
            response_parse = 3602879701896397 / 9007199254740992,
            total_with_init = 1351079888211149 / 2251799813685248,
            total_without_init = 1 / 2,
            input_tokens = JInt 10, output_tokens = JInt 3, response_length = 2\<rparr>)"
  by (simp add: run_simps stub_env_def world0_def hello_body_def
      tenths_durations tenths_sums)

theorem totals_within_rounding_witness:
  "fst (iteration (stub_env tenths_clock None (Inr hello_body)) ''claude'' ''hello''
          ''us-east-1'' None 1000 1 0 None world0) =
     Inr (7, \<lparr>client_init = Some (3602879701896397 / 36028797018963968),
            api_call = 3602879701896397 / 36028797018963968,
            response_parse = 3602879701896397 / 9007199254740992,
            total_with_init = 1351079888211149 / 2251799813685248,
            total_without_init = 1 / 2,
            input_tokens = JInt 10, output_tokens = JInt 3, response_length = 2\<rparr>)
   \<and> fadd (3602879701896397 / 36028797018963968) (3602879701896397 / 9007199254740992) = 1 / 2
   \<and> \<bar>1351079888211149 / 2251799813685248 - (1 / 2 + 3602879701896397 / 36028797018963968)\<bar>
        \<le> 3 * (1351079888211149 / 2251799813685248) / (2 ^ 53 :: rat)
   \<and> (1 / 2 :: rat) \<le> 1351079888211149 / 2251799813685248"
proof -
  let ?E = "stub_env tenths_clock None (Inr hello_body)"
  let ?t = "\<lparr>client_init = Some (3602879701896397 / 36028797018963968),
            api_call = 3602879701896397 / 36028797018963968,
            response_parse = 3602879701896397 / 9007199254740992,
            total_with_init = 1351079888211149 / 2251799813685248,
            total_without_init = 1 / 2,
            input_tokens = JInt 10, output_tokens = JInt 3, response_length = 2\<rparr>"
  obtain w1 where it: "iteration ?E ''claude'' ''hello'' ''us-east-1'' None 1000 1 0 None world0
      = (Inr (7, ?t), w1)"
    using tenths_iteration
    by (cases "iteration ?E ''claude'' ''hello'' ''us-east-1'' None 1000 1 0 None world0") simp
  note T = totals_within_rounding[OF it]
  have a: "fadd (3602879701896397 / 36028797018963968) (3602879701896397 / 9007199254740992) = 1 / 2"
    using T by simp
  have "0 \<le> (3602879701896397 / 36028797018963968 :: rat)
      \<and> 0 \<le> api_call ?t \<and> 0 \<le> response_parse ?t" by simp
  then have b: "\<bar>total_with_init ?t - (total_without_init ?t + 3602879701896397 / 36028797018963968)\<bar>
      \<le> 3 * total_with_init ?t / 2 ^ 53"
    using T by simp
  have c: "total_without_init ?t \<le> total_with_init ?t" using T by simp
  show ?thesis using tenths_iteration a b c by simp
qed

text \<open>
  The tolerance is needed: with clock readings 0.0, 0.1, 0.1, 0.1, 0.2, 0.2, 0.4, 0.8
  the pass records \<open>client_init = 0.1\<close>, \<open>api_call = 0.1\<close>, \<open>response_parse = 0.4\<close>,
  \<open>total_without_init = 0.5\<close> and \<open>total_with_init = 0.6000000000000001\<close>, while
  \<open>total_without_init + client_init\<close> is 0.6 when added in floating point; the exact
  difference is \<open>3 / 2\<^sup>5\<^sup>5\<close>.
\<close>

lemma totals_differ_by_rounding:
  "fadd (1 / 2) (3602879701896397 / 36028797018963968) = 5404319552844595 / 9007199254740992"
  "(5404319552844595 / 9007199254740992 :: rat) \<noteq> 1351079888211149 / 2251799813685248"
  "1351079888211149 / 2251799813685248 - (1 / 2 + 3602879701896397 / 36028797018963968)
     = (3 / 2 ^ 55 :: rat)"
  by (simp_all add: tenths_sums)

section \<open>The summary\<close>

lemma py_min_Min: "py_min (x # xs) = Min (set (x # xs))"
proof -
  have "(\<lambda>v m. if v < m then v else m) = (min :: rat \<Rightarrow> rat \<Rightarrow> rat)"
    by (intro ext) (auto simp: min_def)
  then have "py_min (x # xs) = fold min xs x" by simp
  also have "\<dots> = Min (set (x # xs))" by (rule Min.set_eq_fold[symmetric])
  finally show ?thesis .
qed

lemma py_max_Max: "py_max (x # xs) = Max (set (x # xs))"
proof -
  have "(\<lambda>v m. if m < v then v else m) = (max :: rat \<Rightarrow> rat \<Rightarrow> rat)"
    by (intro ext) (auto simp: max_def)
  then have "py_max (x # xs) = fold max xs x" by simp
  also have "\<dots> = Max (set (x # xs))" by (rule Max.set_eq_fold[symmetric])
  finally show ?thesis .
qed

lemma metric_values_present:
  "metric_values ''api_call'' all_timings = map (\<lambda>t. fmul (api_call t) 1000) all_timings"
  "metric_values ''response_parse'' all_timings = map (\<lambda>t. fmul (response_parse t) 1000) all_timings"
  "metric_values ''total_without_init'' all_timings
     = map (\<lambda>t. fmul (total_without_init t) 1000) all_timings"
  by (simp_all add: metric_values_def duration_of_def List.map_filter_def comp_def)

lemma summary_rows_explicit:
  assumes "all_timings \<noteq> []"
  shows "summary_rows E all_timings =
     [metric_row E ''api_call'' (map (\<lambda>t. fmul (api_call t) 1000) all_timings),
      metric_row E ''response_parse'' (map (\<lambda>t. fmul (response_parse t) 1000) all_timings),
      metric_row E ''total_without_init'' (map (\<lambda>t. fmul (total_without_init t) 1000) all_timings)]"
  using assms by (simp add: summary_rows_def metrics_def metric_values_present Let_def)

subsection \<open>The builtin sum\<close>

lemma to_float_zero: "to_float 0 = Inr 0"
  by (simp add: to_float_def fl_zero)

lemma generic_sum_floats:
  "generic_sum (PFloat f) (map JFloat xs) = Inr (PFloat (foldl fadd f xs))"
  by (induction xs arbitrary: f) simp_all

lemma compensated_floats_floats:
  "compensated_floats fc (map JFloat xs) =
     Inr (PFloat (compensate (fst (foldl neumaier_step fc xs)) (snd (foldl neumaier_step fc xs))))"
  by (induction xs arbitrary: fc) simp_all

lemma py_sum_floats: "py_sum E (map JFloat (x # xs)) = Inr (PFloat (float_sum E (x # xs)))"
  by (simp add: py_sum_def float_sum_def leave_ints_def to_float_zero generic_sum_floats
      compensated_floats_floats Let_def)

lemma generic_sum_ints: "generic_sum (PInt a) (map JInt xs) = Inr (PInt (a + sum_list xs))"
  by (induction xs arbitrary: a) (simp_all add: ac_simps)

lemma compensated_ints_ints: "compensated_ints a (map JInt xs) = Inr (PInt (a + sum_list xs))"
  by (induction xs arbitrary: a) (simp_all add: leave_ints_def generic_sum_ints ac_simps)

lemma py_sum_ints: "py_sum E (map JInt xs) = Inr (PInt (sum_list xs))"
  by (simp add: py_sum_def generic_sum_ints compensated_ints_ints)

lemma token_average_ints:
  "0 < n \<Longrightarrow> token_average E (map JInt xs) n =
     (if 2 ^ 1024 \<le> \<bar>fl (of_int (sum_list xs) / of_nat n)\<bar> then Inl OverflowError
      else Inr (fl (of_int (sum_list xs) / of_nat n)))"
  by (simp add: token_average_def py_sum_ints py_truediv_def)

lemma generic_sum_not_number:
  "generic_sum (PInt a) (map JInt xs @ JStr s # ys) = Inl TypeError"
  by (induction xs arbitrary: a) simp_all

lemma compensated_ints_not_number:
  "compensated_ints a (map JInt xs @ JStr s # ys) = Inl TypeError"
  by (induction xs arbitrary: a) (simp_all add: leave_ints_def generic_sum_not_number)

lemma token_average_not_number:
  "token_average E (map JInt xs @ JStr s # ys) n = Inl TypeError"
  by (simp add: token_average_def py_sum_def generic_sum_not_number compensated_ints_not_number)

subsection \<open>Sums that need no rounding\<close>

lemma foldl_fadd_exact:
  assumes "\<forall>k \<le> length xs. fl (a + sum_list (take k xs)) = a + sum_list (take k xs)"
  shows "foldl fadd a xs = a + sum_list xs"
  using assms
proof (induction xs arbitrary: a)
  case Nil
  then show ?case by simp
next
  case (Cons x xs)
  have "Suc 0 \<le> length (x # xs)" by simp
  then have "fl (a + sum_list (take (Suc 0) (x # xs))) = a + sum_list (take (Suc 0) (x # xs))"
    using Cons.prems by blast
  then have s: "fadd a x = a + x" by (simp add: fadd_def)
  have "\<forall>k \<le> length xs. fl (a + x + sum_list (take k xs)) = a + x + sum_list (take k xs)"
  proof (intro allI impI)
    fix k assume "k \<le> length xs"
    then have "Suc k \<le> length (x # xs)" by simp
    then have "fl (a + sum_list (take (Suc k) (x # xs))) = a + sum_list (take (Suc k) (x # xs))"
      using Cons.prems by blast
    then show "fl (a + x + sum_list (take k xs)) = a + x + sum_list (take k xs)"
      by (simp add: add.assoc)
  qed
  then have "foldl fadd (a + x) xs = a + x + sum_list xs" by (rule Cons.IH)
  then show ?case by (simp add: s add.assoc)
qed

lemma neumaier_step_exact:
  assumes "fl f = f" "fl x = x" "fl (f + x) = f + x"
  shows "neumaier_step (f, 0) x = (f + x, 0)"
proof -
  have a: "fl (- x) = - x" "fl (- f) = - f" using assms by (simp_all add: fl_minus)
  show ?thesis
    unfolding neumaier_step_def Let_def
    using assms a by (simp add: fadd_def fsub_def fl_zero)
qed

lemma foldl_neumaier_exact:
  assumes "\<forall>k \<le> length xs. fl (a + sum_list (take k xs)) = a + sum_list (take k xs)"
    and "\<forall>x \<in> set xs. fl x = x"
  shows "foldl neumaier_step (a, 0) xs = (a + sum_list xs, 0)"
  using assms
proof (induction xs arbitrary: a)
  case Nil
  then show ?case by simp
next
  case (Cons x xs)
  have "0 \<le> length (x # xs)" by simp
  then have "fl (a + sum_list (take 0 (x # xs))) = a + sum_list (take 0 (x # xs))"
    using Cons.prems(1) by blast
  then have fa: "fl a = a" by simp
  have "Suc 0 \<le> length (x # xs)" by simp
  then have "fl (a + sum_list (take (Suc 0) (x # xs))) = a + sum_list (take (Suc 0) (x # xs))"
    using Cons.prems(1) by blast
  then have s: "fl (a + x) = a + x" by simp
  have fx: "fl x = x" using Cons.prems(2) by simp
  have st: "neumaier_step (a, 0) x = (a + x, 0)" using fa fx s by (rule neumaier_step_exact)
  have "\<forall>k \<le> length xs. fl (a + x + sum_list (take k xs)) = a + x + sum_list (take k xs)"
  proof (intro allI impI)
    fix k assume "k \<le> length xs"
    then have "Suc k \<le> length (x # xs)" by simp
    then have "fl (a + sum_list (take (Suc k) (x # xs))) = a + sum_list (take (Suc k) (x # xs))"
      using Cons.prems(1) by blast
    then show "fl (a + x + sum_list (take k xs)) = a + x + sum_list (take k xs)"
      by (simp add: add.assoc)
  qed
  moreover have "\<forall>y \<in> set xs. fl y = y" using Cons.prems(2) by simp
  ultimately have "foldl neumaier_step (a + x, 0) xs = (a + x + sum_list xs, 0)" by (rule Cons.IH)
  then show ?case by (simp add: st add.assoc)
qed

lemma float_sum_exact:
  assumes "\<forall>k \<le> length (v # vs). fl (sum_list (take k (v # vs))) = sum_list (take k (v # vs))"
    and "\<forall>x \<in> set (v # vs). fl x = x"
  shows "float_sum E (v # vs) = sum_list (v # vs)"
proof -
  have fv: "fl v = v" using assms(2) by simp
  have p: "\<forall>k \<le> length vs. fl (v + sum_list (take k vs)) = v + sum_list (take k vs)"
  proof (intro allI impI)
    fix k assume "k \<le> length vs"
    then have "Suc k \<le> length (v # vs)" by simp
    then have "fl (sum_list (take (Suc k) (v # vs))) = sum_list (take (Suc k) (v # vs))"
      using assms(1) by blast
    then show "fl (v + sum_list (take k vs)) = v + sum_list (take k vs)" by simp
  qed
  have q: "\<forall>x \<in> set vs. fl x = x" using assms(2) by simp
  show ?thesis
  proof (cases "compensated_sum E")
    case True
    have "foldl neumaier_step (v, 0) vs = (v + sum_list vs, 0)"
      using p q by (rule foldl_neumaier_exact)
    then show ?thesis using True fv by (simp add: float_sum_def fadd_def compensate_def)
  next
    case False
    have "foldl fadd v vs = v + sum_list vs" using p by (rule foldl_fadd_exact)
    then show ?thesis using False fv by (simp add: float_sum_def fadd_def)
  qed
qed

lemma sum_10_20_30: "float_sum E [10, 20, 30] = 60"
proof -
  have "\<forall>k \<le> length [10, 20, 30 :: rat].
      fl (sum_list (take k [10, 20, 30])) = sum_list (take k [10, 20, 30])"
  proof (intro allI impI)
    fix k :: nat assume "k \<le> length [10, 20, 30 :: rat]"
    then have "k = 0 \<or> k = 1 \<or> k = 2 \<or> k = 3" by auto
    then show "fl (sum_list (take k [10, 20, 30])) = sum_list (take k [10, 20, 30])"
      by (auto simp: fl_zero fl_numeral eval_nat_numeral)
  qed
  moreover have "\<forall>x \<in> set [10, 20, 30 :: rat]. fl x = x" by (simp add: fl_numeral)
  ultimately have "float_sum E [10, 20, 30] = sum_list [10, 20, 30]" by (rule float_sum_exact)
  then show ?thesis by simp
qed

text \<open>
  C8. A run of more than one iteration that returns has printed the summary, once,
  after the last pass: for each of \<open>api_call\<close>, \<open>response_parse\<close> and
  \<open>total_without_init\<close> (every record holds them) the row computed from the values of
  all records in milliseconds, and the means of \<open>input_tokens\<close> and of \<open>output_tokens\<close>
  over all records. In a row the minimum is the least value, the maximum the greatest,
  and the average is \<open>sum(values) / len(values)\<close> in floating point, where \<open>sum\<close> is the
  builtin of the interpreter at hand (added from the left before CPython 3.12,
  compensated from then on); on either interpreter it is the arithmetic mean rounded
  once whenever the values and their partial sums are doubles. The mean of integer
  token counts is their sum divided by the number of records, rounded once, and
  OverflowError when that is beyond the doubles; a token count that is not a number
  makes the summary raise TypeError. Over [10.0, 20.0, 30.0] the minimum is 10.0, the
  maximum 30.0 and the mean 20.0. With a single iteration no line of the summary is
  printed.
\<close>

theorem summary_statistics:
  assumes "run_timing_test E model_id prompt region profile max_tokens iterations w = (Inr records, w2)"
  shows "(1 < iterations \<longrightarrow>
           (\<exists>avg_in avg_out.
               filter is_summary (trace w2) = filter is_summary (trace w) @
                 [Print SummaryBanner,
                  Print (SummaryTable
                    [metric_row E ''api_call'' (map (\<lambda>t. fmul (api_call t) 1000) records),
                     metric_row E ''response_parse'' (map (\<lambda>t. fmul (response_parse t) 1000) records),
                     metric_row E ''total_without_init''
                       (map (\<lambda>t. fmul (total_without_init t) 1000) records)]),
                  Print (AverageTokensLine avg_in avg_out)]
             \<and> token_average E (map input_tokens records) (length records) = Inr avg_in
             \<and> token_average E (map output_tokens records) (length records) = Inr avg_out))
    \<and> (iterations \<le> 1 \<longrightarrow> filter is_summary (trace w2) = filter is_summary (trace w))
    \<and> (\<forall>key v vs.
          min_val (metric_row E key (v # vs)) = Min (set (v # vs))
        \<and> max_val (metric_row E key (v # vs)) = Max (set (v # vs))
        \<and> avg_val (metric_row E key (v # vs))
            = fdiv (float_sum E (v # vs)) (fl (of_nat (length (v # vs))))
        \<and> py_sum E (map JFloat (v # vs)) = Inr (PFloat (float_sum E (v # vs)))
        \<and> (\<not> compensated_sum E \<longrightarrow> float_sum E (v # vs) = foldl fadd 0 (v # vs))
        \<and> (compensated_sum E \<longrightarrow>
              float_sum E (v # vs) =
                compensate (fst (foldl neumaier_step (fadd 0 v, 0) vs))
                           (snd (foldl neumaier_step (fadd 0 v, 0) vs)))
        \<and> ((\<forall>k \<le> length (v # vs). fl (sum_list (take k (v # vs))) = sum_list (take k (v # vs)))
            \<and> (\<forall>x \<in> set (v # vs). fl x = x) \<and> length (v # vs) < 2 ^ 53 \<longrightarrow>
              float_sum E (v # vs) = sum_list (v # vs)
              \<and> avg_val (metric_row E key (v # vs))
                  = fl (sum_list (v # vs) / of_nat (length (v # vs)))))
    \<and> (\<forall>xs n. 0 < n \<longrightarrow>
          token_average E (map JInt xs) n =
            (if 2 ^ 1024 \<le> \<bar>fl (of_int (sum_list xs) / of_nat n)\<bar> then Inl OverflowError
             else Inr (fl (of_int (sum_list xs) / of_nat n))))
    \<and> (\<forall>xs s ys n. token_average E (map JInt xs @ JStr s # ys) n = Inl TypeError)
    \<and> min_val (metric_row E ''api_call'' [10, 20, 30]) = 10
    \<and> max_val (metric_row E ''api_call'' [10, 20, 30]) = 30
    \<and> avg_val (metric_row E ''api_call'' [10, 20, 30]) = 20"
proof -
  let ?wh = "w\<lparr>trace := trace w @
                 [Print Banner, Print (ModelLine model_id), Print (RegionLine region),
                  Print (IterationsLine iterations), Print (PromptLengthLine (length prompt))]\<rparr>"
  from run_timing_test_InrD[OF assms] obtain cl w1 where
    loop: "run_iterations E model_id prompt region profile max_tokens iterations
            [0 ..< nat iterations] None [] ?wh = (Inr (cl, records), w1)"
    and ps: "1 < iterations \<longrightarrow> print_summary E records w1 = (Inr (), w2)"
    and one: "\<not> 1 < iterations \<longrightarrow> w2 = w1"
    by blast
  have ns1: "filter is_summary (trace w1) = filter is_summary (trace w)"
    using run_iterations_no_summary[of E model_id prompt region profile max_tokens iterations
        "[0 ..< nat iterations]" None "[]" ?wh] loop
    by simp
  have many: "1 < iterations \<longrightarrow>
           (\<exists>avg_in avg_out.
               filter is_summary (trace w2) = filter is_summary (trace w) @
                 [Print SummaryBanner,
                  Print (SummaryTable
                    [metric_row E ''api_call'' (map (\<lambda>t. fmul (api_call t) 1000) records),
                     metric_row E ''response_parse'' (map (\<lambda>t. fmul (response_parse t) 1000) records),
                     metric_row E ''total_without_init''
                       (map (\<lambda>t. fmul (total_without_init t) 1000) records)]),
                  Print (AverageTokensLine avg_in avg_out)]
             \<and> token_average E (map input_tokens records) (length records) = Inr avg_in
             \<and> token_average E (map output_tokens records) (length records) = Inr avg_out)"
  proof
    assume N: "1 < iterations"
    have "length records = nat iterations"
      using run_iterations_length[OF loop] by simp
    then have ne: "records \<noteq> []" using N by auto
    from print_summary_InrD[of E records w1 "()" w2] ps N obtain avg_in avg_out where
      a: "token_average E (map input_tokens records) (length records) = Inr avg_in"
         "token_average E (map output_tokens records) (length records) = Inr avg_out"
         "w2 = w1\<lparr>trace := trace w1 @ [Print SummaryBanner, Print (SummaryTable (summary_rows E records)),
                              Print (AverageTokensLine avg_in avg_out)]\<rparr>"
      by auto
    have "filter is_summary (trace w2) = filter is_summary (trace w) @
        [Print SummaryBanner, Print (SummaryTable (summary_rows E records)),
         Print (AverageTokensLine avg_in avg_out)]"
      unfolding a(3) using ns1 by simp
    then show "\<exists>avg_in avg_out.
               filter is_summary (trace w2) = filter is_summary (trace w) @
                 [Print SummaryBanner,
                  Print (SummaryTable
                    [metric_row E ''api_call'' (map (\<lambda>t. fmul (api_call t) 1000) records),
                     metric_row E ''response_parse'' (map (\<lambda>t. fmul (response_parse t) 1000) records),
                     metric_row E ''total_without_init''
                       (map (\<lambda>t. fmul (total_without_init t) 1000) records)]),
                  Print (AverageTokensLine avg_in avg_out)]
             \<and> token_average E (map input_tokens records) (length records) = Inr avg_in
             \<and> token_average E (map output_tokens records) (length records) = Inr avg_out"
      using a(1,2) unfolding summary_rows_explicit[OF ne] by blast
  qed
  have single: "iterations \<le> 1 \<longrightarrow> filter is_summary (trace w2) = filter is_summary (trace w)"
    using one ns1 by auto
  have rows: "min_val (metric_row E key (v # vs)) = Min (set (v # vs))
        \<and> max_val (metric_row E key (v # vs)) = Max (set (v # vs))
        \<and> avg_val (metric_row E key (v # vs))
            = fdiv (float_sum E (v # vs)) (fl (of_nat (length (v # vs))))
        \<and> py_sum E (map JFloat (v # vs)) = Inr (PFloat (float_sum E (v # vs)))
        \<and> (\<not> compensated_sum E \<longrightarrow> float_sum E (v # vs) = foldl fadd 0 (v # vs))
        \<and> (compensated_sum E \<longrightarrow>
              float_sum E (v # vs) =
                compensate (fst (foldl neumaier_step (fadd 0 v, 0) vs))
                           (snd (foldl neumaier_step (fadd 0 v, 0) vs)))
        \<and> ((\<forall>k \<le> length (v # vs). fl (sum_list (take k (v # vs))) = sum_list (take k (v # vs)))
            \<and> (\<forall>x \<in> set (v # vs). fl x = x) \<and> length (v # vs) < 2 ^ 53 \<longrightarrow>
              float_sum E (v # vs) = sum_list (v # vs)
              \<and> avg_val (metric_row E key (v # vs))
                  = fl (sum_list (v # vs) / of_nat (length (v # vs))))" for key v vs
  proof -
    have m: "min_val (metric_row E key (v # vs)) = Min (set (v # vs))"
      "max_val (metric_row E key (v # vs)) = Max (set (v # vs))"
      unfolding metric_row_def Let_def py_min_Min py_max_Max by simp_all
    have av: "avg_val (metric_row E key (v # vs))
            = fdiv (float_sum E (v # vs)) (fl (of_nat (length (v # vs))))"
      by (simp add: metric_row_def Let_def)
    have g: "\<not> compensated_sum E \<longrightarrow> float_sum E (v # vs) = foldl fadd 0 (v # vs)"
      by (simp add: float_sum_def)
    have n: "compensated_sum E \<longrightarrow>
              float_sum E (v # vs) =
                compensate (fst (foldl neumaier_step (fadd 0 v, 0) vs))
                           (snd (foldl neumaier_step (fadd 0 v, 0) vs))"
      by (simp add: float_sum_def Let_def)
    have ex: "float_sum E (v # vs) = sum_list (v # vs)
              \<and> avg_val (metric_row E key (v # vs))
                  = fl (sum_list (v # vs) / of_nat (length (v # vs)))"
      if h: "(\<forall>k \<le> length (v # vs). fl (sum_list (take k (v # vs))) = sum_list (take k (v # vs)))
            \<and> (\<forall>x \<in> set (v # vs). fl x = x) \<and> length (v # vs) < 2 ^ 53"
    proof -
      have s: "float_sum E (v # vs) = sum_list (v # vs)"
        using h float_sum_exact[of v vs E] by blast
      have "\<bar>int (length (v # vs))\<bar> < 2 ^ 53" using h by simp
      then have "fl (rat_of_int (int (length (v # vs)))) = rat_of_int (int (length (v # vs)))"
        by (rule fl_of_int)
      then have l: "fl (of_nat (length (v # vs))) = (of_nat (length (v # vs)) :: rat)"
        by simp
      show ?thesis unfolding av s l by (simp add: fdiv_def)
    qed
    show ?thesis using m av py_sum_floats[of E v vs] g n ex by blast
  qed
  have e: "min_val (metric_row E ''api_call'' [10, 20, 30]) = 10"
    "max_val (metric_row E ''api_call'' [10, 20, 30]) = 30"
    "avg_val (metric_row E ''api_call'' [10, 20, 30]) = 20"
    by (simp_all add: metric_row_def Let_def sum_10_20_30 fdiv_def fl_numeral)
  show ?thesis
    using many single rows e token_average_ints[of _ E] token_average_not_number[of E]
    by blast
qed

lemma hello_run_one:
  "run_timing_test (stub_env rat_of_nat None (Inr hello_body)) ''claude'' ''hello'' ''us-east-1''
      None 1000 1 world0 =
   (Inr [\<lparr>client_init = Some 1, api_call = 1, response_parse = 1,
          total_with_init = 3, total_without_init = 2,
          input_tokens = JInt 10, output_tokens = JInt 3, response_length = 2\<rparr>],
    \<lparr>ticks = 8,
     trace =
       [Print Banner, Print (ModelLine ''claude''),
        Print (RegionLine ''us-east-1''), Print (IterationsLine 1),
        Print (PromptLengthLine 5),
        CreateClient [] ''us-east-1'', Print (ClientInitLine 1000),
        InvokeModel 7 ''claude'' ''request'' ''application/json'' ''application/json'',
        Print (ApiCallLine 1000), Print (ParseLine 1000),
        Print (TotalWithInitLine 3000), Print (TotalWithoutInitLine 2000),
        Print (TokensLine (JInt 10) (JInt 3)), Print (ResponseLengthLine 2)]\<rparr>)"
  by (simp add: run_timing_test_def run_simps float_simps stub_env_def
      world0_def hello_body_def upt_rec)

theorem summary_statistics_witness:
  "filter is_summary (trace (snd (run_timing_test (stub_env rat_of_nat None (Inr hello_body))
       ''claude'' ''hello'' ''us-east-1'' None 1000 2 world0))) =
     [Print SummaryBanner,
      Print (SummaryTable
        [\<lparr>metric = ''api_call'', min_val = 1000, max_val = 1000,
            avg_val = 1000, median_val = 1000\<rparr>,
         \<lparr>metric = ''response_parse'', min_val = 1000, max_val = 1000,
            avg_val = 1000, median_val = 1000\<rparr>,
         \<lparr>metric = ''total_without_init'', min_val = 2000,
            max_val = 2000, avg_val = 2000, median_val = 2000\<rparr>]),
      Print (AverageTokensLine 10 3)]
   \<and> filter is_summary (trace (snd (run_timing_test (stub_env rat_of_nat None (Inr hello_body))
       ''claude'' ''hello'' ''us-east-1'' None 1000 1 world0))) = []
   \<and> token_average (stub_env rat_of_nat None (Inr hello_body)) [JInt 10, JInt 10] 2 = Inr 10
   \<and> token_average (stub_env rat_of_nat None (Inr hello_body)) [JInt (10 ^ 400), JInt (10 ^ 400)] 2
       = Inl OverflowError"
proof -
  let ?E = "stub_env rat_of_nat None (Inr hello_body)"
  note T = summary_statistics[OF hello_run_two]
  have "(1::int) < 2" by simp
  then have a: "filter is_summary (trace (snd (run_timing_test ?E
       ''claude'' ''hello'' ''us-east-1'' None 1000 2 world0))) =
     [Print SummaryBanner,
      Print (SummaryTable
        [\<lparr>metric = ''api_call'', min_val = 1000, max_val = 1000,
            avg_val = 1000, median_val = 1000\<rparr>,
         \<lparr>metric = ''response_parse'', min_val = 1000, max_val = 1000,
            avg_val = 1000, median_val = 1000\<rparr>,
         \<lparr>metric = ''total_without_init'', min_val = 2000,
            max_val = 2000, avg_val = 2000, median_val = 2000\<rparr>]),
      Print (AverageTokensLine 10 3)]"
    by (simp add: hello_run_two)
  have "(1::int) \<le> 1" by simp
  then have "filter is_summary (trace (snd (run_timing_test ?E
       ''claude'' ''hello'' ''us-east-1'' None 1000 1 world0))) = filter is_summary (trace world0)"
    using summary_statistics[OF hello_run_one] by (simp add: hello_run_one)
  then have s: "filter is_summary (trace (snd (run_timing_test ?E
       ''claude'' ''hello'' ''us-east-1'' None 1000 1 world0))) = []"
    by (simp add: world0_def)
  have i: "\<forall>xs n. 0 < n \<longrightarrow>
          token_average ?E (map JInt xs) n =
            (if 2 ^ 1024 \<le> \<bar>fl (of_int (sum_list xs) / of_nat n)\<bar> then Inl OverflowError
             else Inr (fl (of_int (sum_list xs) / of_nat n)))"
    using T by blast
  have b: "token_average ?E [JInt 10, JInt 10] 2 = Inr 10"
    using i[rule_format, of 2 "[10, 10]"] by (simp add: fl_numeral)
  have big: "fl (10 ^ 400) \<ge> (2 ^ 1024 :: rat)"
  proof -
    have "fl (2 ^ 1024) \<le> fl (10 ^ 400 :: rat)" by (intro fl_mono) simp
    moreover have "fl (2 ^ 1024) = (2 ^ 1024 :: rat)"
      using fl_exact[of 1 1024] by (simp add: power_int_def)
    ultimately show ?thesis by simp
  qed
  have c: "token_average ?E [JInt (10 ^ 400), JInt (10 ^ 400)] 2 = Inl OverflowError"
    using i[rule_format, of 2 "[10 ^ 400, 10 ^ 400]"] big by simp
  show ?thesis using a s b c by simp
qed

text \<open>
  The interpreter matters: over the doubles nearest to 0.3, 0.1 and 0.2 the sum added
  from the left is 0.6000000000000001 and the compensated sum is 0.6, so the averages
  printed are 0.20000000000000004 and 0.19999999999999998.
\<close>

lemma three_tenths_steps:
  "fl (3 / 10) = 5404319552844595 / 18014398509481984"
  "fl (1 / 10) = 3602879701896397 / 36028797018963968"
  "fl (2 / 10) = 3602879701896397 / 18014398509481984"
  "fadd 0 (5404319552844595 / 18014398509481984) = 5404319552844595 / 18014398509481984"
  "fadd (5404319552844595 / 18014398509481984) (3602879701896397 / 36028797018963968)
     = 3602879701896397 / 9007199254740992"
  "fadd (3602879701896397 / 9007199254740992) (3602879701896397 / 18014398509481984)
     = 1351079888211149 / 2251799813685248"
  "fsub (5404319552844595 / 18014398509481984) (3602879701896397 / 9007199254740992)
     = - (1801439850948199 / 18014398509481984)"
  "fadd (- (1801439850948199 / 18014398509481984)) (3602879701896397 / 36028797018963968)
     = - (1 / 36028797018963968)"
  "fadd 0 (- (1 / 36028797018963968)) = - (1 / 36028797018963968)"
  "fsub (3602879701896397 / 9007199254740992) (1351079888211149 / 2251799813685248)
     = - (1801439850948199 / 9007199254740992)"
  "fadd (- (1801439850948199 / 9007199254740992)) (3602879701896397 / 18014398509481984)
     = - (1 / 18014398509481984)"
  "fadd (- (1 / 36028797018963968)) (- (1 / 18014398509481984)) = - (3 / 36028797018963968)"
  "fadd (1351079888211149 / 2251799813685248) (- (3 / 36028797018963968))
     = 5404319552844595 / 9007199254740992"
  by code_simp+

lemma sum_depends_on_interpreter:
  "float_sum ((stub_env rat_of_nat None (Inr hello_body))\<lparr>compensated_sum := False\<rparr>)
      [fl (3 / 10), fl (1 / 10), fl (2 / 10)] = 1351079888211149 / 2251799813685248"
  "float_sum (stub_env rat_of_nat None (Inr hello_body))
      [fl (3 / 10), fl (1 / 10), fl (2 / 10)] = 5404319552844595 / 9007199254740992"
  "(1351079888211149 / 2251799813685248 :: rat) \<noteq> 5404319552844595 / 9007199254740992"
  unfolding three_tenths_steps(1-3)
  by (simp_all add: float_sum_def neumaier_step_def compensate_def stub_env_def Let_def
      three_tenths_steps)

end
